theory Spec2Isabelle
  imports Main "HOL-Library.Word" "HOL-Library.Monad_Syntax"
begin

unbundle bit_operations_syntax

section \<open>Results of the extension's entry points\<close>

text \<open>
  Every entry point of the module either returns a value or returns the failure value
  (\<open>NULL\<close> or \<open>-1\<close>) after setting a Python exception. The exceptions the module
  raises are the constructors below, each carrying the message given to
  \<open>PyErr_SetString\<close> or \<open>PyErr_Format\<close>. \<open>NullWithoutException\<close> is the failure
  value returned with no exception set, which the interpreter reports as a
  \<open>SystemError\<close>. \<open>OverflowError\<close> is raised by the interpreter's own conversion of an
  argument to a C \<open>int\<close> (format unit \<open>i\<close>). \<open>OSErrorFromErrno\<close> is
  \<open>PyErr_SetFromErrno(PyExc_OSError)\<close> with the value of \<open>errno\<close>.
  \<open>OutOfBoundsRead\<close> is no exception: it marks a read outside a C array or through a
  pointer to no object, where the behaviour of the C code is undefined.
\<close>

datatype error =
    ValueError string
  | TypeError string
  | OSError string
  | IndexError string
  | LookupError string
  | MemoryError string
  | OSErrorFromErrno int
  | OverflowError
  | NullWithoutException
  | OutOfBoundsRead

text \<open>
  Format unit \<open>i\<close> of \<open>PyArg_ParseTuple\<close>: a Python integer is converted to a C
  \<open>int\<close> (32 bits, two's complement); a value outside the range of \<open>int\<close> raises
  \<open>OverflowError\<close>.
\<close>

definition PyArg_int :: "int \<Rightarrow> error + 32 word" where
  "PyArg_int v = (if - (2 ^ 31) \<le> v \<and> v < 2 ^ 31 then Inr (word_of_int v) else Inl OverflowError)"

section \<open>DmCookie\<close>

record DmCookieObject =
  ob_cookie :: "32 word"
  ob_val_prefix :: "16 word"
  ob_val_base :: "16 word"
  ob_ready :: bool

text \<open>
  Modelled from the spec: \<open>DM_UDEV_FLAGS_MASK\<close> and \<open>DM_UDEV_FLAGS_SHIFT\<close> are macros
  of \<open>libdevmapper.h\<close>, which is not part of the sources. The token is a 32-bit value
  made of a 16-bit prefix in the high half and a 16-bit base in the low half.
\<close>

definition DM_UDEV_FLAGS_MASK :: "32 word" where
  "DM_UDEV_FLAGS_MASK = 0xFFFF0000"

definition DM_UDEV_FLAGS_SHIFT :: nat where
  "DM_UDEV_FLAGS_SHIFT = 16"

definition dmpy_set_cookie_values :: "DmCookieObject \<Rightarrow> DmCookieObject" where
  "dmpy_set_cookie_values self =
     self\<lparr>ob_val_base := ucast (ob_cookie self AND NOT DM_UDEV_FLAGS_MASK),
          ob_val_prefix := ucast (drop_bit DM_UDEV_FLAGS_SHIFT (ob_cookie self AND DM_UDEV_FLAGS_MASK))\<rparr>"

text \<open>The checks return \<open>None\<close> for the C result 0 and the exception for the result -1.\<close>

definition dmpy_check_cookie_value :: "32 word \<Rightarrow> error option" where
  "dmpy_check_cookie_value v =
     (if v > 0xffffffff then Some (ValueError ''DmCookie value out of range.'') else None)"

definition DmCookie_init_value :: "DmCookieObject \<Rightarrow> 32 word \<Rightarrow> (error + unit) \<times> DmCookieObject" where
  "DmCookie_init_value self v =
     (case dmpy_check_cookie_value v of
        Some e \<Rightarrow> (Inl e, self)
      | None \<Rightarrow> (Inr (), (dmpy_set_cookie_values (self\<lparr>ob_cookie := v\<rparr>))\<lparr>ob_ready := False\<rparr>))"

text \<open>\<open>DmCookie_init\<close>: the argument is optional and defaults to 0.\<close>

definition DmCookie_init :: "DmCookieObject \<Rightarrow> int option \<Rightarrow> (error + unit) \<times> DmCookieObject" where
  "DmCookie_init self arg =
     (case PyArg_int (case arg of None \<Rightarrow> 0 | Some v \<Rightarrow> v) of
        Inl e \<Rightarrow> (Inl e, self)
      | Inr v \<Rightarrow> DmCookie_init_value self v)"

text \<open>
  \<open>DmCookie_set_value\<close> returns \<open>NULL\<close> when \<open>!_dmpy_check_cookie_value(value)\<close>
  holds, that is when the check returned 0 and set no exception.
\<close>

definition DmCookie_set_value :: "DmCookieObject \<Rightarrow> int \<Rightarrow> (error + bool) \<times> DmCookieObject" where
  "DmCookie_set_value self arg =
     (case PyArg_int arg of
        Inl e \<Rightarrow> (Inl e, self)
      | Inr v \<Rightarrow>
          (case dmpy_check_cookie_value v of
             None \<Rightarrow> (Inl NullWithoutException, self)
           | Some e \<Rightarrow> (Inr True, dmpy_set_cookie_values (self\<lparr>ob_cookie := v\<rparr>))))"

definition dmpy_check_base_or_prefix_value :: "32 word \<Rightarrow> error option" where
  "dmpy_check_base_or_prefix_value v =
     (if v > 0xffff then Some (ValueError ''DmCookie prefix value out of range.'') else None)"

text \<open>
  \<open>DmCookie_set_prefix\<close> and \<open>DmCookie_set_base\<close>. The argument is a C \<open>int\<close>, which
  the check reads as \<open>unsigned\<close>; the shift \<open>prefix <<= DM_UDEV_FLAGS_SHIFT\<close> is taken on
  32 bits, and the result is or-ed into the \<open>uint32_t\<close> value bit for bit.
\<close>

definition DmCookie_set_prefix :: "DmCookieObject \<Rightarrow> int \<Rightarrow> (error + bool) \<times> DmCookieObject" where
  "DmCookie_set_prefix self arg =
     (case PyArg_int arg of
        Inl e \<Rightarrow> (Inl e, self)
      | Inr prefix \<Rightarrow>
          (case dmpy_check_base_or_prefix_value prefix of
             Some e \<Rightarrow> (Inl e, self)
           | None \<Rightarrow>
               (let prefix' = push_bit DM_UDEV_FLAGS_SHIFT prefix;
                    c = ob_cookie self AND NOT DM_UDEV_FLAGS_MASK;
                    c' = c OR prefix'
                in (Inr True, dmpy_set_cookie_values (self\<lparr>ob_cookie := c'\<rparr>)))))"

definition DmCookie_set_base :: "DmCookieObject \<Rightarrow> int \<Rightarrow> (error + bool) \<times> DmCookieObject" where
  "DmCookie_set_base self arg =
     (case PyArg_int arg of
        Inl e \<Rightarrow> (Inl e, self)
      | Inr base \<Rightarrow>
          (case dmpy_check_base_or_prefix_value base of
             Some e \<Rightarrow> (Inl e, self)
           | None \<Rightarrow>
               (let c = ob_cookie self AND DM_UDEV_FLAGS_MASK;
                    c' = c OR base
                in (Inr True, dmpy_set_cookie_values (self\<lparr>ob_cookie := c'\<rparr>)))))"

text \<open>
  \<open>DmCookie_udev_wait_impl\<close> is the source's \<open>_DmCookie_udev_wait\<close>, and
  \<open>DmCookie_init_value\<close> its \<open>_DmCookie_init\<close>; the other helpers keep their names
  without the leading underscore.
  The native wait calls are outside the sources; their outcome is a parameter.
  \<open>dm_udev_wait\<close> returns the C \<open>int\<close> \<open>r\<close>; \<open>dm_udev_wait_immediate\<close> returns \<open>r\<close>
  and stores \<open>ready\<close>. A C \<open>int\<close> is true when it is not 0.
\<close>

record udev_native =
  dm_udev_wait :: "32 word \<Rightarrow> 32 word"
  dm_udev_wait_immediate :: "32 word \<Rightarrow> 32 word \<times> 32 word"

definition DmCookie_udev_wait_impl ::
  "udev_native \<Rightarrow> DmCookieObject \<Rightarrow> 32 word \<Rightarrow> (error + bool) \<times> DmCookieObject" where
  "DmCookie_udev_wait_impl lib self immediate =
     (if ob_ready self
      then (Inl (ValueError ''Cannot udev_wait() on a completed DmCookie.''), self)
      else
        (let (r, ready) =
               (if immediate = 0
                then (let r = dm_udev_wait lib (ob_cookie self) in (r, r))
                else dm_udev_wait_immediate lib (ob_cookie self));
             ret = (r \<noteq> 0)
         in if r \<noteq> 0 \<and> ready \<noteq> 0
            then (Inr ret, self\<lparr>ob_ready := True\<rparr>)
            else (Inr ret, self)))"

text \<open>\<open>DmCookie_udev_wait\<close>: the keyword argument \<open>immediate\<close> is optional and defaults to 0.\<close>

definition DmCookie_udev_wait ::
  "udev_native \<Rightarrow> DmCookieObject \<Rightarrow> int option \<Rightarrow> (error + bool) \<times> DmCookieObject" where
  "DmCookie_udev_wait lib self arg =
     (case PyArg_int (case arg of None \<Rightarrow> 0 | Some v \<Rightarrow> v) of
        Inl e \<Rightarrow> (Inl e, self)
      | Inr immediate \<Rightarrow> DmCookie_udev_wait_impl lib self immediate)"

text \<open>
  The sub-fields agree with the 32-bit value: the state that construction and the
  token's own mutators leave.
\<close>

definition cookie_consistent :: "DmCookieObject \<Rightarrow> bool" where
  "cookie_consistent self \<longleftrightarrow>
     ob_val_base self = ucast (ob_cookie self) \<and>
     ob_val_prefix self = ucast (drop_bit 16 (ob_cookie self))"

text \<open>The recomposition of the 32-bit value from its sub-fields.\<close>

definition cookie_recompose :: "DmCookieObject \<Rightarrow> 32 word" where
  "cookie_recompose self =
     push_bit DM_UDEV_FLAGS_SHIFT (ucast (ob_val_prefix self)) OR ucast (ob_val_base self)"

text \<open>
  Two more entry points write the value of a token. Both hand the address of a
  \<open>uint32_t\<close> to a native function, which is outside the sources: what the function
  returns and what it leaves at that address are a parameter.

  \<^item> \<open>DmTask_set_cookie\<close> passes \<open>&cookie->ob_cookie\<close> and the flags 0 to
    \<open>dm_task_set_cookie\<close> (\<open>dm_task_set_cookie lib c flags = (r, c')\<close>: the result \<open>r\<close>
    and the value \<open>c'\<close> left in \<open>ob_cookie\<close>), and does not call
    \<open>_dmpy_set_cookie_values\<close> afterwards. The definition gives the result of the
    method and the token it leaves; the reference to the token that the task keeps is
    not among the token's fields and is left out.
  \<^item> \<open>_dmpy_udev_create_cookie\<close> receives a value from \<open>dm_udev_create_cookie\<close>,
    initialises a new token with it, stores the value again and calls
    \<open>_dmpy_set_cookie_values\<close>. \<open>fresh\<close> is the content of the newly allocated
    object, which \<open>PyObject_New\<close> does not initialise.
\<close>

record cookie_native =
  dm_task_set_cookie :: "32 word \<Rightarrow> 16 word \<Rightarrow> 32 word \<times> 32 word"
  dm_udev_create_cookie :: "32 word \<times> 32 word"

definition DmTask_set_cookie ::
  "cookie_native \<Rightarrow> DmCookieObject \<Rightarrow> (error + bool) \<times> DmCookieObject" where
  "DmTask_set_cookie lib cookie =
     (let flags = 0;
          (r, c) = dm_task_set_cookie lib (ob_cookie cookie) flags;
          cookie' = cookie\<lparr>ob_cookie := c\<rparr>
      in if r = 0
         then (Inl (OSError ''Failed to set DmTask cookie.''), cookie')
         else (Inr True, cookie'))"

definition dmpy_udev_create_cookie ::
  "cookie_native \<Rightarrow> int \<Rightarrow> DmCookieObject \<Rightarrow> error + DmCookieObject" where
  "dmpy_udev_create_cookie lib errno fresh =
     (let (r, cookie_val) = dm_udev_create_cookie lib
      in if r = 0
         then Inl (OSErrorFromErrno errno)
         else (case DmCookie_init_value fresh cookie_val of
                 (Inl e, cookie) \<Rightarrow> Inl e
               | (Inr u, cookie) \<Rightarrow>
                   Inr (dmpy_set_cookie_values (cookie\<lparr>ob_cookie := cookie_val\<rparr>))))"


section \<open>DmTask\<close>

text \<open>The state and data flags of a task, as the source defines them.\<close>

definition DMT_DID_IOCTL :: "32 word" where "DMT_DID_IOCTL = 0x00000001"
definition DMT_DID_ERROR :: "32 word" where "DMT_DID_ERROR = 0x00000002"
definition DMT_HAVE_INFO :: "32 word" where "DMT_HAVE_INFO = 0x00000010"
definition DMT_HAVE_NAME :: "32 word" where "DMT_HAVE_NAME = 0x00000020"
definition DMT_HAVE_UUID :: "32 word" where "DMT_HAVE_UUID = 0x00000040"
definition DMT_HAVE_DEPS :: "32 word" where "DMT_HAVE_DEPS = 0x00000080"
definition DMT_HAVE_NAME_LIST :: "32 word" where "DMT_HAVE_NAME_LIST = 0x00000100"
definition DMT_HAVE_TIMESTAMP :: "32 word" where "DMT_HAVE_TIMESTAMP = 0x00000200"
definition DMT_HAVE_MESSAGE :: "32 word" where "DMT_HAVE_MESSAGE = 0x00000400"
definition DMT_HAVE_TABLE :: "32 word" where "DMT_HAVE_TABLE = 0x00000800"
definition DMT_HAVE_STATUS :: "32 word" where "DMT_HAVE_STATUS = 0x00001000"
definition DMT_HAVE_TARGET_VERSIONS :: "32 word" where "DMT_HAVE_TARGET_VERSIONS = 0x00002000"

definition DMT_HAVE_IDENTITY :: "32 word" where
  "DMT_HAVE_IDENTITY = DMT_HAVE_NAME OR DMT_HAVE_UUID"

text \<open>The names of the task types, in \<open>DM_DEVICE_*\<close> enum order.\<close>

definition dm_task_type_names :: "string list" where
  "dm_task_type_names =
     [''DM_DEVICE_CREATE'', ''DM_DEVICE_RELOAD'', ''DM_DEVICE_REMOVE'',
      ''DM_DEVICE_REMOVE_ALL'', ''DM_DEVICE_SUSPEND'', ''DM_DEVICE_RESUME'',
      ''DM_DEVICE_INFO'', ''DM_DEVICE_DEPS'', ''DM_DEVICE_RENAME'', ''DM_DEVICE_VERSION'',
      ''DM_DEVICE_STATUS'', ''DM_DEVICE_TABLE'', ''DM_DEVICE_WAITEVENT'', ''DM_DEVICE_LIST'',
      ''DM_DEVICE_CLEAR'', ''DM_DEVICE_MKNODES'', ''DM_DEVICE_LIST_VERSIONS'',
      ''DM_DEVICE_TARGET_MSG'', ''DM_DEVICE_SET_GEOMETRY'']"

text \<open>The flags each task type sets on a successful run, in the same order.\<close>

definition DmTask_task_type_flags :: "32 word list" where
  "DmTask_task_type_flags =
     [DMT_HAVE_IDENTITY, DMT_HAVE_IDENTITY, DMT_HAVE_IDENTITY, 0, DMT_HAVE_IDENTITY,
      DMT_HAVE_IDENTITY, DMT_HAVE_IDENTITY OR DMT_HAVE_INFO, DMT_HAVE_IDENTITY OR DMT_HAVE_DEPS,
      DMT_HAVE_IDENTITY, 0, DMT_HAVE_IDENTITY, DMT_HAVE_IDENTITY OR DMT_HAVE_TABLE,
      DMT_HAVE_IDENTITY, DMT_HAVE_NAME_LIST, DMT_HAVE_IDENTITY, 0, DMT_HAVE_TARGET_VERSIONS,
      DMT_HAVE_IDENTITY OR DMT_HAVE_MESSAGE, DMT_HAVE_IDENTITY]"

text \<open>The names of the flags, by bit position; \<open>None\<close> is a \<open>NULL\<close> entry.\<close>

definition DmTask_flag_strings :: "string option list" where
  "DmTask_flag_strings =
     [Some ''ioctl'', Some ''error'', None, None, Some ''info'', Some ''name'', Some ''UUID'',
      Some ''dependencies'', Some ''name list'', Some ''timestamp'', Some ''message response'',
      Some ''table'', Some ''status'', Some ''target versions'']"

text \<open>Reading an array at a C \<open>int\<close> index: outside the array there is nothing to read.\<close>

definition c_index :: "'a list \<Rightarrow> int \<Rightarrow> 'a option" where
  "c_index xs i = (if 0 \<le> i \<and> i < int (length xs) then Some (xs ! nat i) else None)"

record DmTaskObject =
  ob_flags :: "32 word"
  ob_task_type :: int

text \<open>The loop \<open>while (flag >>= 1) flag_index++;\<close> of the gating check.\<close>

function flag_index :: "32 word \<Rightarrow> nat" where
  "flag_index flag =
     (if drop_bit 1 flag = 0 then 0 else Suc (flag_index (drop_bit 1 flag)))"
  by pat_completeness auto
termination
proof (relation "measure unat")
  show "wf (measure unat)" by simp
next
  fix flag :: "32 word"
  assume nz: "drop_bit 1 flag \<noteq> 0"
  have half: "unat (drop_bit 1 flag) = unat flag div 2"
    by (simp add: drop_bit_eq_div unat_div)
  from nz have "unat (drop_bit 1 flag) \<noteq> 0"
    by (simp only: unat_eq_0 not_False_eq_True)
  with half have "unat flag div 2 < unat flag"
    by (cases "unat flag = 0") simp_all
  with half show "(drop_bit 1 flag, flag) \<in> measure unat"
    by simp
qed

text \<open>The two exceptions of the gating check, as \<open>PyErr_Format\<close> builds them.\<close>

definition requires_ioctl_error :: "int \<Rightarrow> string \<Rightarrow> error" where
  "requires_ioctl_error ty method =
     (case c_index dm_task_type_names ty of
        None \<Rightarrow> OutOfBoundsRead
      | Some name \<Rightarrow> TypeError (''DmTask('' @ name @ '').'' @ method @ '' requires ioctl data.''))"

definition not_provided_error :: "int \<Rightarrow> 32 word \<Rightarrow> error" where
  "not_provided_error ty flag =
     (case c_index dm_task_type_names ty of
        None \<Rightarrow> OutOfBoundsRead
      | Some name \<Rightarrow>
          (case c_index DmTask_flag_strings (int (flag_index flag)) of
             Some (Some what) \<Rightarrow>
               TypeError (''DmTask('' @ name @ '') does not provide '' @ what @ '' data.'')
           | _ \<Rightarrow> OutOfBoundsRead))"

text \<open>
  \<open>_DmTask_check_data_flags\<close>: \<open>None\<close> is the result 0 (the gate passes), \<open>Some e\<close> the
  result -1 with the exception \<open>e\<close> set.
\<close>

definition DmTask_check_data_flags :: "DmTaskObject \<Rightarrow> 32 word \<Rightarrow> string \<Rightarrow> error option" where
  "DmTask_check_data_flags self flag method =
     (if ob_flags self AND DMT_DID_IOCTL = 0
      then Some (requires_ioctl_error (ob_task_type self) method)
      else if ob_flags self AND flag = 0
      then Some (not_provided_error (ob_task_type self) flag)
      else None)"

text \<open>
  \<open>DmTask_init\<close>. The results of the native \<open>dm_task_create\<close> (with the \<open>errno\<close> it
  leaves) and \<open>dm_task_enable_checks\<close> are parameters.
\<close>

definition DmTask_init :: "bool \<Rightarrow> int \<Rightarrow> bool \<Rightarrow> int \<Rightarrow> error + DmTaskObject" where
  "DmTask_init create_ok errno checks_ok arg =
     (case PyArg_int arg of
        Inl e \<Rightarrow> Inl e
      | Inr ty \<Rightarrow>
          if \<not> create_ok then Inl (OSErrorFromErrno errno)
          else if \<not> checks_ok then Inl (OSError ''Failed to set DmTask checks.'')
          else Inr \<lparr>ob_flags = 0, ob_task_type = sint ty\<rparr>)"

text \<open>
  \<open>DmTask_run\<close>. The result of the native \<open>dm_task_run\<close> and the error code of
  \<open>dm_task_get_errno\<close> are parameters.
\<close>

definition DmTask_run :: "DmTaskObject \<Rightarrow> bool \<Rightarrow> int \<Rightarrow> (error + unit) \<times> DmTaskObject" where
  "DmTask_run self run_ok errno =
     (let self1 = self\<lparr>ob_flags := ob_flags self OR DMT_DID_IOCTL\<rparr>
      in if \<not> run_ok
         then (Inl (OSErrorFromErrno errno), self1\<lparr>ob_flags := ob_flags self1 OR DMT_DID_ERROR\<rparr>)
         else (case c_index DmTask_task_type_flags (ob_task_type self1) of
                 None \<Rightarrow> (Inl OutOfBoundsRead, self1)
               | Some fl \<Rightarrow> (Inr (), self1\<lparr>ob_flags := ob_flags self1 OR fl\<rparr>)))"

text \<open>
  \<open>DmTask_set_record_timestamp\<close>, the only other writer of \<open>ob_flags\<close>. The result of
  the native \<open>dm_task_set_record_timestamp\<close> is a parameter.
\<close>

definition DmTask_set_record_timestamp :: "DmTaskObject \<Rightarrow> bool \<Rightarrow> (error + bool) \<times> DmTaskObject" where
  "DmTask_set_record_timestamp self native_ok =
     (if \<not> native_ok then (Inl (OSError ''Failed to set DmTask record_timestamp.''), self)
      else (Inr True, self\<lparr>ob_flags := ob_flags self OR DMT_HAVE_TIMESTAMP\<rparr>))"

text \<open>
  The accessors of result data. Each one starts with the gating check, called with the
  flag and the method name below, and returns \<open>NULL\<close> when the check fails; what follows
  the check only reads the native handle, so its result is a parameter.
\<close>

datatype accessor =
    Get_info | Get_uuid | Get_deps | Get_versions | Get_message_response | Get_name | Get_names

fun accessor_flag :: "accessor \<Rightarrow> 32 word" where
  "accessor_flag Get_info = DMT_HAVE_INFO"
| "accessor_flag Get_uuid = DMT_HAVE_UUID"
| "accessor_flag Get_deps = DMT_HAVE_DEPS"
| "accessor_flag Get_versions = DMT_HAVE_TARGET_VERSIONS"
| "accessor_flag Get_message_response = DMT_HAVE_MESSAGE"
| "accessor_flag Get_name = DMT_HAVE_NAME"
| "accessor_flag Get_names = DMT_HAVE_NAME_LIST"

fun accessor_method :: "accessor \<Rightarrow> string" where
  "accessor_method Get_info = ''get_info''"
| "accessor_method Get_uuid = ''get_uuid''"
| "accessor_method Get_deps = ''get_deps''"
| "accessor_method Get_versions = ''get_versions''"
| "accessor_method Get_message_response = ''get_message_response''"
| "accessor_method Get_name = ''name''"
| "accessor_method Get_names = ''get_names''"

definition DmTask_get :: "DmTaskObject \<Rightarrow> accessor \<Rightarrow> error + 'a \<Rightarrow> error + 'a" where
  "DmTask_get self acc native =
     (case DmTask_check_data_flags self (accessor_flag acc) (accessor_method acc) of
        Some e \<Rightarrow> Inl e
      | None \<Rightarrow> native)"

text \<open>
  \<open>DmTask_get_errno\<close>. The gating check is called with the flag \<open>-1\<close>; the test that
  follows is \<open>!(self->ob_flags && DMT_DID_ERROR)\<close>, with the logical conjunction of C,
  and returns the null pointer with no exception set.
\<close>

definition DmTask_get_errno :: "DmTaskObject \<Rightarrow> int \<Rightarrow> error + int" where
  "DmTask_get_errno self native_errno =
     (case DmTask_check_data_flags self (- 1) ''get_errno'' of
        Some e \<Rightarrow> Inl e
      | None \<Rightarrow>
          if \<not> (ob_flags self \<noteq> 0 \<and> DMT_DID_ERROR \<noteq> 0) then Inl NullWithoutException
          else Inr native_errno)"

text \<open>
  The life of a task: construction, then any sequence of runs and timestamp requests,
  each with the outcome of its native call.
\<close>

datatype task_event = Run bool int | Set_record_timestamp bool

fun DmTask_event :: "DmTaskObject \<Rightarrow> task_event \<Rightarrow> DmTaskObject" where
  "DmTask_event self (Run ok errno) = snd (DmTask_run self ok errno)"
| "DmTask_event self (Set_record_timestamp ok) = snd (DmTask_set_record_timestamp self ok)"

definition DmTask_events :: "DmTaskObject \<Rightarrow> task_event list \<Rightarrow> DmTaskObject" where
  "DmTask_events self evs = foldl DmTask_event self evs"

fun is_run :: "task_event \<Rightarrow> bool" where
  "is_run (Run ok errno) = True"
| "is_run (Set_record_timestamp ok) = False"

fun is_run_ok :: "task_event \<Rightarrow> bool" where
  "is_run_ok (Run ok errno) = ok"
| "is_run_ok (Set_record_timestamp ok) = False"

text \<open>The data categories an accessor can be gated on (all data flags but the timestamp).\<close>

definition data_categories :: "32 word list" where
  "data_categories =
     [DMT_HAVE_INFO, DMT_HAVE_NAME, DMT_HAVE_UUID, DMT_HAVE_DEPS, DMT_HAVE_NAME_LIST,
      DMT_HAVE_MESSAGE, DMT_HAVE_TABLE, DMT_HAVE_STATUS, DMT_HAVE_TARGET_VERSIONS]"

section \<open>DmStats: the native handle and the object store\<close>

type_synonym addr = nat

text \<open>
  Modelled from the spec: the native aggregate handle (\<open>struct dm_stats\<close> of
  libdevmapper) and its introspection calls are not part of the sources. The handle holds
  a tree of regions indexed by region identifier; an identifier with no region is "not
  present", and the introspection calls are safe on any state of the tree and return
  the sentinel (false, zero) for an absent region.
\<close>

record dm_stats_region =
  region_nr_areas :: nat
  region_precise_timestamps :: bool

type_synonym dm_stats = "dm_stats_region option list"

definition dm_stats_region_present :: "dm_stats \<Rightarrow> nat \<Rightarrow> bool" where
  "dm_stats_region_present dms i = (i < length dms \<and> dms ! i \<noteq> None)"

definition dm_stats_get_region_nr_areas :: "dm_stats \<Rightarrow> nat \<Rightarrow> nat" where
  "dm_stats_get_region_nr_areas dms i =
     (if i < length dms then (case dms ! i of None \<Rightarrow> 0 | Some r \<Rightarrow> region_nr_areas r) else 0)"

definition dm_stats_get_region_precise_timestamps :: "dm_stats \<Rightarrow> nat \<Rightarrow> bool" where
  "dm_stats_get_region_precise_timestamps dms i =
     (if i < length dms
      then (case dms ! i of None \<Rightarrow> False | Some r \<Rightarrow> region_precise_timestamps r)
      else False)"

definition dm_stats_get_nr_areas :: "dm_stats \<Rightarrow> nat" where
  "dm_stats_get_nr_areas dms =
     sum_list (map (\<lambda>e. case e of None \<Rightarrow> 0 | Some r \<Rightarrow> region_nr_areas r) dms)"

text \<open>The identifiers \<open>dm_stats_foreach_region\<close> visits: the present regions, in order.\<close>

definition dm_stats_present_regions :: "dm_stats \<Rightarrow> nat list" where
  "dm_stats_present_regions dms = filter (dm_stats_region_present dms) [0..<length dms]"

text \<open>
  The objects of the extension live in a store with one map per C struct, from addresses
  to objects. \<open>st_refcnt\<close>, \<open>rg_refcnt\<close>, \<open>ar_refcnt\<close> and \<open>wr_refcnt\<close> are the
  \<open>ob_refcnt\<close> of \<open>PyObject_HEAD\<close>; the fields \<open>ob_stats\<close>, \<open>ob_sequence\<close> and
  \<open>ob_weakreflist\<close> of a region are \<open>ob_stats\<close>, \<open>rg_sequence\<close> and
  \<open>rg_weakreflist\<close>, those of an area \<open>ar_stats\<close> and \<open>ar_weakreflist\<close>. A pointer
  that may be \<open>NULL\<close> is an option. A cache (\<open>PyObject **\<close>) is \<open>NULL\<close> or an array of
  slots, each \<open>NULL\<close> or the address of a weak reference object. The list of weak
  references to an object is kept as the list of their addresses.

  A weak reference (\<open>PyWeakReference\<close> of the interpreter) holds its referent until the
  referent is deallocated; then \<open>PyWeakref_GetObject\<close> gives \<open>Py_None\<close>, here \<open>None\<close>.

  Every function on the store returns an option: \<open>None\<close> is a dereference of a pointer
  to no object, a read outside an array, or the release of a reference that is not held,
  where the behaviour of the C code is undefined. Allocation is assumed to succeed, as
  the source assumes it; \<open>next_addr\<close> is the address the next allocation returns.
  Every object is of the exact type of its map, so the type checks at the head of the
  entry points (\<open>DmStatsObject_Check\<close>, \<open>DmStatsRegionObject_Check\<close>) pass.
\<close>

datatype pyref = RegionRef addr | AreaRef addr | StatsRef addr

record PyWeakReference =
  wr_refcnt :: nat
  wr_object :: "pyref option"

record DmStatsObject =
  st_refcnt :: nat
  ob_dms :: "addr option"
  ob_sequence :: "64 word"
  ob_regions :: "addr option list option"
  ob_regions_len :: int

record DmStatsRegionObject =
  rg_refcnt :: nat
  ob_stats :: addr
  rg_sequence :: "64 word"
  ob_region_id :: nat
  rg_weakreflist :: "addr list"
  ob_areas :: "addr option list option"
  ob_areas_len :: int

record DmStatsAreaObject =
  ar_refcnt :: nat
  ar_stats :: addr
  ar_weakreflist :: "addr list"
  ob_area_id :: nat

record heap =
  stats_objs :: "addr \<rightharpoonup> DmStatsObject"
  region_objs :: "addr \<rightharpoonup> DmStatsRegionObject"
  area_objs :: "addr \<rightharpoonup> DmStatsAreaObject"
  weakrefs :: "addr \<rightharpoonup> PyWeakReference"
  native :: "addr \<rightharpoonup> dm_stats"
  next_addr :: addr

subsection \<open>Reference counting and deallocation\<close>

definition dm_stats_destroy :: "heap \<Rightarrow> addr \<Rightarrow> heap option" where
  "dm_stats_destroy h d =
     (case native h d of None \<Rightarrow> None | Some dms \<Rightarrow> Some (h\<lparr>native := (native h)(d := None)\<rparr>))"

text \<open>
  \<open>DmStats_dealloc\<close>: destroys the native handle, frees the cache array (the weak
  reference objects in its slots are not released) and frees the object.
\<close>

definition DmStats_dealloc :: "heap \<Rightarrow> addr \<Rightarrow> heap option" where
  "DmStats_dealloc h self =
     do {
       st \<leftarrow> stats_objs h self;
       h1 \<leftarrow> (case ob_dms st of None \<Rightarrow> Some h | Some d \<Rightarrow> dm_stats_destroy h d);
       Some (h1\<lparr>stats_objs := (stats_objs h1)(self := None)\<rparr>)
     }"

definition Py_INCREF_stats :: "heap \<Rightarrow> addr \<Rightarrow> heap option" where
  "Py_INCREF_stats h s =
     do {
       st \<leftarrow> stats_objs h s;
       Some (h\<lparr>stats_objs := (stats_objs h)(s \<mapsto> st\<lparr>st_refcnt := Suc (st_refcnt st)\<rparr>)\<rparr>)
     }"

definition Py_DECREF_stats :: "heap \<Rightarrow> addr \<Rightarrow> heap option" where
  "Py_DECREF_stats h s =
     do {
       st \<leftarrow> stats_objs h s;
       if st_refcnt st = 0 then None
       else if st_refcnt st = 1
       then DmStats_dealloc (h\<lparr>stats_objs := (stats_objs h)(s \<mapsto> st\<lparr>st_refcnt := 0\<rparr>)\<rparr>) s
       else Some (h\<lparr>stats_objs := (stats_objs h)(s \<mapsto> st\<lparr>st_refcnt := st_refcnt st - 1\<rparr>)\<rparr>)
     }"

text \<open>\<open>PyObject_ClearWeakRefs\<close>: every weak reference to the object loses its referent.\<close>

fun PyObject_ClearWeakRefs :: "heap \<Rightarrow> addr list \<Rightarrow> heap option" where
  "PyObject_ClearWeakRefs h [] = Some h"
| "PyObject_ClearWeakRefs h (w # ws) =
     do {
       wr \<leftarrow> weakrefs h w;
       PyObject_ClearWeakRefs (h\<lparr>weakrefs := (weakrefs h)(w \<mapsto> wr\<lparr>wr_object := None\<rparr>)\<rparr>) ws
     }"

text \<open>
  \<open>DmStatsRegion_dealloc\<close>: clears the weak references to the region and releases its
  reference on the parent. It frees neither the area cache nor the object; the object is
  dead all the same, and leaves the store.
\<close>

definition DmStatsRegion_dealloc :: "heap \<Rightarrow> addr \<Rightarrow> heap option" where
  "DmStatsRegion_dealloc h self =
     do {
       rg \<leftarrow> region_objs h self;
       h1 \<leftarrow> PyObject_ClearWeakRefs h (rg_weakreflist rg);
       h2 \<leftarrow> Py_DECREF_stats h1 (ob_stats rg);
       Some (h2\<lparr>region_objs := (region_objs h2)(self := None)\<rparr>)
     }"

definition Py_INCREF_region :: "heap \<Rightarrow> addr \<Rightarrow> heap option" where
  "Py_INCREF_region h r =
     do {
       rg \<leftarrow> region_objs h r;
       Some (h\<lparr>region_objs := (region_objs h)(r \<mapsto> rg\<lparr>rg_refcnt := Suc (rg_refcnt rg)\<rparr>)\<rparr>)
     }"

definition Py_DECREF_region :: "heap \<Rightarrow> addr \<Rightarrow> heap option" where
  "Py_DECREF_region h r =
     do {
       rg \<leftarrow> region_objs h r;
       if rg_refcnt rg = 0 then None
       else if rg_refcnt rg = 1
       then DmStatsRegion_dealloc (h\<lparr>region_objs := (region_objs h)(r \<mapsto> rg\<lparr>rg_refcnt := 0\<rparr>)\<rparr>) r
       else Some (h\<lparr>region_objs := (region_objs h)(r \<mapsto> rg\<lparr>rg_refcnt := rg_refcnt rg - 1\<rparr>)\<rparr>)
     }"

text \<open>\<open>DmStatsArea_dealloc\<close>, as for a region.\<close>

definition DmStatsArea_dealloc :: "heap \<Rightarrow> addr \<Rightarrow> heap option" where
  "DmStatsArea_dealloc h self =
     do {
       ar \<leftarrow> area_objs h self;
       h1 \<leftarrow> PyObject_ClearWeakRefs h (ar_weakreflist ar);
       h2 \<leftarrow> Py_DECREF_stats h1 (ar_stats ar);
       Some (h2\<lparr>area_objs := (area_objs h2)(self := None)\<rparr>)
     }"

definition Py_INCREF_area :: "heap \<Rightarrow> addr \<Rightarrow> heap option" where
  "Py_INCREF_area h a =
     do {
       ar \<leftarrow> area_objs h a;
       Some (h\<lparr>area_objs := (area_objs h)(a \<mapsto> ar\<lparr>ar_refcnt := Suc (ar_refcnt ar)\<rparr>)\<rparr>)
     }"

definition Py_DECREF_area :: "heap \<Rightarrow> addr \<Rightarrow> heap option" where
  "Py_DECREF_area h a =
     do {
       ar \<leftarrow> area_objs h a;
       if ar_refcnt ar = 0 then None
       else if ar_refcnt ar = 1
       then DmStatsArea_dealloc (h\<lparr>area_objs := (area_objs h)(a \<mapsto> ar\<lparr>ar_refcnt := 0\<rparr>)\<rparr>) a
       else Some (h\<lparr>area_objs := (area_objs h)(a \<mapsto> ar\<lparr>ar_refcnt := ar_refcnt ar - 1\<rparr>)\<rparr>)
     }"

fun Py_INCREF :: "heap \<Rightarrow> pyref \<Rightarrow> heap option" where
  "Py_INCREF h (RegionRef r) = Py_INCREF_region h r"
| "Py_INCREF h (AreaRef a) = Py_INCREF_area h a"
| "Py_INCREF h (StatsRef s) = Py_INCREF_stats h s"

fun Py_DECREF :: "heap \<Rightarrow> pyref \<Rightarrow> heap option" where
  "Py_DECREF h (RegionRef r) = Py_DECREF_region h r"
| "Py_DECREF h (AreaRef a) = Py_DECREF_area h a"
| "Py_DECREF h (StatsRef s) = Py_DECREF_stats h s"

subsection \<open>Weak references\<close>

text \<open>
  The interpreter's weak references. \<open>PyWeakref_NewRef(ob, NULL)\<close> returns the weak
  reference to \<open>ob\<close> that exists already, with a new reference to it, or a new one
  that it links into the list of \<open>ob\<close>. Releasing the last reference to a weak
  reference unlinks it from the list of its referent.
\<close>

fun weakreflist_of :: "heap \<Rightarrow> pyref \<Rightarrow> addr list option" where
  "weakreflist_of h (RegionRef r) = map_option rg_weakreflist (region_objs h r)"
| "weakreflist_of h (AreaRef a) = map_option ar_weakreflist (area_objs h a)"
| "weakreflist_of h (StatsRef s) = None"

fun set_weakreflist :: "heap \<Rightarrow> pyref \<Rightarrow> addr list \<Rightarrow> heap option" where
  "set_weakreflist h (RegionRef r) ws =
     do {
       rg \<leftarrow> region_objs h r;
       Some (h\<lparr>region_objs := (region_objs h)(r \<mapsto> rg\<lparr>rg_weakreflist := ws\<rparr>)\<rparr>)
     }"
| "set_weakreflist h (AreaRef a) ws =
     do {
       ar \<leftarrow> area_objs h a;
       Some (h\<lparr>area_objs := (area_objs h)(a \<mapsto> ar\<lparr>ar_weakreflist := ws\<rparr>)\<rparr>)
     }"
| "set_weakreflist h (StatsRef s) ws = None"

definition Py_DECREF_weakref :: "heap \<Rightarrow> addr \<Rightarrow> heap option" where
  "Py_DECREF_weakref h w =
     do {
       wr \<leftarrow> weakrefs h w;
       if wr_refcnt wr = 0 then None
       else if wr_refcnt wr = 1
       then do {
         h1 \<leftarrow> (case wr_object wr of
                  None \<Rightarrow> Some h
                | Some ob \<Rightarrow> do {
                    ws \<leftarrow> weakreflist_of h ob;
                    set_weakreflist h ob (removeAll w ws)
                  });
         Some (h1\<lparr>weakrefs := (weakrefs h1)(w := None)\<rparr>)
       }
       else Some (h\<lparr>weakrefs := (weakrefs h)(w \<mapsto> wr\<lparr>wr_refcnt := wr_refcnt wr - 1\<rparr>)\<rparr>)
     }"

definition Py_XDECREF_weakref :: "heap \<Rightarrow> addr option \<Rightarrow> heap option" where
  "Py_XDECREF_weakref h slot = (case slot of None \<Rightarrow> Some h | Some w \<Rightarrow> Py_DECREF_weakref h w)"

definition PyWeakref_NewRef :: "heap \<Rightarrow> pyref \<Rightarrow> (addr \<times> heap) option" where
  "PyWeakref_NewRef h ob =
     do {
       ws \<leftarrow> weakreflist_of h ob;
       case ws of
         w # _ \<Rightarrow> do {
           wr \<leftarrow> weakrefs h w;
           Some (w, h\<lparr>weakrefs := (weakrefs h)(w \<mapsto> wr\<lparr>wr_refcnt := Suc (wr_refcnt wr)\<rparr>)\<rparr>)
         }
       | [] \<Rightarrow> do {
           let w = next_addr h;
           h1 \<leftarrow> set_weakreflist h ob [w];
           Some (w, h1\<lparr>weakrefs := (weakrefs h1)(w \<mapsto> \<lparr>wr_refcnt = 1, wr_object = Some ob\<rparr>),
                       next_addr := Suc w\<rparr>)
         }
     }"

definition PyWeakref_GetObject :: "heap \<Rightarrow> addr \<Rightarrow> pyref option option" where
  "PyWeakref_GetObject h w = map_option wr_object (weakrefs h w)"

subsection \<open>The views and their caches\<close>

text \<open>
  \<open>newDmStatsRegionObject\<close>. \<open>PyObject_GC_New\<close> gives an object with one reference and
  does not clear its memory; the constructor sets neither \<open>ob_areas\<close> nor
  \<open>ob_areas_len\<close>, so they hold what the memory held, the parameter \<open>uninit\<close>.
\<close>

definition newDmStatsRegionObject ::
  "heap \<Rightarrow> addr \<Rightarrow> nat \<Rightarrow> 64 word \<Rightarrow> addr option list option \<times> int \<Rightarrow> (addr \<times> heap) option" where
  "newDmStatsRegionObject h stats region_id sequence uninit =
     do {
       let region = next_addr h;
       let h1 = h\<lparr>region_objs := (region_objs h)(region \<mapsto>
                     \<lparr>rg_refcnt = 1, ob_stats = stats, rg_sequence = sequence,
                      ob_region_id = region_id, rg_weakreflist = [],
                      ob_areas = fst uninit, ob_areas_len = snd uninit\<rparr>),
                   next_addr := Suc region\<rparr>;
       h2 \<leftarrow> Py_INCREF_stats h1 stats;
       Some (region, h2)
     }"

definition newDmStatsAreaObject :: "heap \<Rightarrow> addr \<Rightarrow> nat \<Rightarrow> (addr \<times> heap) option" where
  "newDmStatsAreaObject h stats area_id =
     do {
       let area = next_addr h;
       let h1 = h\<lparr>area_objs := (area_objs h)(area \<mapsto>
                     \<lparr>ar_refcnt = 1, ar_stats = stats, ar_weakreflist = [],
                      ob_area_id = area_id\<rparr>),
                   next_addr := Suc area\<rparr>;
       h2 \<leftarrow> Py_INCREF_stats h1 stats;
       Some (area, h2)
     }"

text \<open>The native tree behind a \<open>DmStats\<close> object: \<open>self->ob_dms\<close>, dereferenced.\<close>

definition dms_of :: "heap \<Rightarrow> addr \<Rightarrow> dm_stats option" where
  "dms_of h stats =
     do {
       st \<leftarrow> stats_objs h stats;
       d \<leftarrow> ob_dms st;
       native h d
     }"

fun xdecref_slots :: "heap \<Rightarrow> addr option list \<Rightarrow> heap option" where
  "xdecref_slots h [] = Some h"
| "xdecref_slots h (slot # slots) =
     do {
       h1 \<leftarrow> Py_XDECREF_weakref h slot;
       xdecref_slots h1 slots
     }"

text \<open>The first \<open>n\<close> slots of an array, as a loop from 0 to \<open>n - 1\<close> reads them.\<close>

definition first_slots :: "'a list \<Rightarrow> int \<Rightarrow> 'a list option" where
  "first_slots slots n = (if n \<le> int (length slots) then Some (take (nat n) slots) else None)"

definition DmStatsRegion_clear_area_cache :: "heap \<Rightarrow> addr \<Rightarrow> heap option" where
  "DmStatsRegion_clear_area_cache h self =
     do {
       rg \<leftarrow> region_objs h self;
       case ob_areas rg of
         None \<Rightarrow> Some h
       | Some slots \<Rightarrow> do {
           used \<leftarrow> first_slots slots (ob_areas_len rg);
           h1 \<leftarrow> xdecref_slots h used;
           rg1 \<leftarrow> region_objs h1 self;
           Some (h1\<lparr>region_objs := (region_objs h1)(self \<mapsto> rg1\<lparr>ob_areas := None, ob_areas_len := 0\<rparr>)\<rparr>)
         }
     }"

definition DmStatsRegion_set_area_cache :: "heap \<Rightarrow> addr \<Rightarrow> heap option" where
  "DmStatsRegion_set_area_cache h self =
     do {
       rg \<leftarrow> region_objs h self;
       dms \<leftarrow> dms_of h (ob_stats rg);
       let nr_slots = dm_stats_get_region_nr_areas dms (ob_region_id rg);
       if nr_slots \<noteq> 0
       then Some (h\<lparr>region_objs := (region_objs h)(self \<mapsto>
                     rg\<lparr>ob_areas := Some (replicate nr_slots None), ob_areas_len := int nr_slots\<rparr>)\<rparr>)
       else Some h
     }"

text \<open>
  The results of the indexed accesses: \<open>Inr None\<close> is \<open>Py_None\<close>, \<open>Inr (Some ob)\<close> the
  object \<open>ob\<close>, returned with a new reference.
\<close>

type_synonym item_result = "(error + pyref option) \<times> heap"

text \<open>The label \<open>cache_new\<close> of \<open>DmStats_get_item\<close>: the cache miss.\<close>

definition DmStats_cache_new ::
  "heap \<Rightarrow> addr \<Rightarrow> int \<Rightarrow> addr option list option \<times> int \<Rightarrow> item_result option" where
  "DmStats_cache_new h self i uninit =
     do {
       st \<leftarrow> stats_objs h self;
       (region, h1) \<leftarrow> newDmStatsRegionObject h self (nat i) (ob_sequence st) uninit;
       (w, h2) \<leftarrow> PyWeakref_NewRef h1 (RegionRef region);
       st2 \<leftarrow> stats_objs h2 self;
       slots \<leftarrow> ob_regions st2;
       _ \<leftarrow> c_index slots i;
       let h3 = h2\<lparr>stats_objs := (stats_objs h2)(self \<mapsto>
                      st2\<lparr>ob_regions := Some (slots[nat i := Some w])\<rparr>)\<rparr>;
       h4 \<leftarrow> DmStatsRegion_set_area_cache h3 region;
       Some (Inr (Some (RegionRef region)), h4)
     }"

definition DmStats_get_item ::
  "heap \<Rightarrow> addr \<Rightarrow> int \<Rightarrow> addr option list option \<times> int \<Rightarrow> item_result option" where
  "DmStats_get_item h self i uninit =
     do {
       st \<leftarrow> stats_objs h self;
       if i < 0 \<or> i \<ge> ob_regions_len st
       then Some (Inl (IndexError ''DmStats region_id out of range''), h)
       else do {
         dms \<leftarrow> dms_of h self;
         if \<not> dm_stats_region_present dms (nat i)
         then Some (Inr None, h)
         else do {
           slots \<leftarrow> ob_regions st;
           slot \<leftarrow> c_index slots i;
           case slot of
             None \<Rightarrow> DmStats_cache_new h self i uninit
           | Some w \<Rightarrow> do {
               region \<leftarrow> PyWeakref_GetObject h w;
               case region of
                 None \<Rightarrow> do {
                   h1 \<leftarrow> Py_DECREF_weakref h w;
                   st1 \<leftarrow> stats_objs h1 self;
                   slots1 \<leftarrow> ob_regions st1;
                   let h2 = h1\<lparr>stats_objs := (stats_objs h1)(self \<mapsto>
                                  st1\<lparr>ob_regions := Some (slots1[nat i := None])\<rparr>)\<rparr>;
                   DmStats_cache_new h2 self i uninit
                 }
               | Some ob \<Rightarrow> do {
                   h1 \<leftarrow> Py_INCREF h ob;
                   Some (Inr (Some ob), h1)
                 }
             }
         }
       }
     }"

text \<open>The label \<open>cache_new\<close> of \<open>DmStatsRegion_get_item\<close>.\<close>

definition DmStatsRegion_cache_new :: "heap \<Rightarrow> addr \<Rightarrow> int \<Rightarrow> item_result option" where
  "DmStatsRegion_cache_new h self j =
     do {
       rg \<leftarrow> region_objs h self;
       (area, h1) \<leftarrow> newDmStatsAreaObject h (ob_stats rg) (nat j);
       (w, h2) \<leftarrow> PyWeakref_NewRef h1 (AreaRef area);
       rg2 \<leftarrow> region_objs h2 self;
       slots \<leftarrow> ob_areas rg2;
       _ \<leftarrow> c_index slots j;
       Some (Inr (Some (AreaRef area)),
             h2\<lparr>region_objs := (region_objs h2)(self \<mapsto>
                   rg2\<lparr>ob_areas := Some (slots[nat j := Some w])\<rparr>)\<rparr>)
     }"

definition DmStatsRegion_get_item :: "heap \<Rightarrow> addr \<Rightarrow> int \<Rightarrow> item_result option" where
  "DmStatsRegion_get_item h self j =
     do {
       rg \<leftarrow> region_objs h self;
       if j < 0 \<or> j \<ge> ob_areas_len rg
       then Some (Inl (IndexError ''DmStats area_id out of range''), h)
       else do {
         dms \<leftarrow> dms_of h (ob_stats rg);
         if \<not> dm_stats_region_present dms (ob_region_id rg)
         then Some (Inr None, h)
         else do {
           slots \<leftarrow> ob_areas rg;
           slot \<leftarrow> c_index slots j;
           case slot of
             None \<Rightarrow> DmStatsRegion_cache_new h self j
           | Some w \<Rightarrow> do {
               area \<leftarrow> PyWeakref_GetObject h w;
               case area of
                 None \<Rightarrow> do {
                   h1 \<leftarrow> Py_DECREF_weakref h w;
                   rg1 \<leftarrow> region_objs h1 self;
                   slots1 \<leftarrow> ob_areas rg1;
                   let h2 = h1\<lparr>region_objs := (region_objs h1)(self \<mapsto>
                                  rg1\<lparr>ob_areas := Some (slots1[nat j := None])\<rparr>)\<rparr>;
                   DmStatsRegion_cache_new h2 self j
                 }
               | Some ob \<Rightarrow> do {
                   h1 \<leftarrow> Py_INCREF h ob;
                   Some (Inr (Some ob), h1)
                 }
             }
         }
       }
     }"

subsection \<open>The sequence check and the getters of a region\<close>

text \<open>\<open>_DmStatsRegion_sequence_check\<close>: \<open>None\<close> is the result 0.\<close>

definition DmStatsRegion_sequence_check :: "heap \<Rightarrow> addr \<Rightarrow> error option option" where
  "DmStatsRegion_sequence_check h self =
     do {
       rg \<leftarrow> region_objs h self;
       st \<leftarrow> stats_objs h (ob_stats rg);
       Some (if rg_sequence rg \<noteq> ob_sequence st
             then Some (LookupError ''Attempt to access regions in changed DmStats object.'')
             else None)
     }"

text \<open>
  The getters of a region. The count of areas is returned as the native layer reports it:
  the format \<open>i\<close> of \<open>Py_BuildValue\<close> reads it as a C \<open>int\<close>, which is the count itself
  for every count below \<open>2^31\<close>.
\<close>

definition DmStatsRegion_nr_areas_getter :: "heap \<Rightarrow> addr \<Rightarrow> (error + nat) option" where
  "DmStatsRegion_nr_areas_getter h self =
     do {
       rg \<leftarrow> region_objs h self;
       chk \<leftarrow> DmStatsRegion_sequence_check h self;
       case chk of
         Some e \<Rightarrow> Some (Inl e)
       | None \<Rightarrow> do {
           dms \<leftarrow> dms_of h (ob_stats rg);
           Some (Inr (dm_stats_get_region_nr_areas dms (ob_region_id rg)))
         }
     }"

definition DmStatsRegion_present_getter :: "heap \<Rightarrow> addr \<Rightarrow> (error + bool) option" where
  "DmStatsRegion_present_getter h self =
     do {
       rg \<leftarrow> region_objs h self;
       st \<leftarrow> stats_objs h (ob_stats rg);
       chk \<leftarrow> DmStatsRegion_sequence_check h self;
       case chk of
         Some e \<Rightarrow> Some (Inl e)
       | None \<Rightarrow> do {
           dms \<leftarrow> dms_of h (ob_stats rg);
           Some (Inr (dm_stats_region_present dms (ob_region_id rg)))
         }
     }"

definition DmStatsRegion_precise_timestamps_getter :: "heap \<Rightarrow> addr \<Rightarrow> (error + bool) option" where
  "DmStatsRegion_precise_timestamps_getter h self =
     do {
       rg \<leftarrow> region_objs h self;
       st \<leftarrow> stats_objs h (ob_stats rg);
       chk \<leftarrow> DmStatsRegion_sequence_check h self;
       case chk of
         Some e \<Rightarrow> Some (Inl e)
       | None \<Rightarrow> do {
           dms \<leftarrow> dms_of h (ob_stats rg);
           Some (Inr (dm_stats_get_region_precise_timestamps dms (ob_region_id rg)))
         }
     }"

subsection \<open>Construction, binding, listing and populating\<close>

text \<open>
  The loop of \<open>_DmStats_clear_region_cache\<close> over the slots. A slot whose referent is
  alive has the area cache of the region cleared, between taking and releasing a
  reference to the region, and is then released; a slot whose referent has expired is
  skipped by \<open>continue\<close>, without releasing the weak reference.
\<close>

fun clear_region_slots :: "heap \<Rightarrow> addr option list \<Rightarrow> heap option" where
  "clear_region_slots h [] = Some h"
| "clear_region_slots h (None # slots) = clear_region_slots h slots"
| "clear_region_slots h (Some w # slots) =
     do {
       region \<leftarrow> PyWeakref_GetObject h w;
       case region of
         None \<Rightarrow> clear_region_slots h slots
       | Some (RegionRef r) \<Rightarrow> do {
           h1 \<leftarrow> Py_INCREF_region h r;
           h2 \<leftarrow> DmStatsRegion_clear_area_cache h1 r;
           h3 \<leftarrow> Py_DECREF_region h2 r;
           h4 \<leftarrow> Py_DECREF_weakref h3 w;
           clear_region_slots h4 slots
         }
       | Some _ \<Rightarrow> None
     }"

definition DmStats_clear_region_cache :: "heap \<Rightarrow> addr \<Rightarrow> heap option" where
  "DmStats_clear_region_cache h self =
     do {
       st \<leftarrow> stats_objs h self;
       case ob_regions st of
         None \<Rightarrow> Some h
       | Some slots \<Rightarrow> do {
           used \<leftarrow> first_slots slots (ob_regions_len st);
           h1 \<leftarrow> clear_region_slots h used;
           st1 \<leftarrow> stats_objs h1 self;
           Some (h1\<lparr>stats_objs := (stats_objs h1)(self \<mapsto> st1\<lparr>ob_regions := None, ob_regions_len := 0\<rparr>)\<rparr>)
         }
     }"

text \<open>
  \<open>_DmStats_set_region_cache\<close>: when the tree has areas, a new array of empty slots,
  one more than the highest region identifier of the tree.
\<close>

definition DmStats_set_region_cache :: "heap \<Rightarrow> addr \<Rightarrow> heap option" where
  "DmStats_set_region_cache h self =
     do {
       st \<leftarrow> stats_objs h self;
       dms \<leftarrow> dms_of h self;
       if dm_stats_get_nr_areas dms \<noteq> 0
       then do {
         let max_region = fold (\<lambda>region_id m. if region_id > m then region_id else m)
                            (dm_stats_present_regions dms) 0;
         let nr_slots = max_region + 1;
         Some (h\<lparr>stats_objs := (stats_objs h)(self \<mapsto>
                 st\<lparr>ob_regions := Some (replicate nr_slots None), ob_regions_len := int nr_slots\<rparr>)\<rparr>)
       }
       else Some h
     }"

text \<open>
  \<open>DmStats_list\<close> and \<open>DmStats_populate\<close>. The outcome of the native call is a
  parameter: \<open>None\<close> when it fails, and the tree it builds when it succeeds. Modelled
  from the spec: a failed call leaves the tree of the handle empty. Both methods return
  the object itself, with a new reference.
\<close>

definition DmStats_rebuild ::
  "string \<Rightarrow> heap \<Rightarrow> addr \<Rightarrow> dm_stats option \<Rightarrow> item_result option" where
  "DmStats_rebuild msg h self outcome =
     do {
       h1 \<leftarrow> DmStats_clear_region_cache h self;
       st \<leftarrow> stats_objs h1 self;
       d \<leftarrow> ob_dms st;
       _ \<leftarrow> native h1 d;
       case outcome of
         None \<Rightarrow> Some (Inl (OSError msg), h1\<lparr>native := (native h1)(d \<mapsto> [])\<rparr>)
       | Some tree \<Rightarrow> do {
           let h2 = h1\<lparr>native := (native h1)(d \<mapsto> tree),
                      stats_objs := (stats_objs h1)(self \<mapsto> st\<lparr>ob_sequence := ob_sequence st + 1\<rparr>)\<rparr>;
           h3 \<leftarrow> DmStats_set_region_cache h2 self;
           h4 \<leftarrow> Py_INCREF_stats h3 self;
           Some (Inr (Some (StatsRef self)), h4)
         }
     }"

definition DmStats_list :: "heap \<Rightarrow> addr \<Rightarrow> dm_stats option \<Rightarrow> item_result option" where
  "DmStats_list = DmStats_rebuild ''Failed to get region list from device-mapper.''"

definition DmStats_populate :: "heap \<Rightarrow> addr \<Rightarrow> dm_stats option \<Rightarrow> item_result option" where
  "DmStats_populate = DmStats_rebuild ''Failed to get region data from device-mapper.''"

text \<open>
  \<open>DmStats_bind_name\<close>, \<open>DmStats_bind_uuid\<close> and \<open>DmStats_bind_devno\<close>. The result of
  the native bind is a parameter. Modelled from the spec: a successful bind discards the
  tree of the handle. None of the three touches the region cache.
\<close>

definition DmStats_bind ::
  "string \<Rightarrow> heap \<Rightarrow> addr \<Rightarrow> bool \<Rightarrow> ((error + bool) \<times> heap) option" where
  "DmStats_bind msg h self bind_ok =
     do {
       st \<leftarrow> stats_objs h self;
       d \<leftarrow> ob_dms st;
       _ \<leftarrow> native h d;
       if \<not> bind_ok then Some (Inl (OSError msg), h)
       else Some (Inr True,
                  h\<lparr>native := (native h)(d \<mapsto> []),
                    stats_objs := (stats_objs h)(self \<mapsto> st\<lparr>ob_sequence := ob_sequence st + 1\<rparr>)\<rparr>)
     }"

definition DmStats_bind_devno :: "heap \<Rightarrow> addr \<Rightarrow> bool \<Rightarrow> ((error + bool) \<times> heap) option" where
  "DmStats_bind_devno = DmStats_bind ''Failed to bind DmStats to devno.''"

definition DmStats_bind_name ::
  "heap \<Rightarrow> addr \<Rightarrow> string \<Rightarrow> bool \<Rightarrow> ((error + bool) \<times> heap) option" where
  "DmStats_bind_name h self name bind_ok =
     (if name = [] then Some (Inl (ValueError ''DmStats name cannot be empty or None.''), h)
      else DmStats_bind ''Failed to bind DmStats to name.'' h self bind_ok)"

definition DmStats_bind_uuid ::
  "heap \<Rightarrow> addr \<Rightarrow> string \<Rightarrow> bool \<Rightarrow> ((error + bool) \<times> heap) option" where
  "DmStats_bind_uuid h self uuid bind_ok =
     (if uuid = [] then Some (Inl (ValueError ''DmStats uuid cannot be empty or None.''), h)
      else DmStats_bind ''Failed to bind DmStats to uuid.'' h self bind_ok)"

text \<open>
  The module sets \<open>tp_new\<close> of the type to \<open>PyType_GenericNew\<close>: a new object with one
  reference and all fields zero.
\<close>

definition PyType_GenericNew_DmStats :: "heap \<Rightarrow> addr \<times> heap" where
  "PyType_GenericNew_DmStats h =
     (next_addr h,
      h\<lparr>stats_objs := (stats_objs h)(next_addr h \<mapsto>
            \<lparr>st_refcnt = 1, ob_dms = None, ob_sequence = 0, ob_regions = None, ob_regions_len = 0\<rparr>),
        next_addr := Suc (next_addr h)\<rparr>)"

text \<open>
  \<open>DmStats_init\<close>. The keyword arguments \<open>name\<close> and \<open>uuid\<close> are \<open>None\<close> when not
  given (the C pointers stay \<open>NULL\<close>), \<open>major\<close> and \<open>minor\<close> are 0 when not given.
  The results of the native \<open>dm_stats_create\<close> and of the native bind are parameters; a
  handle that was created has an empty tree.
\<close>

definition DMSTATS_init_KWARG_ERR :: string where
  "DMSTATS_init_KWARG_ERR =
     ''Please specify one of name=, uuid=, or major= and minor= keyword arguments.''"

record stats_init_args =
  arg_program_id :: "string option"
  arg_name :: "string option"
  arg_uuid :: "string option"
  arg_major :: "32 word"
  arg_minor :: "32 word"

definition DmStats_init_fail :: "heap \<Rightarrow> addr \<Rightarrow> error \<Rightarrow> ((error + unit) \<times> heap) option" where
  "DmStats_init_fail h d e =
     do {
       h1 \<leftarrow> dm_stats_destroy h d;
       Some (Inl e, h1)
     }"

definition DmStats_init ::
  "heap \<Rightarrow> addr \<Rightarrow> stats_init_args \<Rightarrow> bool \<Rightarrow> bool \<Rightarrow> ((error + unit) \<times> heap) option" where
  "DmStats_init h self args create_ok bind_ok =
     do {
       st \<leftarrow> stats_objs h self;
       if arg_name args \<noteq> None \<and> (arg_uuid args \<noteq> None \<or> arg_major args \<noteq> 0 \<or> arg_minor args \<noteq> 0)
       then Some (Inl (TypeError DMSTATS_init_KWARG_ERR), h)
       else if arg_uuid args \<noteq> None \<and> (arg_major args \<noteq> 0 \<or> arg_minor args \<noteq> 0)
       then Some (Inl (TypeError DMSTATS_init_KWARG_ERR), h)
       else if \<not> create_ok
       then Some (Inl (MemoryError ''Failed to allocated DmStats handle.''),
                  h\<lparr>stats_objs := (stats_objs h)(self \<mapsto> st\<lparr>ob_dms := None\<rparr>)\<rparr>)
       else do {
         let d = next_addr h;
         let h1 = h\<lparr>native := (native h)(d \<mapsto> []),
                    stats_objs := (stats_objs h)(self \<mapsto> st\<lparr>ob_dms := Some d\<rparr>),
                    next_addr := Suc d\<rparr>;
         if arg_name args \<noteq> None
         then (if \<not> bind_ok
               then DmStats_init_fail h1 d (OSError ''Failed to bind name to DmStatst handle.'')
               else Some (Inr (), h1))
         else if arg_uuid args \<noteq> None
         then (if \<not> bind_ok
               then DmStats_init_fail h1 d (OSError ''Failed to bind uuid to DmStatst handle.'')
               else Some (Inr (), h1))
         else if arg_major args \<noteq> 0
         then (if arg_minor args = 0
               then DmStats_init_fail h1 d (ValueError ''Missing minor= keyword argument.'')
               else if \<not> bind_ok
               then DmStats_init_fail h1 d (OSError ''Failed to bind devno to DmStatst handle.'')
               else Some (Inr (), h1))
         else if arg_minor args \<noteq> 0
         then DmStats_init_fail h1 d (ValueError ''Missing major= keyword argument.'')
         else Some (Inr (), h1)
       }
     }"

section \<open>Predicates and example stores for the properties\<close>

text \<open>
  A cache slot is well formed when it is empty, or holds a weak reference object with a
  reference count, whose referent has expired or is a live view of the right kind.
\<close>

definition region_slot_ok :: "heap \<Rightarrow> addr option \<Rightarrow> bool" where
  "region_slot_ok h slot \<longleftrightarrow>
     (case slot of
        None \<Rightarrow> True
      | Some w \<Rightarrow>
          (\<exists>wr. weakrefs h w = Some wr \<and> wr_refcnt wr \<noteq> 0 \<and>
             (case wr_object wr of
                None \<Rightarrow> True
              | Some (RegionRef r) \<Rightarrow> region_objs h r \<noteq> None
              | Some _ \<Rightarrow> False)))"

definition area_slot_ok :: "heap \<Rightarrow> addr option \<Rightarrow> bool" where
  "area_slot_ok h slot \<longleftrightarrow>
     (case slot of
        None \<Rightarrow> True
      | Some w \<Rightarrow>
          (\<exists>wr. weakrefs h w = Some wr \<and> wr_refcnt wr \<noteq> 0 \<and>
             (case wr_object wr of
                None \<Rightarrow> True
              | Some (AreaRef a) \<Rightarrow> area_objs h a \<noteq> None
              | Some _ \<Rightarrow> False)))"

text \<open>
  Indexed access can produce a view: the index is in the range of the cache, the native
  layer reports the region present, and the slot of the index is well formed.
\<close>

definition region_accessible :: "heap \<Rightarrow> addr \<Rightarrow> int \<Rightarrow> bool" where
  "region_accessible h self i \<longleftrightarrow>
     (\<exists>st dms slots slot.
        stats_objs h self = Some st \<and> 0 \<le> i \<and> i < ob_regions_len st \<and>
        dms_of h self = Some dms \<and> dm_stats_region_present dms (nat i) \<and>
        ob_regions st = Some slots \<and> c_index slots i = Some slot \<and> region_slot_ok h slot)"

definition area_accessible :: "heap \<Rightarrow> addr \<Rightarrow> int \<Rightarrow> bool" where
  "area_accessible h self j \<longleftrightarrow>
     (\<exists>rg dms slots slot.
        region_objs h self = Some rg \<and> 0 \<le> j \<and> j < ob_areas_len rg \<and>
        dms_of h (ob_stats rg) = Some dms \<and> dm_stats_region_present dms (ob_region_id rg) \<and>
        ob_areas rg = Some slots \<and> c_index slots j = Some slot \<and> area_slot_ok h slot)"

text \<open>
  The cache holds, at the index, a weak reference whose referent \<open>ob\<close> is alive: the
  state after an indexed access that returned \<open>ob\<close>, for as long as \<open>ob\<close> is referenced.
\<close>

definition region_cached :: "heap \<Rightarrow> addr \<Rightarrow> int \<Rightarrow> pyref \<Rightarrow> bool" where
  "region_cached h self i ob \<longleftrightarrow>
     (\<exists>st dms slots w wr.
        stats_objs h self = Some st \<and> 0 \<le> i \<and> i < ob_regions_len st \<and>
        dms_of h self = Some dms \<and> dm_stats_region_present dms (nat i) \<and>
        ob_regions st = Some slots \<and> c_index slots i = Some (Some w) \<and>
        weakrefs h w = Some wr \<and> wr_object wr = Some ob \<and> Py_INCREF h ob \<noteq> None)"

definition area_cached :: "heap \<Rightarrow> addr \<Rightarrow> int \<Rightarrow> pyref \<Rightarrow> bool" where
  "area_cached h self j ob \<longleftrightarrow>
     (\<exists>rg dms slots w wr.
        region_objs h self = Some rg \<and> 0 \<le> j \<and> j < ob_areas_len rg \<and>
        dms_of h (ob_stats rg) = Some dms \<and> dm_stats_region_present dms (ob_region_id rg) \<and>
        ob_areas rg = Some slots \<and> c_index slots j = Some (Some w) \<and>
        weakrefs h w = Some wr \<and> wr_object wr = Some ob \<and> Py_INCREF h ob \<noteq> None)"

text \<open>
  Example stores. \<open>heap_new\<close>: a new \<open>DmStats\<close> object at address 0, before
  \<open>DmStats_init\<close>. \<open>heap_listed\<close>: the object bound to a device (native handle at
  address 1) after a first \<open>list()\<close> found region 1, with two areas, and no region 0.
  \<open>heap_view\<close>: after \<open>stats[1]\<close> created the region view at address 2 (weak reference
  at 3). \<open>heap_area\<close>: after \<open>stats[1][0]\<close> created the area view at address 4 (weak
  reference at 5). \<open>heap_relisted\<close>: \<open>heap_view\<close> after a second \<open>list()\<close>.
  \<open>heap_rebound\<close>: \<open>heap_view\<close> after \<open>bind_name\<close>.
\<close>

definition heap_empty :: heap where
  "heap_empty = \<lparr>stats_objs = Map.empty, region_objs = Map.empty, area_objs = Map.empty,
     weakrefs = Map.empty, native = Map.empty, next_addr = 0\<rparr>"

definition heap_new :: heap where
  "heap_new =
     \<lparr>stats_objs = [0 \<mapsto> \<lparr>st_refcnt = 1, ob_dms = None, ob_sequence = 0,
                         ob_regions = None, ob_regions_len = 0\<rparr>],
      region_objs = Map.empty, area_objs = Map.empty, weakrefs = Map.empty,
      native = Map.empty, next_addr = 1\<rparr>"

definition example_tree :: dm_stats where
  "example_tree = [None, Some \<lparr>region_nr_areas = 2, region_precise_timestamps = False\<rparr>]"

definition heap_listed :: heap where
  "heap_listed =
     \<lparr>stats_objs = [0 \<mapsto> \<lparr>st_refcnt = 1, ob_dms = Some 1, ob_sequence = 1,
                         ob_regions = Some [None, None], ob_regions_len = 2\<rparr>],
      region_objs = Map.empty, area_objs = Map.empty, weakrefs = Map.empty,
      native = [1 \<mapsto> example_tree], next_addr = 2\<rparr>"

definition heap_view :: heap where
  "heap_view =
     \<lparr>stats_objs = [0 \<mapsto> \<lparr>st_refcnt = 2, ob_dms = Some 1, ob_sequence = 1,
                         ob_regions = Some [None, Some 3], ob_regions_len = 2\<rparr>],
      region_objs = [2 \<mapsto> \<lparr>rg_refcnt = 1, ob_stats = 0, rg_sequence = 1, ob_region_id = 1,
                          rg_weakreflist = [3], ob_areas = Some [None, None], ob_areas_len = 2\<rparr>],
      area_objs = Map.empty,
      weakrefs = [3 \<mapsto> \<lparr>wr_refcnt = 1, wr_object = Some (RegionRef 2)\<rparr>],
      native = [1 \<mapsto> example_tree], next_addr = 4\<rparr>"

definition heap_area :: heap where
  "heap_area =
     \<lparr>stats_objs = [0 \<mapsto> \<lparr>st_refcnt = 3, ob_dms = Some 1, ob_sequence = 1,
                         ob_regions = Some [None, Some 3], ob_regions_len = 2\<rparr>],
      region_objs = [2 \<mapsto> \<lparr>rg_refcnt = 1, ob_stats = 0, rg_sequence = 1, ob_region_id = 1,
                          rg_weakreflist = [3], ob_areas = Some [Some 5, None], ob_areas_len = 2\<rparr>],
      area_objs = [4 \<mapsto> \<lparr>ar_refcnt = 1, ar_stats = 0, ar_weakreflist = [5], ob_area_id = 0\<rparr>],
      weakrefs = [3 \<mapsto> \<lparr>wr_refcnt = 1, wr_object = Some (RegionRef 2)\<rparr>,
                  5 \<mapsto> \<lparr>wr_refcnt = 1, wr_object = Some (AreaRef 4)\<rparr>],
      native = [1 \<mapsto> example_tree], next_addr = 6\<rparr>"

definition heap_relisted :: heap where
  "heap_relisted =
     \<lparr>stats_objs = [0 \<mapsto> \<lparr>st_refcnt = 3, ob_dms = Some 1, ob_sequence = 2,
                         ob_regions = Some [None, None], ob_regions_len = 2\<rparr>],
      region_objs = [2 \<mapsto> \<lparr>rg_refcnt = 1, ob_stats = 0, rg_sequence = 1, ob_region_id = 1,
                          rg_weakreflist = [], ob_areas = None, ob_areas_len = 0\<rparr>],
      area_objs = Map.empty,
      weakrefs = Map.empty,
      native = [1 \<mapsto> example_tree], next_addr = 4\<rparr>"

definition heap_rebound :: heap where
  "heap_rebound =
     \<lparr>stats_objs = [0 \<mapsto> \<lparr>st_refcnt = 2, ob_dms = Some 1, ob_sequence = 2,
                         ob_regions = Some [None, Some 3], ob_regions_len = 2\<rparr>],
      region_objs = [2 \<mapsto> \<lparr>rg_refcnt = 1, ob_stats = 0, rg_sequence = 1, ob_region_id = 1,
                          rg_weakreflist = [3], ob_areas = Some [None, None], ob_areas_len = 2\<rparr>],
      area_objs = Map.empty,
      weakrefs = [3 \<mapsto> \<lparr>wr_refcnt = 1, wr_object = Some (RegionRef 2)\<rparr>],
      native = [1 \<mapsto> []], next_addr = 4\<rparr>"

section \<open>Properties of DmCookie\<close>

lemma DM_UDEV_FLAGS_MASK_eq: "DM_UDEV_FLAGS_MASK = NOT (mask 16)"
  by (simp add: DM_UDEV_FLAGS_MASK_def mask_eq_exp_minus_1)

lemma set_cookie_values_consistent: "cookie_consistent (dmpy_set_cookie_values self)"
  unfolding cookie_consistent_def dmpy_set_cookie_values_def DM_UDEV_FLAGS_MASK_eq
    DM_UDEV_FLAGS_SHIFT_def
  apply simp
  apply (rule conjI)
   apply (rule bit_word_eqI, simp add: bit_simps)
  apply (rule bit_word_eqI, simp add: bit_simps)
  done

lemma set_cookie_values_cookie: "ob_cookie (dmpy_set_cookie_values self) = ob_cookie self"
  by (simp add: dmpy_set_cookie_values_def)

lemma consistent_recompose:
  "cookie_consistent self \<Longrightarrow> ob_cookie self = cookie_recompose self"
  unfolding cookie_consistent_def cookie_recompose_def DM_UDEV_FLAGS_SHIFT_def
  apply (rule bit_word_eqI)
  apply (auto simp add: bit_simps)
  done

lemma consistent_iff_recompose:
  "cookie_consistent self \<longleftrightarrow> ob_cookie self = cookie_recompose self"
proof
  assume "cookie_consistent self"
  then show "ob_cookie self = cookie_recompose self" by (rule consistent_recompose)
next
  assume r: "ob_cookie self = cookie_recompose self"
  have b: "ucast (cookie_recompose self) = ob_val_base self"
    unfolding cookie_recompose_def DM_UDEV_FLAGS_SHIFT_def
    by (rule bit_word_eqI) (auto simp add: bit_simps)
  have p: "ucast (drop_bit 16 (cookie_recompose self)) = ob_val_prefix self"
    unfolding cookie_recompose_def DM_UDEV_FLAGS_SHIFT_def
    by (rule bit_word_eqI) (auto simp add: bit_simps dest: bit_imp_le_length)
  show "cookie_consistent self"
    unfolding cookie_consistent_def r using b p by simp
qed

lemma check_sub_field_in_range:
  "0 \<le> p \<Longrightarrow> p \<le> 0xffff \<Longrightarrow> dmpy_check_base_or_prefix_value (word_of_int p) = None"
  unfolding dmpy_check_base_or_prefix_value_def
  by (simp add: word_less_def not_less word_le_def uint_word_of_int take_bit_int_eq_self)

text \<open>An \<open>unsigned\<close> is never above \<open>0xffffffff\<close>: the check of the value never fails.\<close>

lemma check_cookie_value_None: "dmpy_check_cookie_value v = None"
  unfolding dmpy_check_cookie_value_def
  using uint_lt2p [of v] by (simp add: word_less_def not_less)

text \<open>
  A sub-field value in range is accepted on every token; the other sub-field becomes the
  matching half of the value the token held.
\<close>

lemma set_prefix_any:
  assumes "0 \<le> p" "p \<le> 0xffff"
  shows "\<exists>self'. DmCookie_set_prefix self p = (Inr True, self') \<and>
           ob_val_prefix self' = word_of_int p \<and> ob_val_base self' = ucast (ob_cookie self) \<and>
           ob_ready self' = ob_ready self \<and>
           ob_cookie self' = cookie_recompose self' \<and> cookie_consistent self'"
proof -
  have parse: "PyArg_int p = Inr (word_of_int p)"
    using assms by (simp add: PyArg_int_def)
  define c' where
    "c' = (ob_cookie self AND NOT DM_UDEV_FLAGS_MASK)
            OR push_bit DM_UDEV_FLAGS_SHIFT (word_of_int p :: 32 word)"
  define self' where "self' = dmpy_set_cookie_values (self\<lparr>ob_cookie := c'\<rparr>)"
  have run: "DmCookie_set_prefix self p = (Inr True, self')"
    using assms
    by (simp add: DmCookie_set_prefix_def parse check_sub_field_in_range Let_def self'_def c'_def)
  have cons: "cookie_consistent self'"
    unfolding self'_def by (rule set_cookie_values_consistent)
  have ck: "ob_cookie self' = c'"
    by (simp add: self'_def set_cookie_values_cookie)
  have pre: "ob_val_prefix self' = word_of_int p"
    using cons
    unfolding cookie_consistent_def ck c'_def DM_UDEV_FLAGS_MASK_eq DM_UDEV_FLAGS_SHIFT_def
    apply simp
    apply (rule bit_word_eqI)
    apply (auto simp add: bit_simps)
    done
  have base: "ob_val_base self' = ucast (ob_cookie self)"
    using cons
    unfolding cookie_consistent_def ck c'_def DM_UDEV_FLAGS_MASK_eq DM_UDEV_FLAGS_SHIFT_def
    apply simp
    apply (rule bit_word_eqI)
    apply (auto simp add: bit_simps)
    done
  have rdy: "ob_ready self' = ob_ready self"
    by (simp add: self'_def dmpy_set_cookie_values_def)
  show ?thesis
    using run pre base rdy cons consistent_recompose [OF cons] by blast
qed

lemma set_base_any:
  assumes "0 \<le> b" "b \<le> 0xffff"
  shows "\<exists>self'. DmCookie_set_base self b = (Inr True, self') \<and>
           ob_val_base self' = word_of_int b \<and>
           ob_val_prefix self' = ucast (drop_bit 16 (ob_cookie self)) \<and>
           ob_ready self' = ob_ready self \<and>
           ob_cookie self' = cookie_recompose self' \<and> cookie_consistent self'"
proof -
  have parse: "PyArg_int b = Inr (word_of_int b)"
    using assms by (simp add: PyArg_int_def)
  define c' where "c' = (ob_cookie self AND DM_UDEV_FLAGS_MASK) OR (word_of_int b :: 32 word)"
  define self' where "self' = dmpy_set_cookie_values (self\<lparr>ob_cookie := c'\<rparr>)"
  have run: "DmCookie_set_base self b = (Inr True, self')"
    using assms
    by (simp add: DmCookie_set_base_def parse check_sub_field_in_range Let_def self'_def c'_def)
  have cons: "cookie_consistent self'"
    unfolding self'_def by (rule set_cookie_values_consistent)
  have ck: "ob_cookie self' = c'"
    by (simp add: self'_def set_cookie_values_cookie)
  have tb: "take_bit 16 b = b"
    using assms by (simp add: take_bit_int_eq_self)
  have hi: "\<not> bit b (16 + n)" for n
  proof
    assume "bit b (16 + n)"
    then have "bit (take_bit 16 b) (16 + n)" by (simp only: tb)
    then show False by (simp add: bit_take_bit_iff)
  qed
  have base: "ob_val_base self' = word_of_int b"
    using cons unfolding cookie_consistent_def ck c'_def DM_UDEV_FLAGS_MASK_eq
    apply simp
    apply (rule bit_word_eqI)
    apply (auto simp add: bit_simps)
    done
  have pre: "ob_val_prefix self' = ucast (drop_bit 16 (ob_cookie self))"
    using cons hi unfolding cookie_consistent_def ck c'_def DM_UDEV_FLAGS_MASK_eq
    apply simp
    apply (rule bit_word_eqI)
    apply (auto simp add: bit_simps)
    done
  have rdy: "ob_ready self' = ob_ready self"
    by (simp add: self'_def dmpy_set_cookie_values_def)
  show ?thesis
    using run pre base rdy cons consistent_recompose [OF cons] by blast
qed

lemma set_value_keeps_state: "snd (DmCookie_set_value self a) = self"
  by (simp add: DmCookie_set_value_def check_cookie_value_None split: sum.splits)

lemma set_prefix_consistent:
  "cookie_consistent self \<Longrightarrow> cookie_consistent (snd (DmCookie_set_prefix self a))"
  by (simp add: DmCookie_set_prefix_def Let_def set_cookie_values_consistent
      split: sum.splits option.splits)

lemma set_base_consistent:
  "cookie_consistent self \<Longrightarrow> cookie_consistent (snd (DmCookie_set_base self a))"
  by (simp add: DmCookie_set_base_def Let_def set_cookie_values_consistent
      split: sum.splits option.splits)

text \<open>A sub-field value above \<open>0xffff\<close>, or below 0, is refused with the range error.\<close>

lemma sub_field_out_of_range:
  assumes "- (2 ^ 31) \<le> p" "p < 2 ^ 31" "p < 0 \<or> 0xffff < p"
  shows "DmCookie_set_prefix self p =
           (Inl (ValueError ''DmCookie prefix value out of range.''), self) \<and>
         DmCookie_set_base self p =
           (Inl (ValueError ''DmCookie prefix value out of range.''), self)"
proof -
  have parse: "PyArg_int p = Inr (word_of_int p)"
    using assms by (simp add: PyArg_int_def)
  have "uint (word_of_int p :: 32 word) = p mod 2 ^ 32"
    by (simp add: uint_word_of_int)
  moreover have "65535 < p mod 2 ^ 32"
  proof (cases "p < 0")
    case True
    have "p mod 2 ^ 32 = (p + 2 ^ 32) mod 2 ^ 32"
      by simp
    also have "\<dots> = p + 2 ^ 32"
      using True assms(1) by (intro mod_pos_pos_trivial) simp_all
    finally show ?thesis using assms(1) by simp
  next
    case False
    then have "p mod 2 ^ 32 = p"
      using assms(2) by (simp add: mod_pos_pos_trivial)
    then show ?thesis using assms(3) False by simp
  qed
  ultimately have "dmpy_check_base_or_prefix_value (word_of_int p) =
      Some (ValueError ''DmCookie prefix value out of range.'')"
    by (simp add: dmpy_check_base_or_prefix_value_def word_less_def)
  then show ?thesis
    by (simp add: DmCookie_set_prefix_def DmCookie_set_base_def parse)
qed

text \<open>Construction leaves a consistent token that is not ready, whatever was there before.\<close>

lemma DmCookie_init_consistent:
  "DmCookie_init self0 a = (Inr (), self) \<Longrightarrow> cookie_consistent self \<and> \<not> ob_ready self"
proof -
  assume run: "DmCookie_init self0 a = (Inr (), self)"
  then obtain v where
    self: "self = (dmpy_set_cookie_values (self0\<lparr>ob_cookie := v\<rparr>))\<lparr>ob_ready := False\<rparr>"
    by (auto simp add: DmCookie_init_def DmCookie_init_value_def check_cookie_value_None
        split: sum.splits)
  have "cookie_consistent (s\<lparr>ob_ready := b\<rparr>) = cookie_consistent s" for s b
    by (simp add: cookie_consistent_def)
  then show ?thesis
    by (simp add: self set_cookie_values_consistent)
qed

text \<open>Construction with a value in the range of a C \<open>int\<close> succeeds and stores it.\<close>

lemma DmCookie_init_stores:
  "- (2 ^ 31) \<le> v \<Longrightarrow> v < 2 ^ 31 \<Longrightarrow>
     \<exists>self. DmCookie_init self0 (Some v) = (Inr (), self) \<and> ob_cookie self = word_of_int v"
  by (simp add: DmCookie_init_def DmCookie_init_value_def check_cookie_value_None PyArg_int_def
      set_cookie_values_cookie)

text \<open>
  C8 (the code at the failing input, and at every other): \<open>set_value\<close> never stores its
  argument. For every token and every supplied value it returns the failure value and
  leaves the token as it was: with no exception set when the value fits a C \<open>int\<close>, and
  with the interpreter's \<open>OverflowError\<close> otherwise. The claim says that \<open>set_value\<close>
  succeeds and stores every value up to \<open>2^32 - 1\<close>.
\<close>

theorem DmCookie_set_value_returns_failure:
  "DmCookie_set_value self v =
     (Inl (if - (2 ^ 31) \<le> v \<and> v < 2 ^ 31 then NullWithoutException else OverflowError), self)"
  by (simp add: DmCookie_set_value_def PyArg_int_def check_cookie_value_None)

text \<open>
  C9: \<open>wait\<close> on a token already marked ready fails with the state error
  (\<open>ValueError\<close>) and changes nothing. On a token that is not ready it returns the
  boolean "the native wait call succeeded" (\<open>r \<noteq> 0\<close>) and marks the token ready only
  when the call succeeded and readiness was observed (\<open>r \<noteq> 0\<close> and \<open>ready \<noteq> 0\<close>; a
  blocking wait observes readiness exactly when it succeeds). Hence a second \<open>wait\<close>
  after a successful one that reached readiness fails with the state error, and a
  successful immediate poll can return \<open>True\<close> while the token stays not ready.
\<close>

theorem DmCookie_udev_wait_states:
  "(ob_ready self \<longrightarrow>
      DmCookie_udev_wait_impl lib self imm =
        (Inl (ValueError ''Cannot udev_wait() on a completed DmCookie.''), self)) \<and>
   (\<not> ob_ready self \<longrightarrow>
      (\<exists>r ready.
         (r, ready) =
           (if imm = 0 then (dm_udev_wait lib (ob_cookie self), dm_udev_wait lib (ob_cookie self))
            else dm_udev_wait_immediate lib (ob_cookie self)) \<and>
         DmCookie_udev_wait_impl lib self imm =
           (Inr (r \<noteq> 0), self\<lparr>ob_ready := (r \<noteq> 0 \<and> ready \<noteq> 0)\<rparr>))) \<and>
   (\<forall>s'. DmCookie_udev_wait_impl lib self imm = (Inr True, s') \<and> ob_ready s' \<longrightarrow>
      (\<forall>lib' imm'. DmCookie_udev_wait_impl lib' s' imm' =
         (Inl (ValueError ''Cannot udev_wait() on a completed DmCookie.''), s'))) \<and>
   (\<exists>lib'. DmCookie_udev_wait_impl lib' (self\<lparr>ob_ready := False\<rparr>) 1 =
      (Inr True, self\<lparr>ob_ready := False\<rparr>))"
proof (intro conjI impI allI)
  assume "ob_ready self"
  then show "DmCookie_udev_wait_impl lib self imm =
        (Inl (ValueError ''Cannot udev_wait() on a completed DmCookie.''), self)"
    by (simp add: DmCookie_udev_wait_impl_def)
next
  assume nr: "\<not> ob_ready self"
  obtain r ready where rr: "(r, ready) =
           (if imm = 0 then (dm_udev_wait lib (ob_cookie self), dm_udev_wait lib (ob_cookie self))
            else dm_udev_wait_immediate lib (ob_cookie self))"
    by (metis surj_pair)
  have "DmCookie_udev_wait_impl lib self imm =
           (Inr (r \<noteq> 0), self\<lparr>ob_ready := (r \<noteq> 0 \<and> ready \<noteq> 0)\<rparr>)"
    using nr rr
    by (auto simp add: DmCookie_udev_wait_impl_def Let_def split: if_splits prod.splits)
  with rr show "\<exists>r ready.
         (r, ready) =
           (if imm = 0 then (dm_udev_wait lib (ob_cookie self), dm_udev_wait lib (ob_cookie self))
            else dm_udev_wait_immediate lib (ob_cookie self)) \<and>
         DmCookie_udev_wait_impl lib self imm =
           (Inr (r \<noteq> 0), self\<lparr>ob_ready := (r \<noteq> 0 \<and> ready \<noteq> 0)\<rparr>)"
    by blast
next
  fix s' lib' imm'
  assume "DmCookie_udev_wait_impl lib self imm = (Inr True, s') \<and> ob_ready s'"
  then show "DmCookie_udev_wait_impl lib' s' imm' =
         (Inl (ValueError ''Cannot udev_wait() on a completed DmCookie.''), s')"
    by (simp add: DmCookie_udev_wait_impl_def)
next
  show "\<exists>lib'. DmCookie_udev_wait_impl lib' (self\<lparr>ob_ready := False\<rparr>) 1 =
      (Inr True, self\<lparr>ob_ready := False\<rparr>)"
    by (rule exI [of _ "\<lparr>dm_udev_wait = \<lambda>_. 1, dm_udev_wait_immediate = \<lambda>_. (1, 0)\<rparr>"])
       (simp add: DmCookie_udev_wait_impl_def)
qed

text \<open>
  The witness: a fresh token, a blocking wait that succeeds, then a second wait.
\<close>

theorem DmCookie_udev_wait_states_witness:
  "DmCookie_udev_wait_impl \<lparr>dm_udev_wait = \<lambda>_. 1, dm_udev_wait_immediate = \<lambda>_. (1, 0)\<rparr>
      \<lparr>ob_cookie = 0, ob_val_prefix = 0, ob_val_base = 0, ob_ready = False\<rparr> 0 =
     (Inr True, \<lparr>ob_cookie = 0, ob_val_prefix = 0, ob_val_base = 0, ob_ready = True\<rparr>) \<and>
   DmCookie_udev_wait_impl \<lparr>dm_udev_wait = \<lambda>_. 1, dm_udev_wait_immediate = \<lambda>_. (1, 0)\<rparr>
      \<lparr>ob_cookie = 0, ob_val_prefix = 0, ob_val_base = 0, ob_ready = True\<rparr> 0 =
     (Inl (ValueError ''Cannot udev_wait() on a completed DmCookie.''),
      \<lparr>ob_cookie = 0, ob_val_prefix = 0, ob_val_base = 0, ob_ready = True\<rparr>)"
  using DmCookie_udev_wait_states
    [of "\<lparr>ob_cookie = 0, ob_val_prefix = 0, ob_val_base = 0, ob_ready = False\<rparr>"
        "\<lparr>dm_udev_wait = \<lambda>_. 1, dm_udev_wait_immediate = \<lambda>_. (1, 0)\<rparr>" 0]
  by (simp add: DmCookie_udev_wait_impl_def)

text \<open>
  \<open>DmTask_set_cookie\<close> stores what the native call leaves and keeps both sub-fields, so
  a token that was consistent stays so only if the native call left its value as it was.
  \<open>_dmpy_udev_create_cookie\<close> returns a consistent token.
\<close>

lemma set_cookie_run:
  "DmTask_set_cookie lib self =
     (if fst (dm_task_set_cookie lib (ob_cookie self) 0) = 0
      then Inl (OSError ''Failed to set DmTask cookie.'') else Inr True,
      self\<lparr>ob_cookie := snd (dm_task_set_cookie lib (ob_cookie self) 0)\<rparr>)"
  by (simp add: DmTask_set_cookie_def Let_def split: prod.splits)

lemma set_cookie_token:
  "snd (DmTask_set_cookie lib self) =
     self\<lparr>ob_cookie := snd (dm_task_set_cookie lib (ob_cookie self) 0)\<rparr>"
  by (simp add: DmTask_set_cookie_def Let_def split: prod.splits)

lemma halves_eq:
  fixes c d :: "32 word"
  shows "c = d \<longleftrightarrow>
     (ucast c :: 16 word) = ucast d \<and> (ucast (drop_bit 16 c) :: 16 word) = ucast (drop_bit 16 d)"
proof
  assume "c = d" then show "(ucast c :: 16 word) = ucast d \<and>
      (ucast (drop_bit 16 c) :: 16 word) = ucast (drop_bit 16 d)" by simp
next
  assume h: "(ucast c :: 16 word) = ucast d \<and>
      (ucast (drop_bit 16 c) :: 16 word) = ucast (drop_bit 16 d)"
  show "c = d"
  proof (rule bit_word_eqI)
    fix n assume n: "n < LENGTH(32)"
    show "bit c n = bit d n"
    proof (cases "n < 16")
      case True
      from h have "bit (ucast c :: 16 word) n = bit (ucast d :: 16 word) n" by simp
      with True show ?thesis by (simp add: bit_simps)
    next
      case False
      from h have "bit (ucast (drop_bit 16 c) :: 16 word) (n - 16) =
                   bit (ucast (drop_bit 16 d) :: 16 word) (n - 16)" by simp
      moreover from False n have "n - 16 < 16" and "16 + (n - 16) = n" by simp_all
      ultimately show ?thesis by (simp add: bit_simps)
    qed
  qed
qed

lemma set_cookie_consistent_iff:
  assumes "cookie_consistent self"
  shows "cookie_consistent (snd (DmTask_set_cookie lib self)) \<longleftrightarrow>
           snd (dm_task_set_cookie lib (ob_cookie self) 0) = ob_cookie self"
  using assms
  by (auto simp add: set_cookie_token cookie_consistent_def halves_eq [of _ "ob_cookie self"])

lemma udev_create_cookie_consistent:
  "dmpy_udev_create_cookie lib errno fresh = Inr cookie \<Longrightarrow>
     cookie_consistent cookie \<and> ob_cookie cookie = snd (dm_udev_create_cookie lib)"
  by (auto simp add: dmpy_udev_create_cookie_def Let_def DmCookie_init_value_def
      check_cookie_value_None set_cookie_values_consistent set_cookie_values_cookie
      split: prod.splits if_splits)


text \<open>
  C10: for a sub-field value \<open>v\<close> in \<open>[0, 0xffff]\<close> and every token,
  \<open>set_prefix v\<close> succeeds, the prefix becomes \<open>v\<close> and the base becomes the low half of
  the value the token held, so that the base is unchanged exactly when it agreed with the
  value; \<open>set_base v\<close> succeeds, the base becomes \<open>v\<close> and the prefix becomes the high
  half of the value the token held, so that the prefix is unchanged exactly when it agreed
  with the value; after either the 32-bit value is the recomposition \<open>(prefix << 16) | base\<close>.
  On a token whose sub-fields agree with its value, the value is the recomposition after
  \<open>set_prefix\<close>, \<open>set_base\<close> and \<open>set_value\<close> called with any argument.
  \<open>DmTask_set_cookie\<close> replaces the value by what the native call leaves there and keeps
  both sub-fields. After it, on a token whose sub-fields agreed with its value, the value is
  the recomposition only if the native call left the value as it was; if it did not,
  \<open>set_prefix v\<close> changes the base or \<open>set_base v\<close> changes the prefix.
\<close>

theorem DmCookie_sub_fields_after_set_cookie:
  assumes "0 \<le> v" "v \<le> 0xffff"
  shows
    "(\<exists>s'. DmCookie_set_prefix self v = (Inr True, s') \<and>
        ob_val_prefix s' = word_of_int v \<and> ob_val_base s' = ucast (ob_cookie self) \<and>
        ob_cookie s' = cookie_recompose s') \<and>
     (\<exists>s'. DmCookie_set_base self v = (Inr True, s') \<and>
        ob_val_base s' = word_of_int v \<and>
        ob_val_prefix s' = ucast (drop_bit 16 (ob_cookie self)) \<and>
        ob_cookie s' = cookie_recompose s') \<and>
     ((ob_val_base (snd (DmCookie_set_prefix self v)) = ob_val_base self) =
        (ob_val_base self = ucast (ob_cookie self))) \<and>
     ((ob_val_prefix (snd (DmCookie_set_base self v)) = ob_val_prefix self) =
        (ob_val_prefix self = ucast (drop_bit 16 (ob_cookie self)))) \<and>
     (cookie_consistent self \<longrightarrow>
        (\<forall>a. ob_cookie (snd (DmCookie_set_prefix self a)) =
           cookie_recompose (snd (DmCookie_set_prefix self a))) \<and>
        (\<forall>a. ob_cookie (snd (DmCookie_set_base self a)) =
           cookie_recompose (snd (DmCookie_set_base self a))) \<and>
        (\<forall>a. ob_cookie (snd (DmCookie_set_value self a)) =
           cookie_recompose (snd (DmCookie_set_value self a)))) \<and>
     (\<forall>lib :: cookie_native. DmTask_set_cookie lib self =
        (if fst (dm_task_set_cookie lib (ob_cookie self) 0) = 0
         then Inl (OSError ''Failed to set DmTask cookie.'') else Inr True,
         self\<lparr>ob_cookie := snd (dm_task_set_cookie lib (ob_cookie self) 0)\<rparr>)) \<and>
     (cookie_consistent self \<longrightarrow>
        (\<forall>lib :: cookie_native. (ob_cookie (snd (DmTask_set_cookie lib self)) =
                  cookie_recompose (snd (DmTask_set_cookie lib self))) =
               (snd (dm_task_set_cookie lib (ob_cookie self) 0) = ob_cookie self)) \<and>
        (\<forall>lib :: cookie_native. snd (dm_task_set_cookie lib (ob_cookie self) 0) \<noteq> ob_cookie self \<longrightarrow>
           ob_val_base (snd (DmCookie_set_prefix (snd (DmTask_set_cookie lib self)) v)) \<noteq>
             ob_val_base (snd (DmTask_set_cookie lib self)) \<or>
           ob_val_prefix (snd (DmCookie_set_base (snd (DmTask_set_cookie lib self)) v)) \<noteq>
             ob_val_prefix (snd (DmTask_set_cookie lib self))))"
proof -
  have pre: "\<exists>s'. DmCookie_set_prefix s v = (Inr True, s') \<and>
        ob_val_prefix s' = word_of_int v \<and> ob_val_base s' = ucast (ob_cookie s) \<and>
        ob_cookie s' = cookie_recompose s'" for s
    using set_prefix_any [OF assms, of s] by blast
  have base: "\<exists>s'. DmCookie_set_base s v = (Inr True, s') \<and>
        ob_val_base s' = word_of_int v \<and>
        ob_val_prefix s' = ucast (drop_bit 16 (ob_cookie s)) \<and>
        ob_cookie s' = cookie_recompose s'" for s
    using set_base_any [OF assms, of s] by blast
  have pre_base: "ob_val_base (snd (DmCookie_set_prefix s v)) = ucast (ob_cookie s)" for s
    using pre [of s] by auto
  have base_pre: "ob_val_prefix (snd (DmCookie_set_base s v)) = ucast (drop_bit 16 (ob_cookie s))"
    for s
    using base [of s] by auto
  have c3: "(ob_val_base (snd (DmCookie_set_prefix self v)) = ob_val_base self) =
        (ob_val_base self = ucast (ob_cookie self))"
    by (auto simp add: pre_base)
  have c4: "(ob_val_prefix (snd (DmCookie_set_base self v)) = ob_val_prefix self) =
        (ob_val_prefix self = ucast (drop_bit 16 (ob_cookie self)))"
    by (auto simp add: base_pre)
  have c5: "cookie_consistent self \<longrightarrow>
        (\<forall>a. ob_cookie (snd (DmCookie_set_prefix self a)) =
           cookie_recompose (snd (DmCookie_set_prefix self a))) \<and>
        (\<forall>a. ob_cookie (snd (DmCookie_set_base self a)) =
           cookie_recompose (snd (DmCookie_set_base self a))) \<and>
        (\<forall>a. ob_cookie (snd (DmCookie_set_value self a)) =
           cookie_recompose (snd (DmCookie_set_value self a)))"
  proof (intro impI conjI allI)
    fix a
    assume c: "cookie_consistent self"
    show "ob_cookie (snd (DmCookie_set_prefix self a)) =
        cookie_recompose (snd (DmCookie_set_prefix self a))"
      by (rule consistent_recompose [OF set_prefix_consistent [OF c]])
    show "ob_cookie (snd (DmCookie_set_base self a)) =
        cookie_recompose (snd (DmCookie_set_base self a))"
      by (rule consistent_recompose [OF set_base_consistent [OF c]])
    show "ob_cookie (snd (DmCookie_set_value self a)) =
        cookie_recompose (snd (DmCookie_set_value self a))"
      by (simp add: set_value_keeps_state consistent_recompose [OF c])
  qed
  have c6: "\<forall>lib :: cookie_native. DmTask_set_cookie lib self =
        (if fst (dm_task_set_cookie lib (ob_cookie self) 0) = 0
         then Inl (OSError ''Failed to set DmTask cookie.'') else Inr True,
         self\<lparr>ob_cookie := snd (dm_task_set_cookie lib (ob_cookie self) 0)\<rparr>)"
    by (simp add: set_cookie_run)
  have c7: "cookie_consistent self \<longrightarrow>
        (\<forall>lib :: cookie_native. (ob_cookie (snd (DmTask_set_cookie lib self)) =
                  cookie_recompose (snd (DmTask_set_cookie lib self))) =
               (snd (dm_task_set_cookie lib (ob_cookie self) 0) = ob_cookie self)) \<and>
        (\<forall>lib :: cookie_native. snd (dm_task_set_cookie lib (ob_cookie self) 0) \<noteq> ob_cookie self \<longrightarrow>
           ob_val_base (snd (DmCookie_set_prefix (snd (DmTask_set_cookie lib self)) v)) \<noteq>
             ob_val_base (snd (DmTask_set_cookie lib self)) \<or>
           ob_val_prefix (snd (DmCookie_set_base (snd (DmTask_set_cookie lib self)) v)) \<noteq>
             ob_val_prefix (snd (DmTask_set_cookie lib self)))"
  proof (intro impI conjI allI)
    fix lib :: cookie_native
    assume c: "cookie_consistent self"
    show "(ob_cookie (snd (DmTask_set_cookie lib self)) =
                  cookie_recompose (snd (DmTask_set_cookie lib self))) =
               (snd (dm_task_set_cookie lib (ob_cookie self) 0) = ob_cookie self)"
      using set_cookie_consistent_iff [OF c, of lib]
      by (simp only: consistent_iff_recompose)
  next
    fix lib :: cookie_native
    assume c: "cookie_consistent self"
      and w: "snd (dm_task_set_cookie lib (ob_cookie self) 0) \<noteq> ob_cookie self"
    define s where "s = snd (DmTask_set_cookie lib self)"
    have "\<not> cookie_consistent s"
      using set_cookie_consistent_iff [OF c, of lib] w by (simp add: s_def)
    then have "ob_val_base s \<noteq> ucast (ob_cookie s) \<or>
               ob_val_prefix s \<noteq> ucast (drop_bit 16 (ob_cookie s))"
      by (simp add: cookie_consistent_def)
    then have "ob_val_base (snd (DmCookie_set_prefix s v)) \<noteq> ob_val_base s \<or>
               ob_val_prefix (snd (DmCookie_set_base s v)) \<noteq> ob_val_prefix s"
      by (auto simp add: pre_base base_pre)
    then show "ob_val_base (snd (DmCookie_set_prefix (snd (DmTask_set_cookie lib self)) v)) \<noteq>
             ob_val_base (snd (DmTask_set_cookie lib self)) \<or>
           ob_val_prefix (snd (DmCookie_set_base (snd (DmTask_set_cookie lib self)) v)) \<noteq>
             ob_val_prefix (snd (DmTask_set_cookie lib self))"
      by (simp only: s_def)
  qed
  show ?thesis
    using pre [of self] base [of self] c3 c4 c5 c6 c7 by blast
qed

text \<open>
  The witness: a new token of value 0, for which the native call generates the value
  \<open>0x0D4D1234\<close>; then \<open>set_prefix 5\<close> turns the base from 0 into \<open>0x1234\<close>, and
  \<open>set_base 5\<close> turns the prefix from 0 into \<open>0x0D4D\<close>.
\<close>

theorem DmCookie_sub_fields_after_set_cookie_witness:
  "(0 :: int) \<le> 5 \<and> (5 :: int) \<le> 0xffff \<and>
   cookie_consistent \<lparr>ob_cookie = 0, ob_val_prefix = 0, ob_val_base = 0, ob_ready = False\<rparr> \<and>
   DmTask_set_cookie
      \<lparr>dm_task_set_cookie = \<lambda>c flags. (1, if c = 0 then 0x0D4D1234 else c),
       dm_udev_create_cookie = (1, 0x0D4D1234)\<rparr>
      \<lparr>ob_cookie = 0, ob_val_prefix = 0, ob_val_base = 0, ob_ready = False\<rparr> =
     (Inr True,
      \<lparr>ob_cookie = 0x0D4D1234, ob_val_prefix = 0, ob_val_base = 0, ob_ready = False\<rparr>) \<and>
   DmCookie_set_prefix
      \<lparr>ob_cookie = 0x0D4D1234, ob_val_prefix = 0, ob_val_base = 0, ob_ready = False\<rparr> 5 =
     (Inr True,
      \<lparr>ob_cookie = 0x00051234, ob_val_prefix = 5, ob_val_base = 0x1234, ob_ready = False\<rparr>) \<and>
   DmCookie_set_base
      \<lparr>ob_cookie = 0x0D4D1234, ob_val_prefix = 0, ob_val_base = 0, ob_ready = False\<rparr> 5 =
     (Inr True,
      \<lparr>ob_cookie = 0x0D4D0005, ob_val_prefix = 0x0D4D, ob_val_base = 5, ob_ready = False\<rparr>)"
proof -
  have lo: "(0 :: int) \<le> 5" and hi: "(5 :: int) \<le> 0xffff"
    by simp_all
  have c: "cookie_consistent
      \<lparr>ob_cookie = 0, ob_val_prefix = 0, ob_val_base = 0, ob_ready = False\<rparr>"
    by (simp add: cookie_consistent_def)
  show ?thesis
    using c
      DmCookie_sub_fields_after_set_cookie [OF lo hi,
        of "\<lparr>ob_cookie = 0, ob_val_prefix = 0, ob_val_base = 0, ob_ready = False\<rparr>"]
    by (simp add: DmTask_set_cookie_def DmCookie_set_prefix_def DmCookie_set_base_def
        PyArg_int_def dmpy_check_base_or_prefix_value_def dmpy_set_cookie_values_def
        DM_UDEV_FLAGS_MASK_def DM_UDEV_FLAGS_SHIFT_def)
qed


section \<open>Properties of DmTask\<close>

lemmas DMT_defs = DMT_DID_IOCTL_def DMT_DID_ERROR_def DMT_HAVE_INFO_def DMT_HAVE_NAME_def
  DMT_HAVE_UUID_def DMT_HAVE_DEPS_def DMT_HAVE_NAME_LIST_def DMT_HAVE_TIMESTAMP_def
  DMT_HAVE_MESSAGE_def DMT_HAVE_TABLE_def DMT_HAVE_STATUS_def DMT_HAVE_TARGET_VERSIONS_def
  DMT_HAVE_IDENTITY_def

lemma category_not_state:
  "f \<in> set data_categories \<Longrightarrow>
     DMT_DID_IOCTL AND f = 0 \<and> DMT_DID_ERROR AND f = 0 \<and> DMT_HAVE_TIMESTAMP AND f = 0"
  by (auto simp add: data_categories_def DMT_defs)

lemma table_not_ioctl:
  "fl \<in> set DmTask_task_type_flags \<Longrightarrow> fl AND DMT_DID_IOCTL = 0"
  by (auto simp add: DmTask_task_type_flags_def DMT_defs)

lemma c_index_in_set: "c_index xs i = Some x \<Longrightarrow> x \<in> set xs"
  by (auto simp add: c_index_def split: if_splits)

lemma c_index_table:
  "0 \<le> ty \<Longrightarrow> ty < 19 \<Longrightarrow> \<exists>fl. c_index DmTask_task_type_flags ty = Some fl"
  by (simp add: c_index_def DmTask_task_type_flags_def)

lemma and_or_nonzero: "((a OR b) AND f = 0) = (a AND f = 0 \<and> b AND f = (0 :: 32 word))"
  by (simp add: bit.conj_disj_distrib2 or_eq_0_iff)

lemma event_type: "ob_task_type (DmTask_event t e) = ob_task_type t"
  by (cases e) (auto simp add: DmTask_run_def DmTask_set_record_timestamp_def Let_def split: option.splits)

lemma events_type: "ob_task_type (DmTask_events t evs) = ob_task_type t"
  unfolding DmTask_events_def
  by (induction evs arbitrary: t) (simp_all add: event_type)

lemma event_category:
  assumes "f \<in> set data_categories" "c_index DmTask_task_type_flags (ob_task_type t) = Some fl"
  shows "(ob_flags (DmTask_event t e) AND f \<noteq> 0) =
           (ob_flags t AND f \<noteq> 0 \<or> (is_run_ok e \<and> fl AND f \<noteq> 0))"
  using category_not_state [OF assms(1)] assms(2)
  by (cases e)
     (auto simp add: DmTask_run_def DmTask_set_record_timestamp_def Let_def and_or_nonzero)

lemma events_category:
  assumes "f \<in> set data_categories" "c_index DmTask_task_type_flags (ob_task_type t) = Some fl"
  shows "(ob_flags (DmTask_events t evs) AND f \<noteq> 0) =
           (ob_flags t AND f \<noteq> 0 \<or> ((\<exists>e \<in> set evs. is_run_ok e) \<and> fl AND f \<noteq> 0))"
  using assms(2) unfolding DmTask_events_def
proof (induction evs arbitrary: t)
  case Nil
  then show ?case by simp
next
  case (Cons e evs)
  have ty: "c_index DmTask_task_type_flags (ob_task_type (DmTask_event t e)) = Some fl"
    using Cons.prems by (simp add: event_type)
  show ?case
    using Cons.IH [OF ty] event_category [OF assms(1) Cons.prems, of e]
    by auto
qed

lemma event_ioctl:
  assumes "c_index DmTask_task_type_flags (ob_task_type t) = Some fl"
  shows "(ob_flags (DmTask_event t e) AND DMT_DID_IOCTL \<noteq> 0) =
           (ob_flags t AND DMT_DID_IOCTL \<noteq> 0 \<or> is_run e)"
  using assms table_not_ioctl [OF c_index_in_set [OF assms]]
  by (cases e)
     (auto simp add: DmTask_run_def DmTask_set_record_timestamp_def Let_def and_or_nonzero DMT_defs)

lemma events_ioctl:
  assumes "c_index DmTask_task_type_flags (ob_task_type t) = Some fl"
  shows "(ob_flags (DmTask_events t evs) AND DMT_DID_IOCTL \<noteq> 0) =
           (ob_flags t AND DMT_DID_IOCTL \<noteq> 0 \<or> (\<exists>e \<in> set evs. is_run e))"
  using assms unfolding DmTask_events_def
proof (induction evs arbitrary: t)
  case Nil
  then show ?case by simp
next
  case (Cons e evs)
  have ty: "c_index DmTask_task_type_flags (ob_task_type (DmTask_event t e)) = Some fl"
    using Cons.prems by (simp add: event_type)
  show ?case
    using Cons.IH [OF ty] event_ioctl [OF Cons.prems, of e]
    by auto
qed


lemma flag_index_categories:
  "f \<in> set data_categories \<Longrightarrow>
     \<exists>what. c_index DmTask_flag_strings (int (flag_index f)) = Some (Some what)"
  by (auto simp add: data_categories_def DMT_defs c_index_def DmTask_flag_strings_def)

lemma init_state:
  assumes "DmTask_init True errno0 True ty = Inr t0" "0 \<le> ty" "ty < 19"
  shows "t0 = \<lparr>ob_flags = 0, ob_task_type = ty\<rparr>"
proof -
  have "PyArg_int ty = Inr (word_of_int ty)"
    using assms by (simp add: PyArg_int_def)
  moreover have "sint (word_of_int ty :: 32 word) = ty"
    using assms by (simp add: sint_sbintrunc' signed_take_bit_int_eq_self)
  ultimately show ?thesis
    using assms(1) by (simp add: DmTask_init_def)
qed

lemma accessor_category: "accessor_flag acc \<in> set data_categories"
  by (cases acc) (simp_all add: data_categories_def)


lemma c_index_nth: "0 \<le> i \<Longrightarrow> i < int (length xs) \<Longrightarrow> c_index xs i = Some (xs ! nat i)"
  by (simp add: c_index_def)

lemma gate_cases:
  assumes init: "DmTask_init True errno0 True ty = Inr t0" and ty: "0 \<le> ty" "ty < 19"
    and f: "f \<in> set data_categories"
  shows "DmTask_check_data_flags (DmTask_events t0 evs) f m =
     (if \<forall>e \<in> set evs. \<not> is_run e
      then Some (requires_ioctl_error ty m)
      else if (\<exists>e \<in> set evs. is_run_ok e) \<and> DmTask_task_type_flags ! nat ty AND f \<noteq> 0
      then None
      else Some (not_provided_error ty f))"
proof -
  have t0: "t0 = \<lparr>ob_flags = 0, ob_task_type = ty\<rparr>"
    by (rule init_state [OF init ty])
  have tab: "c_index DmTask_task_type_flags (ob_task_type t0) = Some (DmTask_task_type_flags ! nat ty)"
    using ty by (simp add: t0 c_index_nth DmTask_task_type_flags_def)
  have a: "(ob_flags (DmTask_events t0 evs) AND DMT_DID_IOCTL = 0) = (\<forall>e \<in> set evs. \<not> is_run e)"
    using events_ioctl [OF tab, of evs] by (auto simp add: t0)
  have b: "(ob_flags (DmTask_events t0 evs) AND f = 0) =
      (\<not> ((\<exists>e \<in> set evs. is_run_ok e) \<and> DmTask_task_type_flags ! nat ty AND f \<noteq> 0))"
    using events_category [OF f tab, of evs] by (auto simp add: t0)
  have c: "ob_task_type (DmTask_events t0 evs) = ty"
    by (simp add: events_type t0)
  show ?thesis
    unfolding DmTask_check_data_flags_def a b c by simp
qed

lemma requires_ioctl_message:
  "0 \<le> ty \<Longrightarrow> ty < 19 \<Longrightarrow>
    requires_ioctl_error ty m =
      TypeError (''DmTask('' @ dm_task_type_names ! nat ty @ '').'' @ m @ '' requires ioctl data.'')"
  by (simp add: requires_ioctl_error_def c_index_nth dm_task_type_names_def)

lemma not_provided_message:
  assumes "0 \<le> ty" "ty < 19" "f \<in> set data_categories"
  shows "\<exists>what. not_provided_error ty f =
      TypeError (''DmTask('' @ dm_task_type_names ! nat ty @ '') does not provide '' @ what @ '' data.'')"
proof -
  obtain what where "c_index DmTask_flag_strings (int (flag_index f)) = Some (Some what)"
    using flag_index_categories [OF assms(3)] by blast
  moreover have "c_index dm_task_type_names ty = Some (dm_task_type_names ! nat ty)"
    using assms by (simp add: c_index_nth dm_task_type_names_def)
  ultimately show ?thesis
    by (simp add: not_provided_error_def)
qed

text \<open>
  C3 (amended): a task constructed for a type \<open>ty\<close> of the flag table, after any
  sequence \<open>evs\<close> of runs and timestamp requests, and the gating check for a data
  category \<open>f\<close> (info, name, UUID, dependencies, name list, message response, table,
  status, target versions) called by a method \<open>m\<close>:
  \<^item> before any run, it fails with the \<open>TypeError\<close> "DmTask(type).m requires ioctl data.";
  \<^item> after one or more runs none of which succeeded, it fails with the \<open>TypeError\<close>
    "DmTask(type) does not provide ... data.";
  \<^item> after one or more runs, when the table entry of the type does not include the
    category, it fails with that same error;
  \<^item> after runs of which one succeeded, when the table entry includes the category, it
    passes.
  Every accessor (\<open>get_info\<close>, \<open>get_uuid\<close>, \<open>get_deps\<close>, \<open>get_versions\<close>,
  \<open>get_message_response\<close>, \<open>get_name\<close>, \<open>get_names\<close>) is gated on one of these
  categories: it fails with the error of the check, and returns what the native getter
  gives when the check passes.
\<close>

theorem DmTask_gating:
  assumes init: "DmTask_init True errno0 True ty = Inr t0" and ty: "0 \<le> ty" "ty < 19"
    and f: "f \<in> set data_categories"
  shows
    "((\<forall>e \<in> set evs. \<not> is_run e) \<longrightarrow>
        DmTask_check_data_flags (DmTask_events t0 evs) f m =
          Some (TypeError (''DmTask('' @ dm_task_type_names ! nat ty @ '').'' @ m @
                  '' requires ioctl data.''))) \<and>
     ((\<exists>e \<in> set evs. is_run e) \<and> (\<forall>e \<in> set evs. \<not> is_run_ok e) \<longrightarrow>
        (\<exists>what. DmTask_check_data_flags (DmTask_events t0 evs) f m =
          Some (TypeError (''DmTask('' @ dm_task_type_names ! nat ty @ '') does not provide '' @
                  what @ '' data.'')))) \<and>
     ((\<exists>e \<in> set evs. is_run e) \<and> DmTask_task_type_flags ! nat ty AND f = 0 \<longrightarrow>
        (\<exists>what. DmTask_check_data_flags (DmTask_events t0 evs) f m =
          Some (TypeError (''DmTask('' @ dm_task_type_names ! nat ty @ '') does not provide '' @
                  what @ '' data.'')))) \<and>
     ((\<exists>e \<in> set evs. is_run_ok e) \<and> DmTask_task_type_flags ! nat ty AND f \<noteq> 0 \<longrightarrow>
        DmTask_check_data_flags (DmTask_events t0 evs) f m = None) \<and>
     (\<forall>acc. accessor_flag acc \<in> set data_categories) \<and>
     (\<forall>acc (native :: error + 'a). f = accessor_flag acc \<and> m = accessor_method acc \<longrightarrow>
        DmTask_get (DmTask_events t0 evs) acc native =
          (case DmTask_check_data_flags (DmTask_events t0 evs) f m of
             Some e \<Rightarrow> Inl e | None \<Rightarrow> native))"
proof -
  note g = gate_cases [OF init ty f, of evs m]
  note r = requires_ioctl_message [OF ty, of m]
  obtain what where w: "not_provided_error ty f =
      TypeError (''DmTask('' @ dm_task_type_names ! nat ty @ '') does not provide '' @ what @ '' data.'')"
    using not_provided_message [OF ty f] by blast
  have run: "is_run_ok e \<Longrightarrow> is_run e" for e
    by (cases e) simp_all
  have 1: "(\<forall>e \<in> set evs. \<not> is_run e) \<longrightarrow>
        DmTask_check_data_flags (DmTask_events t0 evs) f m =
          Some (TypeError (''DmTask('' @ dm_task_type_names ! nat ty @ '').'' @ m @
                  '' requires ioctl data.''))"
    using g r by simp
  have 2: "(\<exists>e \<in> set evs. is_run e) \<and> (\<forall>e \<in> set evs. \<not> is_run_ok e) \<longrightarrow>
        (\<exists>what. DmTask_check_data_flags (DmTask_events t0 evs) f m =
          Some (TypeError (''DmTask('' @ dm_task_type_names ! nat ty @ '') does not provide '' @
                  what @ '' data.'')))"
    using g w by auto
  have 3: "(\<exists>e \<in> set evs. is_run e) \<and> DmTask_task_type_flags ! nat ty AND f = 0 \<longrightarrow>
        (\<exists>what. DmTask_check_data_flags (DmTask_events t0 evs) f m =
          Some (TypeError (''DmTask('' @ dm_task_type_names ! nat ty @ '') does not provide '' @
                  what @ '' data.'')))"
    using g w by auto
  have 4: "(\<exists>e \<in> set evs. is_run_ok e) \<and> DmTask_task_type_flags ! nat ty AND f \<noteq> 0 \<longrightarrow>
        DmTask_check_data_flags (DmTask_events t0 evs) f m = None"
    using g run by auto
  have 5: "\<forall>acc. accessor_flag acc \<in> set data_categories"
    by (simp add: accessor_category)
  have 6: "\<forall>acc (native :: error + 'a). f = accessor_flag acc \<and> m = accessor_method acc \<longrightarrow>
        DmTask_get (DmTask_events t0 evs) acc native =
          (case DmTask_check_data_flags (DmTask_events t0 evs) f m of
             Some e \<Rightarrow> Inl e | None \<Rightarrow> native)"
    by (simp add: DmTask_get_def)
  from 1 2 3 4 5 6 show ?thesis by blast
qed

lemma get_errno_after_run:
  "ob_flags self AND DMT_DID_IOCTL \<noteq> 0 \<Longrightarrow> DmTask_get_errno self n = Inr n"
proof -
  assume a: "ob_flags self AND DMT_DID_IOCTL \<noteq> 0"
  then have nz: "ob_flags self \<noteq> 0" by auto
  have "ob_flags self AND - 1 = ob_flags self" by simp
  with a nz have "DmTask_check_data_flags self (- 1) ''get_errno'' = None"
    by (simp add: DmTask_check_data_flags_def)
  with nz show ?thesis
    by (simp add: DmTask_get_errno_def DMT_DID_ERROR_def)
qed

text \<open>
  C6 (the code at the failing input): after a successful first run the did-error flag is
  clear, and \<open>get_errno\<close> still returns the native error code. The gate is called with
  the flag \<open>-1\<close>, so it passes as soon as a run was attempted, and the test of the
  did-error flag that follows uses the logical conjunction, which holds whenever any
  flag is set. The claim says that \<open>get_errno\<close> fails with a gating error when the
  did-error flag is not set.
\<close>

theorem DmTask_get_errno_after_success:
  assumes init: "DmTask_init True errno0 True ty = Inr t0" and ty: "0 \<le> ty" "ty < 19"
  shows "fst (DmTask_run t0 True e) = Inr () \<and>
         ob_flags (snd (DmTask_run t0 True e)) AND DMT_DID_ERROR = 0 \<and>
         DmTask_get_errno (snd (DmTask_run t0 True e)) n = Inr n"
proof -
  have t0: "t0 = \<lparr>ob_flags = 0, ob_task_type = ty\<rparr>"
    by (rule init_state [OF init ty])
  obtain fl where fl: "c_index DmTask_task_type_flags ty = Some fl"
    using c_index_table [OF ty] by blast
  have fle: "fl AND DMT_DID_ERROR = 0"
    using c_index_in_set [OF fl] by (auto simp add: DmTask_task_type_flags_def DMT_defs)
  have r: "DmTask_run t0 True e = (Inr (), \<lparr>ob_flags = DMT_DID_IOCTL OR fl, ob_task_type = ty\<rparr>)"
    by (simp add: DmTask_run_def t0 fl)
  have i: "(DMT_DID_IOCTL OR fl) AND DMT_DID_IOCTL \<noteq> 0"
    by (simp add: DMT_DID_IOCTL_def bit.conj_disj_distrib2 or_eq_0_iff)
  have e0: "(DMT_DID_IOCTL OR fl) AND DMT_DID_ERROR = 0"
    using fle by (simp add: and_or_nonzero DMT_defs)
  show ?thesis
    using get_errno_after_run [of "snd (DmTask_run t0 True e)" n] i e0
    by (simp add: r)
qed


text \<open>
  The witness: a \<open>DM_DEVICE_LIST\<close> task (type 13). \<open>get_info\<close> fails before the run,
  after a failed run and after a successful one; \<open>get_names\<close> succeeds after a
  successful run.
\<close>

theorem DmTask_gating_witness:
  "DmTask_init True 0 True 13 = Inr \<lparr>ob_flags = 0, ob_task_type = 13\<rparr> \<and>
   (0 :: int) \<le> 13 \<and> (13 :: int) < 19 \<and> DMT_HAVE_INFO \<in> set data_categories \<and>
   DmTask_get (DmTask_events \<lparr>ob_flags = 0, ob_task_type = 13\<rparr> []) Get_info (Inr ()) =
     Inl (TypeError ''DmTask(DM_DEVICE_LIST).get_info requires ioctl data.'') \<and>
   DmTask_get (DmTask_events \<lparr>ob_flags = 0, ob_task_type = 13\<rparr> [Run False 5]) Get_info (Inr ()) =
     Inl (TypeError ''DmTask(DM_DEVICE_LIST) does not provide info data.'') \<and>
   DmTask_get (DmTask_events \<lparr>ob_flags = 0, ob_task_type = 13\<rparr> [Run True 0]) Get_info (Inr ()) =
     Inl (TypeError ''DmTask(DM_DEVICE_LIST) does not provide info data.'') \<and>
   DmTask_get (DmTask_events \<lparr>ob_flags = 0, ob_task_type = 13\<rparr> [Run True 0]) Get_names (Inr ()) =
     Inr ()"
proof -
  have i: "DmTask_init True 0 True 13 = Inr \<lparr>ob_flags = 0, ob_task_type = 13\<rparr>"
    by (simp add: DmTask_init_def PyArg_int_def)
  have lo: "(0 :: int) \<le> 13" and hi: "(13 :: int) < 19"
    by simp_all
  have f: "DMT_HAVE_INFO \<in> set data_categories"
    by (simp add: data_categories_def)
  show ?thesis
    using i f DmTask_gating [OF i lo hi f, of "[Run True 0]" "''get_info''"]
    by (simp add: DmTask_get_def DmTask_events_def DmTask_run_def DmTask_check_data_flags_def
        requires_ioctl_error_def not_provided_error_def c_index_def dm_task_type_names_def
        DmTask_task_type_flags_def DmTask_flag_strings_def DMT_defs)
qed

text \<open>
  C3 as stated fails: the data flags of a successful run stay set when a later run
  fails. A \<open>DM_DEVICE_INFO\<close> task (type 6) that ran successfully and then ran again
  with a native failure lets \<open>get_info\<close> through the gate after the failed run.
\<close>

theorem DmTask_gating_counterexample:
  "DmTask_init True 0 True 6 = Inr \<lparr>ob_flags = 0, ob_task_type = 6\<rparr> \<and>
   DmTask_run \<lparr>ob_flags = 0, ob_task_type = 6\<rparr> True 0 =
     (Inr (), \<lparr>ob_flags = 0x71, ob_task_type = 6\<rparr>) \<and>
   DmTask_run \<lparr>ob_flags = 0x71, ob_task_type = 6\<rparr> False 5 =
     (Inl (OSErrorFromErrno 5), \<lparr>ob_flags = 0x73, ob_task_type = 6\<rparr>) \<and>
   DmTask_get \<lparr>ob_flags = 0x73, ob_task_type = 6\<rparr> Get_info (Inr ()) = Inr ()"
  by (simp add: DmTask_init_def PyArg_int_def DmTask_get_def DmTask_run_def
      DmTask_check_data_flags_def c_index_def DmTask_task_type_flags_def DMT_defs)

text \<open>The witness: a \<open>DM_DEVICE_LIST\<close> task after a successful run.\<close>

theorem DmTask_get_errno_after_success_witness:
  "DmTask_init True 0 True 13 = Inr \<lparr>ob_flags = 0, ob_task_type = 13\<rparr> \<and>
   (0 :: int) \<le> 13 \<and> (13 :: int) < 19 \<and>
   DmTask_run \<lparr>ob_flags = 0, ob_task_type = 13\<rparr> True 0 =
     (Inr (), \<lparr>ob_flags = 0x101, ob_task_type = 13\<rparr>) \<and>
   DmTask_get_errno \<lparr>ob_flags = 0x101, ob_task_type = 13\<rparr> 0 = Inr 0"
proof -
  have i: "DmTask_init True 0 True 13 = Inr \<lparr>ob_flags = 0, ob_task_type = 13\<rparr>"
    by (simp add: DmTask_init_def PyArg_int_def)
  have lo: "(0 :: int) \<le> 13" and hi: "(13 :: int) < 19"
    by simp_all
  have r: "DmTask_run \<lparr>ob_flags = 0, ob_task_type = 13\<rparr> True 0 =
     (Inr (), \<lparr>ob_flags = 0x101, ob_task_type = 13\<rparr>)"
    by (simp add: DmTask_run_def c_index_def DmTask_task_type_flags_def DMT_defs)
  show ?thesis
    using i r DmTask_get_errno_after_success [OF i lo hi, of 0 0]
    by simp
qed

section \<open>Properties of DmStats\<close>

lemmas store_defs = DmStats_get_item_def DmStats_cache_new_def newDmStatsRegionObject_def
  DmStatsRegion_get_item_def DmStatsRegion_cache_new_def newDmStatsAreaObject_def
  Py_INCREF_stats_def Py_INCREF_region_def Py_INCREF_area_def Py_DECREF_stats_def
  Py_DECREF_region_def Py_DECREF_area_def Py_DECREF_weakref_def Py_XDECREF_weakref_def
  PyWeakref_NewRef_def PyWeakref_GetObject_def DmStatsRegion_set_area_cache_def
  DmStatsRegion_clear_area_cache_def DmStats_clear_region_cache_def
  DmStats_set_region_cache_def DmStats_rebuild_def DmStats_list_def DmStats_populate_def
  DmStats_bind_def DmStats_bind_name_def DmStats_bind_uuid_def DmStats_bind_devno_def
  DmStats_dealloc_def DmStatsRegion_dealloc_def DmStatsArea_dealloc_def dm_stats_destroy_def
  dms_of_def first_slots_def c_index_def dm_stats_region_present_def
  dm_stats_get_region_nr_areas_def dm_stats_get_region_precise_timestamps_def
  dm_stats_get_nr_areas_def dm_stats_present_regions_def
  DmStatsRegion_sequence_check_def DmStatsRegion_nr_areas_getter_def
  DmStatsRegion_present_getter_def DmStatsRegion_precise_timestamps_getter_def

lemmas example_defs = heap_empty_def heap_new_def example_tree_def heap_listed_def
  heap_view_def heap_area_def heap_relisted_def heap_rebound_def

text \<open>The example stores are the ones the code produces, step by step.\<close>

lemma heap_new_reached: "PyType_GenericNew_DmStats heap_empty = (0, heap_new)"
  by (simp add: PyType_GenericNew_DmStats_def example_defs)

lemma heap_view_reached:
  "DmStats_get_item heap_listed 0 1 (None, 0) = Some (Inr (Some (RegionRef 2)), heap_view)"
  by (simp add: store_defs example_defs Let_def eval_nat_numeral)

lemma heap_area_reached:
  "DmStatsRegion_get_item heap_view 2 0 = Some (Inr (Some (AreaRef 4)), heap_area)"
  by (simp add: store_defs example_defs Let_def eval_nat_numeral)

lemma heap_relisted_reached:
  "DmStats_list heap_view 0 (Some example_tree) = Some (Inr (Some (StatsRef 0)), heap_relisted)"
  by (simp add: store_defs example_defs Let_def eval_nat_numeral)

lemma heap_rebound_reached:
  "DmStats_bind_name heap_view 0 ''vg-lv'' True = Some (Inr True, heap_rebound)"
  by (simp add: store_defs example_defs Let_def eval_nat_numeral)

text \<open>
  C5 (amended): construction fails with the configuration error (\<open>TypeError\<close>) whenever
  more than one of the selectors name, uuid and (major, minor) is supplied, where a
  major or minor of 0 counts as not supplied. With no selector at all it succeeds and
  leaves a handle that is bound to no device. With a single selector it creates the
  native handle and binds it: when the bind fails it fails with an \<open>OSError\<close> and the
  native handle it created is destroyed; when the bind succeeds the handle stays.
\<close>

theorem DmStats_init_selectors:
  assumes st: "stats_objs h self = Some st"
  shows
    "((arg_name args \<noteq> None \<and> arg_uuid args \<noteq> None) \<or>
      ((arg_name args \<noteq> None \<or> arg_uuid args \<noteq> None) \<and>
       (arg_major args \<noteq> 0 \<or> arg_minor args \<noteq> 0)) \<longrightarrow>
        DmStats_init h self args create_ok bind_ok =
          Some (Inl (TypeError DMSTATS_init_KWARG_ERR), h)) \<and>
     (arg_name args = None \<and> arg_uuid args = None \<and> arg_major args = 0 \<and> arg_minor args = 0 \<longrightarrow>
        (\<exists>h'. DmStats_init h self args True bind_ok = Some (Inr (), h') \<and>
           map_option ob_dms (stats_objs h' self) = Some (Some (next_addr h)) \<and>
           native h' (next_addr h) = Some [])) \<and>
     ((arg_name args \<noteq> None \<and> arg_uuid args = None \<and> arg_major args = 0 \<and> arg_minor args = 0) \<or>
      (arg_name args = None \<and> arg_uuid args \<noteq> None \<and> arg_major args = 0 \<and> arg_minor args = 0) \<or>
      (arg_name args = None \<and> arg_uuid args = None \<and> arg_major args \<noteq> 0 \<and> arg_minor args \<noteq> 0) \<longrightarrow>
        (\<exists>msg h'. DmStats_init h self args True False = Some (Inl (OSError msg), h') \<and>
           native h' (next_addr h) = None) \<and>
        (\<exists>h'. DmStats_init h self args True True = Some (Inr (), h') \<and>
           map_option ob_dms (stats_objs h' self) = Some (Some (next_addr h)) \<and>
           native h' (next_addr h) = Some []))"
  using st
  by (auto simp add: DmStats_init_def DmStats_init_fail_def dm_stats_destroy_def Let_def)

text \<open>
  The witness: a new object, constructed with both a name and a uuid, and with a name
  alone when the native bind fails.
\<close>

theorem DmStats_init_selectors_witness:
  "stats_objs heap_new 0 =
     Some \<lparr>st_refcnt = 1, ob_dms = None, ob_sequence = 0, ob_regions = None, ob_regions_len = 0\<rparr> \<and>
   DmStats_init heap_new 0
     \<lparr>arg_program_id = Some ''prog'', arg_name = Some ''vg-lv'', arg_uuid = Some ''LVM-abc'',
      arg_major = 0, arg_minor = 0\<rparr> True True =
     Some (Inl (TypeError DMSTATS_init_KWARG_ERR), heap_new) \<and>
   map_option fst (DmStats_init heap_new 0
     \<lparr>arg_program_id = Some ''prog'', arg_name = Some ''vg-lv'', arg_uuid = None,
      arg_major = 0, arg_minor = 0\<rparr> True False) =
     Some (Inl (OSError ''Failed to bind name to DmStatst handle.'')) \<and>
   map_option (\<lambda>res. native (snd res) 1) (DmStats_init heap_new 0
     \<lparr>arg_program_id = Some ''prog'', arg_name = Some ''vg-lv'', arg_uuid = None,
      arg_major = 0, arg_minor = 0\<rparr> True False) = Some None"
proof -
  have st: "stats_objs heap_new 0 =
     Some \<lparr>st_refcnt = 1, ob_dms = None, ob_sequence = 0, ob_regions = None, ob_regions_len = 0\<rparr>"
    by (simp add: heap_new_def)
  show ?thesis
    using st
      DmStats_init_selectors [OF st, of
        "\<lparr>arg_program_id = Some ''prog'', arg_name = Some ''vg-lv'', arg_uuid = Some ''LVM-abc'',
          arg_major = 0, arg_minor = 0\<rparr>" True True]
    by (simp add: DmStats_init_def DmStats_init_fail_def dm_stats_destroy_def Let_def heap_new_def)
qed

text \<open>
  After a failed bind the object still points to the destroyed handle: releasing the
  object, as the interpreter does when construction fails, destroys the handle a second
  time.
\<close>

lemma DmStats_init_failure_then_dealloc:
  "DmStats_init heap_new 0
     \<lparr>arg_program_id = Some ''prog'', arg_name = Some ''vg-lv'', arg_uuid = None,
      arg_major = 0, arg_minor = 0\<rparr> True False \<bind> (\<lambda>res. Py_DECREF_stats (snd res) 0) = None"
  by (simp add: DmStats_init_def DmStats_init_fail_def dm_stats_destroy_def Let_def heap_new_def
      Py_DECREF_stats_def DmStats_dealloc_def)

text \<open>
  C5 as stated fails: a new object constructed with a program identifier and no identity
  selector is constructed successfully.
\<close>

theorem DmStats_init_selectors_counterexample:
  "map_option fst
     (DmStats_init heap_new 0
        \<lparr>arg_program_id = Some ''prog'', arg_name = None, arg_uuid = None,
         arg_major = 0, arg_minor = 0\<rparr> True True) = Some (Inr ())"
  by (simp add: DmStats_init_def heap_new_def Let_def)

text \<open>
  C7: indexed access on a \<open>DmStats\<close> object fails with the \<open>IndexError\<close> for every
  identifier below 0 or at or above the current length of the region cache, and leaves
  the store as it was; for an identifier in the range whose region the native layer
  reports as not present, it returns \<open>None\<close>, and no error.
\<close>

theorem DmStats_get_item_bounds:
  assumes st: "stats_objs h self = Some st"
  shows
    "(i < 0 \<or> ob_regions_len st \<le> i \<longrightarrow>
        DmStats_get_item h self i uninit =
          Some (Inl (IndexError ''DmStats region_id out of range''), h)) \<and>
     (0 \<le> i \<and> i < ob_regions_len st \<and>
      (\<exists>dms. dms_of h self = Some dms \<and> \<not> dm_stats_region_present dms (nat i)) \<longrightarrow>
        DmStats_get_item h self i uninit = Some (Inr None, h))"
  using st by (auto simp add: DmStats_get_item_def)

text \<open>
  The witness: the cache of \<open>heap_listed\<close> has length 2 and region 0 is not present.
\<close>

theorem DmStats_get_item_bounds_witness:
  "stats_objs heap_listed 0 =
     Some \<lparr>st_refcnt = 1, ob_dms = Some 1, ob_sequence = 1,
           ob_regions = Some [None, None], ob_regions_len = 2\<rparr> \<and>
   DmStats_get_item heap_listed 0 2 (None, 0) =
     Some (Inl (IndexError ''DmStats region_id out of range''), heap_listed) \<and>
   DmStats_get_item heap_listed 0 (- 1) (None, 0) =
     Some (Inl (IndexError ''DmStats region_id out of range''), heap_listed) \<and>
   dms_of heap_listed 0 = Some example_tree \<and>
   \<not> dm_stats_region_present example_tree 0 \<and>
   DmStats_get_item heap_listed 0 0 (None, 0) = Some (Inr None, heap_listed)"
proof -
  have st: "stats_objs heap_listed 0 =
     Some \<lparr>st_refcnt = 1, ob_dms = Some 1, ob_sequence = 1,
           ob_regions = Some [None, None], ob_regions_len = 2\<rparr>"
    by (simp add: heap_listed_def)
  have d: "dms_of heap_listed 0 = Some example_tree"
    by (simp add: dms_of_def heap_listed_def)
  have np: "\<not> dm_stats_region_present example_tree 0"
    by (simp add: dm_stats_region_present_def example_tree_def)
  show ?thesis
    using st d np DmStats_get_item_bounds [OF st, of 2 "(None, 0)"]
      DmStats_get_item_bounds [OF st, of "- 1" "(None, 0)"]
      DmStats_get_item_bounds [OF st, of 0 "(None, 0)"]
    by simp
qed

text \<open>The sequence check: a region whose sequence number differs from its parent's.\<close>

lemma sequence_check_stale:
  assumes "region_objs h r = Some rg" "stats_objs h (ob_stats rg) = Some st"
    "rg_sequence rg \<noteq> ob_sequence st"
  shows "DmStatsRegion_nr_areas_getter h r =
           Some (Inl (LookupError ''Attempt to access regions in changed DmStats object.'')) \<and>
         DmStatsRegion_present_getter h r =
           Some (Inl (LookupError ''Attempt to access regions in changed DmStats object.'')) \<and>
         DmStatsRegion_precise_timestamps_getter h r =
           Some (Inl (LookupError ''Attempt to access regions in changed DmStats object.''))"
  using assms
  by (simp add: DmStatsRegion_nr_areas_getter_def DmStatsRegion_present_getter_def
      DmStatsRegion_precise_timestamps_getter_def DmStatsRegion_sequence_check_def)

text \<open>
  A successful bind invalidates the views made before it: their getters raise the
  \<open>LookupError\<close>.
\<close>

lemma bind_invalidates_getters:
  assumes bind: "DmStats_bind msg h s True = Some (Inr True, h')"
    and rg: "region_objs h r = Some rg" "ob_stats rg = s"
    and st: "stats_objs h s = Some st" "rg_sequence rg = ob_sequence st"
  shows "DmStatsRegion_nr_areas_getter h' r =
           Some (Inl (LookupError ''Attempt to access regions in changed DmStats object.'')) \<and>
         DmStatsRegion_present_getter h' r =
           Some (Inl (LookupError ''Attempt to access regions in changed DmStats object.'')) \<and>
         DmStatsRegion_precise_timestamps_getter h' r =
           Some (Inl (LookupError ''Attempt to access regions in changed DmStats object.''))"
proof -
  from bind st(1) have r': "region_objs h' r = Some rg"
    and s': "stats_objs h' s = Some (st\<lparr>ob_sequence := ob_sequence st + 1\<rparr>)"
    using rg(1) by (auto simp add: DmStats_bind_def bind_eq_Some_conv)
  have ne: "rg_sequence rg \<noteq> ob_sequence (st\<lparr>ob_sequence := ob_sequence st + 1\<rparr>)"
    by (simp add: st(2))
  show ?thesis
    using sequence_check_stale [OF r' _ ne] s' rg(2) by simp
qed

lemma region_cache_new_result:
  "DmStatsRegion_cache_new h r j = Some (res, h') \<Longrightarrow> \<exists>ob. res = Inr (Some ob)"
  by (auto simp add: DmStatsRegion_cache_new_def Let_def bind_eq_Some_conv split: prod.splits)

text \<open>
  C2 (the code at the failing input, and at every other): indexed access into the area
  cache of a region view makes no sequence check. Whatever the store, the only exception
  it raises is the \<open>IndexError\<close> of the bounds check, never the \<open>LookupError\<close> of a
  changed parent. The claim says that after \<open>list()\<close>, \<open>populate()\<close> or \<open>bind_*\<close>
  every accessor of an older view, indexed access included, fails with the lookup error.
\<close>

theorem DmStatsRegion_get_item_raises_only_IndexError:
  "DmStatsRegion_get_item h r j = Some (Inl e, h') \<longrightarrow>
     e = IndexError ''DmStats area_id out of range''"
  by (auto simp add: DmStatsRegion_get_item_def Let_def bind_eq_Some_conv
      split: if_splits option.splits dest: region_cache_new_result)

text \<open>
  The witness: the region view of \<open>heap_view\<close>, after a second \<open>list()\<close> and after
  \<open>bind_name\<close>. Its getters fail with the \<open>LookupError\<close>; indexed access fails with the
  \<open>IndexError\<close> after \<open>list()\<close>, which emptied the area cache, and returns \<open>None\<close>
  after \<open>bind_name\<close>, which left the area cache alone.
\<close>

theorem DmStatsRegion_get_item_raises_only_IndexError_witness:
  "DmStats_list heap_view 0 (Some example_tree) = Some (Inr (Some (StatsRef 0)), heap_relisted) \<and>
   DmStatsRegion_present_getter heap_relisted 2 =
     Some (Inl (LookupError ''Attempt to access regions in changed DmStats object.'')) \<and>
   DmStatsRegion_get_item heap_relisted 2 0 =
     Some (Inl (IndexError ''DmStats area_id out of range''), heap_relisted) \<and>
   DmStats_bind_name heap_view 0 ''vg-lv'' True = Some (Inr True, heap_rebound) \<and>
   DmStatsRegion_nr_areas_getter heap_rebound 2 =
     Some (Inl (LookupError ''Attempt to access regions in changed DmStats object.'')) \<and>
   DmStatsRegion_get_item heap_rebound 2 0 = Some (Inr None, heap_rebound)"
proof -
  have a: "DmStatsRegion_get_item heap_relisted 2 0 =
     Some (Inl (IndexError ''DmStats area_id out of range''), heap_relisted)"
    by (simp add: DmStatsRegion_get_item_def heap_relisted_def)
  have b: "DmStatsRegion_present_getter heap_relisted 2 =
     Some (Inl (LookupError ''Attempt to access regions in changed DmStats object.''))"
    by (simp add: DmStatsRegion_present_getter_def DmStatsRegion_sequence_check_def
        heap_relisted_def)
  have c: "DmStatsRegion_nr_areas_getter heap_rebound 2 =
     Some (Inl (LookupError ''Attempt to access regions in changed DmStats object.''))"
    by (simp add: DmStatsRegion_nr_areas_getter_def DmStatsRegion_sequence_check_def
        heap_rebound_def)
  have d: "DmStatsRegion_get_item heap_rebound 2 0 = Some (Inr None, heap_rebound)"
    by (simp add: DmStatsRegion_get_item_def heap_rebound_def dms_of_def
        dm_stats_region_present_def)
  show ?thesis
    using a b c d heap_relisted_reached heap_rebound_reached
      DmStatsRegion_get_item_raises_only_IndexError
        [of heap_relisted 2 0 "IndexError ''DmStats area_id out of range''" heap_relisted]
    by simp
qed

text \<open>The cache protocol of indexed access.\<close>

lemma new_region_post:
  assumes "newDmStatsRegionObject h self rid q u = Some (region, h1)"
    and "stats_objs h self = Some st"
  shows "region = next_addr h \<and>
         stats_objs h1 = (stats_objs h)(self \<mapsto> st\<lparr>st_refcnt := Suc (st_refcnt st)\<rparr>) \<and>
         region_objs h1 = (region_objs h)(region \<mapsto>
            \<lparr>rg_refcnt = 1, ob_stats = self, rg_sequence = q, ob_region_id = rid,
             rg_weakreflist = [], ob_areas = fst u, ob_areas_len = snd u\<rparr>) \<and>
         area_objs h1 = area_objs h \<and> weakrefs h1 = weakrefs h \<and> native h1 = native h \<and>
         next_addr h1 = Suc (next_addr h)"
  using assms
  by (auto simp add: newDmStatsRegionObject_def Py_INCREF_stats_def Let_def bind_eq_Some_conv)

lemma new_weakref_fresh_region:
  assumes "PyWeakref_NewRef h (RegionRef r) = Some (w, h1)"
    and "region_objs h r = Some rg" "rg_weakreflist rg = []"
  shows "w = next_addr h \<and>
         weakrefs h1 = (weakrefs h)(w \<mapsto> \<lparr>wr_refcnt = 1, wr_object = Some (RegionRef r)\<rparr>) \<and>
         region_objs h1 = (region_objs h)(r \<mapsto> rg\<lparr>rg_weakreflist := [w]\<rparr>) \<and>
         stats_objs h1 = stats_objs h \<and> area_objs h1 = area_objs h \<and> native h1 = native h \<and>
         next_addr h1 = Suc (next_addr h)"
  using assms
  by (auto simp add: PyWeakref_NewRef_def Let_def bind_eq_Some_conv)

lemma set_area_cache_frame:
  assumes "DmStatsRegion_set_area_cache h r = Some h1"
  shows "stats_objs h1 = stats_objs h \<and> weakrefs h1 = weakrefs h \<and> native h1 = native h \<and>
         area_objs h1 = area_objs h \<and> next_addr h1 = next_addr h \<and>
         (\<forall>a. region_objs h a \<noteq> None \<longrightarrow> region_objs h1 a \<noteq> None)"
  using assms
  by (auto simp add: DmStatsRegion_set_area_cache_def Let_def bind_eq_Some_conv split: if_splits)

lemma c_index_update:
  "c_index slots i = Some x \<Longrightarrow> c_index (slots[nat i := y]) i = Some y"
  by (auto simp add: c_index_def split: if_splits)

lemma dms_of_cong:
  "stats_objs h1 self = Some st1 \<Longrightarrow> stats_objs h self = Some st \<Longrightarrow> ob_dms st1 = ob_dms st \<Longrightarrow>
     native h1 = native h \<Longrightarrow> dms_of h1 self = dms_of h self"
  by (simp add: dms_of_def)

lemma cache_new_post:
  assumes run: "DmStats_cache_new h self i u = Some (res, h')"
    and st: "stats_objs h self = Some st"
  shows "\<exists>region w st' slots' wr.
           res = Inr (Some (RegionRef region)) \<and> stats_objs h' self = Some st' \<and>
           ob_regions_len st' = ob_regions_len st \<and> ob_dms st' = ob_dms st \<and>
           native h' = native h \<and> ob_regions st' = Some slots' \<and>
           c_index slots' i = Some (Some w) \<and> weakrefs h' w = Some wr \<and>
           wr_object wr = Some (RegionRef region) \<and> region_objs h' region \<noteq> None"
proof -
  from run st obtain region h1 w h2 st2 slots x h4 where
    n: "newDmStatsRegionObject h self (nat i) (ob_sequence st) u = Some (region, h1)"
    and w: "PyWeakref_NewRef h1 (RegionRef region) = Some (w, h2)"
    and st2: "stats_objs h2 self = Some st2"
    and slots: "ob_regions st2 = Some slots"
    and ci: "c_index slots i = Some x"
    and sac: "DmStatsRegion_set_area_cache
               (h2\<lparr>stats_objs := (stats_objs h2)(self \<mapsto> st2\<lparr>ob_regions := Some (slots[nat i := Some w])\<rparr>)\<rparr>)
               region = Some h4"
    and res: "res = Inr (Some (RegionRef region))" and h': "h' = h4"
    by (auto simp add: DmStats_cache_new_def Let_def bind_eq_Some_conv split: prod.splits)
  note p1 = new_region_post [OF n st]
  have rg1: "region_objs h1 region = Some \<lparr>rg_refcnt = 1, ob_stats = self, rg_sequence = ob_sequence st,
       ob_region_id = nat i, rg_weakreflist = [], ob_areas = fst u, ob_areas_len = snd u\<rparr>"
    using p1 by simp
  note p2 = new_weakref_fresh_region [OF w rg1]
  have st2_eq: "st2 = st\<lparr>st_refcnt := Suc (st_refcnt st)\<rparr>"
    using st2 p1 p2 by simp
  note p4 = set_area_cache_frame [OF sac]
  have a: "stats_objs h' self = Some (st2\<lparr>ob_regions := Some (slots[nat i := Some w])\<rparr>)"
    using p4 h' by simp
  have b: "weakrefs h' w = Some \<lparr>wr_refcnt = 1, wr_object = Some (RegionRef region)\<rparr>"
    using p4 p2 h' by simp
  have c: "region_objs h' region \<noteq> None"
    using p4 p2 h' by simp
  have d: "native h' = native h"
    using p4 p2 p1 h' by simp
  show ?thesis
    using res a b c d c_index_update [OF ci, of "Some w"] st2_eq slots
    by (intro exI [of _ region] exI [of _ w]) simp
qed

lemma incref_frame:
  assumes "Py_INCREF h ob = Some h'"
  shows "weakrefs h' = weakrefs h \<and> native h' = native h \<and> next_addr h' = next_addr h \<and>
         (\<forall>s st. stats_objs h s = Some st \<longrightarrow>
            (\<exists>st'. stats_objs h' s = Some st' \<and> ob_dms st' = ob_dms st \<and>
               ob_regions st' = ob_regions st \<and> ob_regions_len st' = ob_regions_len st \<and>
               ob_sequence st' = ob_sequence st)) \<and>
         (\<forall>r rg. region_objs h r = Some rg \<longrightarrow>
            (\<exists>rg'. region_objs h' r = Some rg' \<and> ob_stats rg' = ob_stats rg \<and>
               ob_region_id rg' = ob_region_id rg \<and> ob_areas rg' = ob_areas rg \<and>
               ob_areas_len rg' = ob_areas_len rg \<and> rg_sequence rg' = rg_sequence rg)) \<and>
         (\<forall>a ar. area_objs h a = Some ar \<longrightarrow> (\<exists>ar'. area_objs h' a = Some ar'))"
  using assms
  by (cases ob)
     (auto simp add: Py_INCREF_region_def Py_INCREF_area_def Py_INCREF_stats_def bind_eq_Some_conv)

lemma incref_live:
  assumes "Py_INCREF h ob = Some h'" "Py_INCREF h ob' \<noteq> None"
  shows "Py_INCREF h' ob' \<noteq> None"
  using assms
  by (cases ob; cases ob')
     (auto simp add: Py_INCREF_region_def Py_INCREF_area_def Py_INCREF_stats_def bind_eq_Some_conv
        split: if_splits)

lemma region_cached_incref:
  assumes c: "region_cached h self i ob" and i: "Py_INCREF h ob' = Some h'"
  shows "region_cached h' self i ob"
proof -
  from c obtain st dms slots w wr where
    f: "stats_objs h self = Some st" "0 \<le> i" "i < ob_regions_len st"
      "dms_of h self = Some dms" "dm_stats_region_present dms (nat i)"
      "ob_regions st = Some slots" "c_index slots i = Some (Some w)"
      "weakrefs h w = Some wr" "wr_object wr = Some ob" "Py_INCREF h ob \<noteq> None"
    unfolding region_cached_def by blast
  note fr = incref_frame [OF i]
  from fr f(1) obtain st' where
    st': "stats_objs h' self = Some st'" "ob_dms st' = ob_dms st" "ob_regions st' = ob_regions st"
      "ob_regions_len st' = ob_regions_len st"
    by blast
  have d: "dms_of h' self = Some dms"
    using dms_of_cong [OF st'(1) f(1) st'(2)] fr f(4) by simp
  show ?thesis
    unfolding region_cached_def
    using st' d f fr incref_live [OF i f(10)]
    by (intro exI [of _ st'] exI [of _ dms] exI [of _ slots] exI [of _ w] exI [of _ wr]) simp
qed

lemma get_item_hit:
  assumes c: "region_cached h self i ob"
  shows "\<exists>h'. Py_INCREF h ob = Some h' \<and>
           DmStats_get_item h self i u = Some (Inr (Some ob), h')"
proof -
  from c obtain st dms slots w wr where
    f: "stats_objs h self = Some st" "0 \<le> i" "i < ob_regions_len st"
      "dms_of h self = Some dms" "dm_stats_region_present dms (nat i)"
      "ob_regions st = Some slots" "c_index slots i = Some (Some w)"
      "weakrefs h w = Some wr" "wr_object wr = Some ob" "Py_INCREF h ob \<noteq> None"
    unfolding region_cached_def by blast
  from f(10) obtain h' where h': "Py_INCREF h ob = Some h'" by blast
  have "DmStats_get_item h self i u = Some (Inr (Some ob), h')"
    using f h' by (simp add: DmStats_get_item_def PyWeakref_GetObject_def)
  with h' show ?thesis by blast
qed

lemma decref_weakref_expired:
  assumes "Py_DECREF_weakref h w = Some h1" "weakrefs h w = Some wr" "wr_object wr = None"
  shows "stats_objs h1 = stats_objs h \<and> native h1 = native h \<and> region_objs h1 = region_objs h \<and>
         area_objs h1 = area_objs h \<and> next_addr h1 = next_addr h"
  using assms
  by (auto simp add: Py_DECREF_weakref_def bind_eq_Some_conv split: if_splits)

lemma get_item_path:
  assumes run: "DmStats_get_item h self i u = Some (Inr (Some ob), h1)"
  shows "\<exists>st dms slots slot.
           stats_objs h self = Some st \<and> 0 \<le> i \<and> i < ob_regions_len st \<and>
           dms_of h self = Some dms \<and> dm_stats_region_present dms (nat i) \<and>
           ob_regions st = Some slots \<and> c_index slots i = Some slot"
proof -
  from run obtain st where st: "stats_objs h self = Some st"
    by (auto simp add: DmStats_get_item_def bind_eq_Some_conv)
  from run st have rng: "0 \<le> i" "i < ob_regions_len st"
    by (auto simp add: DmStats_get_item_def split: if_splits)
  from run st rng obtain dms where dms: "dms_of h self = Some dms"
    by (auto simp add: DmStats_get_item_def bind_eq_Some_conv)
  from run st rng dms have pres: "dm_stats_region_present dms (nat i)"
    by (auto simp add: DmStats_get_item_def split: if_splits)
  from run st rng dms pres obtain slots slot where
    slots: "ob_regions st = Some slots" and slot: "c_index slots i = Some slot"
    by (auto simp add: DmStats_get_item_def bind_eq_Some_conv)
  show ?thesis
    using st rng dms pres slots slot by blast
qed

lemma cached_from_new:
  assumes cn: "DmStats_cache_new h2 self i u = Some (Inr (Some ob), h1)"
    and st2: "stats_objs h2 self = Some st2" "dms_of h2 self = Some dms"
    and rng: "0 \<le> i" "i < ob_regions_len st2" and pres: "dm_stats_region_present dms (nat i)"
  shows "region_cached h1 self i ob"
proof -
  from cache_new_post [OF cn st2(1)] obtain region w st' slots' wr where
    p: "ob = RegionRef region" "stats_objs h1 self = Some st'"
      "ob_regions_len st' = ob_regions_len st2" "ob_dms st' = ob_dms st2"
      "native h1 = native h2" "ob_regions st' = Some slots'"
      "c_index slots' i = Some (Some w)" "weakrefs h1 w = Some wr"
      "wr_object wr = Some (RegionRef region)" "region_objs h1 region \<noteq> None"
    by auto
  have d: "dms_of h1 self = Some dms"
    using dms_of_cong [OF p(2) st2(1) p(4) p(5)] st2(2) by simp
  have live: "Py_INCREF h1 ob \<noteq> None"
    using p(1,10) by (auto simp add: Py_INCREF_region_def)
  show ?thesis
    unfolding region_cached_def
    using p d live rng pres
    by (intro exI [of _ st'] exI [of _ dms] exI [of _ slots'] exI [of _ w] exI [of _ wr]) simp
qed

lemma get_item_unfold:
  assumes "stats_objs h self = Some st" "0 \<le> i" "i < ob_regions_len st"
    "dms_of h self = Some dms" "dm_stats_region_present dms (nat i)"
    "ob_regions st = Some slots" "c_index slots i = Some slot"
  shows "DmStats_get_item h self i u =
     (case slot of
        None \<Rightarrow> DmStats_cache_new h self i u
      | Some w \<Rightarrow> do {
          region \<leftarrow> PyWeakref_GetObject h w;
          case region of
            None \<Rightarrow> do {
              h1 \<leftarrow> Py_DECREF_weakref h w;
              st1 \<leftarrow> stats_objs h1 self;
              slots1 \<leftarrow> ob_regions st1;
              DmStats_cache_new
                (h1\<lparr>stats_objs := (stats_objs h1)(self \<mapsto> st1\<lparr>ob_regions := Some (slots1[nat i := None])\<rparr>)\<rparr>)
                self i u
            }
          | Some ob \<Rightarrow> do {
              h1 \<leftarrow> Py_INCREF h ob;
              Some (Inr (Some ob), h1)
            }
        })"
  using assms by (simp add: DmStats_get_item_def Let_def)

lemma establishes_expired:
  assumes run: "do {
              h1' \<leftarrow> Py_DECREF_weakref h w;
              st1 \<leftarrow> stats_objs h1' self;
              slots1 \<leftarrow> ob_regions st1;
              DmStats_cache_new
                (h1'\<lparr>stats_objs := (stats_objs h1')(self \<mapsto> st1\<lparr>ob_regions := Some (slots1[nat i := None])\<rparr>)\<rparr>)
                self i u
            } = Some (Inr (Some ob), h1)"
    and wr: "weakrefs h w = Some wr" "wr_object wr = None"
    and st: "stats_objs h self = Some st" and rng: "0 \<le> i" "i < ob_regions_len st"
    and dms: "dms_of h self = Some dms" and pres: "dm_stats_region_present dms (nat i)"
  shows "region_cached h1 self i ob"
proof -
  from run obtain h1' st1 slots1 where
    d: "Py_DECREF_weakref h w = Some h1'" and st1: "stats_objs h1' self = Some st1"
    and s1: "ob_regions st1 = Some slots1"
    and cn: "DmStats_cache_new
              (h1'\<lparr>stats_objs := (stats_objs h1')(self \<mapsto> st1\<lparr>ob_regions := Some (slots1[nat i := None])\<rparr>)\<rparr>)
              self i u = Some (Inr (Some ob), h1)"
    by (auto simp add: bind_eq_Some_conv)
  note fr = decref_weakref_expired [OF d wr]
  have e: "st1 = st" using st1 st fr by simp
  have n: "native h1' = native h" using fr by simp
  show ?thesis
  proof (rule cached_from_new [OF cn])
    show "stats_objs
           (h1'\<lparr>stats_objs := (stats_objs h1')(self \<mapsto> st1\<lparr>ob_regions := Some (slots1[nat i := None])\<rparr>)\<rparr>)
           self = Some (st1\<lparr>ob_regions := Some (slots1[nat i := None])\<rparr>)"
      by simp
    show "dms_of
           (h1'\<lparr>stats_objs := (stats_objs h1')(self \<mapsto> st1\<lparr>ob_regions := Some (slots1[nat i := None])\<rparr>)\<rparr>)
           self = Some dms"
      using dms by (simp add: dms_of_def e n st)
    show "0 \<le> i" by (rule rng)
    show "i < ob_regions_len (st1\<lparr>ob_regions := Some (slots1[nat i := None])\<rparr>)"
      using rng by (simp add: e)
    show "dm_stats_region_present dms (nat i)" by (rule pres)
  qed
qed

lemma get_item_establishes:
  assumes run: "DmStats_get_item h self i u = Some (Inr (Some ob), h1)"
  shows "region_cached h1 self i ob"
proof -
  from get_item_path [OF run] obtain st dms slots slot where
    st: "stats_objs h self = Some st" and rng: "0 \<le> i" "i < ob_regions_len st"
    and dms: "dms_of h self = Some dms" and pres: "dm_stats_region_present dms (nat i)"
    and slots: "ob_regions st = Some slots" and slot: "c_index slots i = Some slot"
    by blast
  note unf = get_item_unfold [OF st rng dms pres slots slot, of u]
  show ?thesis
  proof (cases slot)
    case None
    have "DmStats_cache_new h self i u = Some (Inr (Some ob), h1)"
      using run [unfolded unf] None by simp
    then show ?thesis
      using st dms rng pres by (rule cached_from_new)
  next
    case sw: (Some w)
    note run' = run [unfolded unf sw, simplified]
    from run' obtain region where g: "PyWeakref_GetObject h w = Some region"
      by (auto simp add: bind_eq_Some_conv)
    then obtain wr where wr: "weakrefs h w = Some wr" "wr_object wr = region"
      by (auto simp add: PyWeakref_GetObject_def)
    show ?thesis
    proof (cases region)
      case None
      have g': "PyWeakref_GetObject h w = Some None"
        using g None by simp
      have r: "do {
              h1' \<leftarrow> Py_DECREF_weakref h w;
              st1 \<leftarrow> stats_objs h1' self;
              slots1 \<leftarrow> ob_regions st1;
              DmStats_cache_new
                (h1'\<lparr>stats_objs := (stats_objs h1')(self \<mapsto> st1\<lparr>ob_regions := Some (slots1[nat i := None])\<rparr>)\<rparr>)
                self i u
            } = Some (Inr (Some ob), h1)"
        using run' by (simp add: g')
      have w0: "wr_object wr = None"
        using wr None by simp
      show ?thesis
        by (rule establishes_expired [OF r wr(1) w0 st rng dms pres])
    next
      case (Some ob')
      have g': "PyWeakref_GetObject h w = Some (Some ob')"
        using g Some by simp
      have r: "do { hh \<leftarrow> Py_INCREF h ob'; Some (Inr (Some ob') :: error + pyref option, hh) } =
          Some (Inr (Some ob), h1)"
        using run' by (simp add: g')
      then have i: "Py_INCREF h ob' = Some h1" and e: "ob = ob'"
        by (auto simp add: bind_eq_Some_conv)
      have w1: "wr_object wr = Some ob"
        using wr(2) Some e by simp
      have live: "Py_INCREF h ob \<noteq> None"
        using i e by simp
      have "region_cached h self i ob"
        unfolding region_cached_def
        using st rng dms pres slots slot [unfolded sw] wr(1) w1 live by blast
      then show ?thesis
        by (rule region_cached_incref [OF _ i])
    qed
  qed
qed

lemma get_item_twice:
  assumes "DmStats_get_item h self i u = Some (Inr (Some ob), h1)"
  shows "\<exists>h2. DmStats_get_item h1 self i u' = Some (Inr (Some ob), h2)"
  using get_item_hit [OF get_item_establishes [OF assms]] by blast

lemma new_area_post:
  assumes "newDmStatsAreaObject h stats aid = Some (area, h1)"
    and "stats_objs h stats = Some st"
  shows "area = next_addr h \<and>
         stats_objs h1 = (stats_objs h)(stats \<mapsto> st\<lparr>st_refcnt := Suc (st_refcnt st)\<rparr>) \<and>
         area_objs h1 = (area_objs h)(area \<mapsto>
            \<lparr>ar_refcnt = 1, ar_stats = stats, ar_weakreflist = [], ob_area_id = aid\<rparr>) \<and>
         region_objs h1 = region_objs h \<and> weakrefs h1 = weakrefs h \<and> native h1 = native h \<and>
         next_addr h1 = Suc (next_addr h)"
  using assms
  by (auto simp add: newDmStatsAreaObject_def Py_INCREF_stats_def Let_def bind_eq_Some_conv)

lemma new_area_stats_live:
  assumes "newDmStatsAreaObject h stats aid = Some (area, h1)"
  shows "\<exists>st. stats_objs h stats = Some st"
  using assms
  by (auto simp add: newDmStatsAreaObject_def Py_INCREF_stats_def Let_def bind_eq_Some_conv)

lemma new_weakref_fresh_area:
  assumes "PyWeakref_NewRef h (AreaRef a) = Some (w, h1)"
    and "area_objs h a = Some ar" "ar_weakreflist ar = []"
  shows "w = next_addr h \<and>
         weakrefs h1 = (weakrefs h)(w \<mapsto> \<lparr>wr_refcnt = 1, wr_object = Some (AreaRef a)\<rparr>) \<and>
         area_objs h1 = (area_objs h)(a \<mapsto> ar\<lparr>ar_weakreflist := [w]\<rparr>) \<and>
         stats_objs h1 = stats_objs h \<and> region_objs h1 = region_objs h \<and> native h1 = native h \<and>
         next_addr h1 = Suc (next_addr h)"
  using assms
  by (auto simp add: PyWeakref_NewRef_def Let_def bind_eq_Some_conv)

lemma region_cache_new_post:
  assumes run: "DmStatsRegion_cache_new h self j = Some (res, h')"
    and rg: "region_objs h self = Some rg"
  shows "\<exists>area w rg' slots' wr.
           res = Inr (Some (AreaRef area)) \<and> region_objs h' self = Some rg' \<and>
           ob_areas_len rg' = ob_areas_len rg \<and> ob_stats rg' = ob_stats rg \<and>
           ob_region_id rg' = ob_region_id rg \<and>
           dms_of h' (ob_stats rg) = dms_of h (ob_stats rg) \<and> ob_areas rg' = Some slots' \<and>
           c_index slots' j = Some (Some w) \<and> weakrefs h' w = Some wr \<and>
           wr_object wr = Some (AreaRef area) \<and> area_objs h' area \<noteq> None"
proof -
  from run rg obtain area h1 w h2 rg2 slots x where
    n: "newDmStatsAreaObject h (ob_stats rg) (nat j) = Some (area, h1)"
    and w: "PyWeakref_NewRef h1 (AreaRef area) = Some (w, h2)"
    and rg2: "region_objs h2 self = Some rg2"
    and slots: "ob_areas rg2 = Some slots"
    and ci: "c_index slots j = Some x"
    and res: "res = Inr (Some (AreaRef area))"
    and h': "h' = h2\<lparr>region_objs := (region_objs h2)(self \<mapsto> rg2\<lparr>ob_areas := Some (slots[nat j := Some w])\<rparr>)\<rparr>"
    by (auto simp add: DmStatsRegion_cache_new_def Let_def bind_eq_Some_conv split: prod.splits)
  from new_area_stats_live [OF n] obtain st where st: "stats_objs h (ob_stats rg) = Some st"
    by blast
  note p1 = new_area_post [OF n st]
  have ar1: "area_objs h1 area = Some \<lparr>ar_refcnt = 1, ar_stats = ob_stats rg, ar_weakreflist = [],
       ob_area_id = nat j\<rparr>"
    using p1 by simp
  note p2 = new_weakref_fresh_area [OF w ar1]
  have rg2_eq: "rg2 = rg"
    using rg2 rg p1 p2 by simp
  have a: "region_objs h' self = Some (rg\<lparr>ob_areas := Some (slots[nat j := Some w])\<rparr>)"
    using h' rg2_eq by simp
  have b: "weakrefs h' w = Some \<lparr>wr_refcnt = 1, wr_object = Some (AreaRef area)\<rparr>"
    using p2 h' by simp
  have c: "area_objs h' area \<noteq> None"
    using p2 h' by simp
  have s': "stats_objs h' (ob_stats rg) = Some (st\<lparr>st_refcnt := Suc (st_refcnt st)\<rparr>)"
    using p1 p2 h' by simp
  have n': "native h' = native h"
    using p1 p2 h' by simp
  have d: "dms_of h' (ob_stats rg) = dms_of h (ob_stats rg)"
    by (rule dms_of_cong [OF s' st _ n']) simp
  show ?thesis
    using res a b c d c_index_update [OF ci, of "Some w"] slots rg2_eq
    by (intro exI [of _ area] exI [of _ w]) simp
qed

lemma area_cached_incref:
  assumes c: "area_cached h self j ob" and i: "Py_INCREF h ob' = Some h'"
  shows "area_cached h' self j ob"
proof -
  from c obtain rg dms slots w wr where
    f: "region_objs h self = Some rg" "0 \<le> j" "j < ob_areas_len rg"
      "dms_of h (ob_stats rg) = Some dms" "dm_stats_region_present dms (ob_region_id rg)"
      "ob_areas rg = Some slots" "c_index slots j = Some (Some w)"
      "weakrefs h w = Some wr" "wr_object wr = Some ob" "Py_INCREF h ob \<noteq> None"
    unfolding area_cached_def by blast
  note fr = incref_frame [OF i]
  from fr f(1) obtain rg' where
    rg': "region_objs h' self = Some rg'" "ob_stats rg' = ob_stats rg"
      "ob_region_id rg' = ob_region_id rg" "ob_areas rg' = ob_areas rg"
      "ob_areas_len rg' = ob_areas_len rg"
    by blast
  from f(4) obtain st where st: "stats_objs h (ob_stats rg) = Some st"
    by (auto simp add: dms_of_def bind_eq_Some_conv)
  from fr st obtain st' where st': "stats_objs h' (ob_stats rg) = Some st'" "ob_dms st' = ob_dms st"
    by blast
  have d: "dms_of h' (ob_stats rg') = Some dms"
    using dms_of_cong [OF st'(1) st st'(2)] fr f(4) rg'(2) by simp
  show ?thesis
    unfolding area_cached_def
    using rg' d f fr incref_live [OF i f(10)]
    by (intro exI [of _ rg'] exI [of _ dms] exI [of _ slots] exI [of _ w] exI [of _ wr]) simp
qed

lemma region_get_item_hit:
  assumes c: "area_cached h self j ob"
  shows "\<exists>h'. Py_INCREF h ob = Some h' \<and>
           DmStatsRegion_get_item h self j = Some (Inr (Some ob), h')"
proof -
  from c obtain rg dms slots w wr where
    f: "region_objs h self = Some rg" "0 \<le> j" "j < ob_areas_len rg"
      "dms_of h (ob_stats rg) = Some dms" "dm_stats_region_present dms (ob_region_id rg)"
      "ob_areas rg = Some slots" "c_index slots j = Some (Some w)"
      "weakrefs h w = Some wr" "wr_object wr = Some ob" "Py_INCREF h ob \<noteq> None"
    unfolding area_cached_def by blast
  from f(10) obtain h' where h': "Py_INCREF h ob = Some h'" by blast
  have "DmStatsRegion_get_item h self j = Some (Inr (Some ob), h')"
    using f h' by (simp add: DmStatsRegion_get_item_def PyWeakref_GetObject_def)
  with h' show ?thesis by blast
qed

lemma region_get_item_path:
  assumes run: "DmStatsRegion_get_item h self j = Some (Inr (Some ob), h1)"
  shows "\<exists>rg dms slots slot.
           region_objs h self = Some rg \<and> 0 \<le> j \<and> j < ob_areas_len rg \<and>
           dms_of h (ob_stats rg) = Some dms \<and> dm_stats_region_present dms (ob_region_id rg) \<and>
           ob_areas rg = Some slots \<and> c_index slots j = Some slot"
proof -
  from run obtain rg where rg: "region_objs h self = Some rg"
    by (auto simp add: DmStatsRegion_get_item_def bind_eq_Some_conv)
  from run rg have rng: "0 \<le> j" "j < ob_areas_len rg"
    by (auto simp add: DmStatsRegion_get_item_def split: if_splits)
  from run rg rng obtain dms where dms: "dms_of h (ob_stats rg) = Some dms"
    by (auto simp add: DmStatsRegion_get_item_def bind_eq_Some_conv)
  from run rg rng dms have pres: "dm_stats_region_present dms (ob_region_id rg)"
    by (auto simp add: DmStatsRegion_get_item_def split: if_splits)
  from run rg rng dms pres obtain slots slot where
    slots: "ob_areas rg = Some slots" and slot: "c_index slots j = Some slot"
    by (auto simp add: DmStatsRegion_get_item_def bind_eq_Some_conv)
  show ?thesis
    using rg rng dms pres slots slot by blast
qed

lemma region_get_item_unfold:
  assumes "region_objs h self = Some rg" "0 \<le> j" "j < ob_areas_len rg"
    "dms_of h (ob_stats rg) = Some dms" "dm_stats_region_present dms (ob_region_id rg)"
    "ob_areas rg = Some slots" "c_index slots j = Some slot"
  shows "DmStatsRegion_get_item h self j =
     (case slot of
        None \<Rightarrow> DmStatsRegion_cache_new h self j
      | Some w \<Rightarrow> do {
          area \<leftarrow> PyWeakref_GetObject h w;
          case area of
            None \<Rightarrow> do {
              h1 \<leftarrow> Py_DECREF_weakref h w;
              rg1 \<leftarrow> region_objs h1 self;
              slots1 \<leftarrow> ob_areas rg1;
              DmStatsRegion_cache_new
                (h1\<lparr>region_objs := (region_objs h1)(self \<mapsto> rg1\<lparr>ob_areas := Some (slots1[nat j := None])\<rparr>)\<rparr>)
                self j
            }
          | Some ob \<Rightarrow> do {
              h1 \<leftarrow> Py_INCREF h ob;
              Some (Inr (Some ob), h1)
            }
        })"
  using assms by (simp add: DmStatsRegion_get_item_def Let_def)

lemma area_cached_from_new:
  assumes cn: "DmStatsRegion_cache_new h2 self j = Some (Inr (Some ob), h1)"
    and rg2: "region_objs h2 self = Some rg2" "dms_of h2 (ob_stats rg2) = Some dms"
    and rng: "0 \<le> j" "j < ob_areas_len rg2"
    and pres: "dm_stats_region_present dms (ob_region_id rg2)"
  shows "area_cached h1 self j ob"
proof -
  from region_cache_new_post [OF cn rg2(1)] obtain area w rg' slots' wr where
    p: "ob = AreaRef area" "region_objs h1 self = Some rg'"
      "ob_areas_len rg' = ob_areas_len rg2" "ob_stats rg' = ob_stats rg2"
      "ob_region_id rg' = ob_region_id rg2"
      "dms_of h1 (ob_stats rg2) = dms_of h2 (ob_stats rg2)" "ob_areas rg' = Some slots'"
      "c_index slots' j = Some (Some w)" "weakrefs h1 w = Some wr"
      "wr_object wr = Some (AreaRef area)" "area_objs h1 area \<noteq> None"
    by auto
  have live: "Py_INCREF h1 ob \<noteq> None"
    using p(1,11) by (auto simp add: Py_INCREF_area_def)
  show ?thesis
    unfolding area_cached_def
    using p rg2(2) live rng pres
    by (intro exI [of _ rg'] exI [of _ dms] exI [of _ slots'] exI [of _ w] exI [of _ wr]) simp
qed

lemma area_establishes_expired:
  assumes run: "do {
              h1' \<leftarrow> Py_DECREF_weakref h w;
              rg1 \<leftarrow> region_objs h1' self;
              slots1 \<leftarrow> ob_areas rg1;
              DmStatsRegion_cache_new
                (h1'\<lparr>region_objs := (region_objs h1')(self \<mapsto> rg1\<lparr>ob_areas := Some (slots1[nat j := None])\<rparr>)\<rparr>)
                self j
            } = Some (Inr (Some ob), h1)"
    and wr: "weakrefs h w = Some wr" "wr_object wr = None"
    and rg: "region_objs h self = Some rg" and rng: "0 \<le> j" "j < ob_areas_len rg"
    and dms: "dms_of h (ob_stats rg) = Some dms"
    and pres: "dm_stats_region_present dms (ob_region_id rg)"
  shows "area_cached h1 self j ob"
proof -
  from run obtain h1' rg1 slots1 where
    d: "Py_DECREF_weakref h w = Some h1'" and rg1: "region_objs h1' self = Some rg1"
    and s1: "ob_areas rg1 = Some slots1"
    and cn: "DmStatsRegion_cache_new
              (h1'\<lparr>region_objs := (region_objs h1')(self \<mapsto> rg1\<lparr>ob_areas := Some (slots1[nat j := None])\<rparr>)\<rparr>)
              self j = Some (Inr (Some ob), h1)"
    by (auto simp add: bind_eq_Some_conv)
  note fr = decref_weakref_expired [OF d wr]
  have e: "rg1 = rg" using rg1 rg fr by simp
  have n: "native h1' = native h" and so: "stats_objs h1' = stats_objs h" using fr by simp_all
  show ?thesis
  proof (rule area_cached_from_new [OF cn])
    show "region_objs
           (h1'\<lparr>region_objs := (region_objs h1')(self \<mapsto> rg1\<lparr>ob_areas := Some (slots1[nat j := None])\<rparr>)\<rparr>)
           self = Some (rg1\<lparr>ob_areas := Some (slots1[nat j := None])\<rparr>)"
      by simp
    show "dms_of
           (h1'\<lparr>region_objs := (region_objs h1')(self \<mapsto> rg1\<lparr>ob_areas := Some (slots1[nat j := None])\<rparr>)\<rparr>)
           (ob_stats (rg1\<lparr>ob_areas := Some (slots1[nat j := None])\<rparr>)) = Some dms"
      using dms by (simp add: dms_of_def e n so)
    show "0 \<le> j" by (rule rng)
    show "j < ob_areas_len (rg1\<lparr>ob_areas := Some (slots1[nat j := None])\<rparr>)"
      using rng by (simp add: e)
    show "dm_stats_region_present dms (ob_region_id (rg1\<lparr>ob_areas := Some (slots1[nat j := None])\<rparr>))"
      using pres by (simp add: e)
  qed
qed

lemma region_get_item_establishes:
  assumes run: "DmStatsRegion_get_item h self j = Some (Inr (Some ob), h1)"
  shows "area_cached h1 self j ob"
proof -
  from region_get_item_path [OF run] obtain rg dms slots slot where
    rg: "region_objs h self = Some rg" and rng: "0 \<le> j" "j < ob_areas_len rg"
    and dms: "dms_of h (ob_stats rg) = Some dms"
    and pres: "dm_stats_region_present dms (ob_region_id rg)"
    and slots: "ob_areas rg = Some slots" and slot: "c_index slots j = Some slot"
    by blast
  note unf = region_get_item_unfold [OF rg rng dms pres slots slot]
  show ?thesis
  proof (cases slot)
    case None
    have "DmStatsRegion_cache_new h self j = Some (Inr (Some ob), h1)"
      using run [unfolded unf] None by simp
    then show ?thesis
      using rg dms rng pres by (rule area_cached_from_new)
  next
    case sw: (Some w)
    note run' = run [unfolded unf sw, simplified]
    from run' obtain area where g: "PyWeakref_GetObject h w = Some area"
      by (auto simp add: bind_eq_Some_conv)
    then obtain wr where wr: "weakrefs h w = Some wr" "wr_object wr = area"
      by (auto simp add: PyWeakref_GetObject_def)
    show ?thesis
    proof (cases area)
      case None
      have g': "PyWeakref_GetObject h w = Some None"
        using g None by simp
      have r: "do {
              h1' \<leftarrow> Py_DECREF_weakref h w;
              rg1 \<leftarrow> region_objs h1' self;
              slots1 \<leftarrow> ob_areas rg1;
              DmStatsRegion_cache_new
                (h1'\<lparr>region_objs := (region_objs h1')(self \<mapsto> rg1\<lparr>ob_areas := Some (slots1[nat j := None])\<rparr>)\<rparr>)
                self j
            } = Some (Inr (Some ob), h1)"
        using run' by (simp add: g')
      have w0: "wr_object wr = None"
        using wr None by simp
      show ?thesis
        by (rule area_establishes_expired [OF r wr(1) w0 rg rng dms pres])
    next
      case (Some ob')
      have g': "PyWeakref_GetObject h w = Some (Some ob')"
        using g Some by simp
      have r: "do { hh \<leftarrow> Py_INCREF h ob'; Some (Inr (Some ob') :: error + pyref option, hh) } =
          Some (Inr (Some ob), h1)"
        using run' by (simp add: g')
      then have i: "Py_INCREF h ob' = Some h1" and e: "ob = ob'"
        by (auto simp add: bind_eq_Some_conv)
      have w1: "wr_object wr = Some ob"
        using wr(2) Some e by simp
      have live: "Py_INCREF h ob \<noteq> None"
        using i e by simp
      have "area_cached h self j ob"
        unfolding area_cached_def
        using rg rng dms pres slots slot [unfolded sw] wr(1) w1 live by blast
      then show ?thesis
        by (rule area_cached_incref [OF _ i])
    qed
  qed
qed

lemma region_get_item_twice:
  assumes "DmStatsRegion_get_item h self j = Some (Inr (Some ob), h1)"
  shows "\<exists>h2. DmStatsRegion_get_item h1 self j = Some (Inr (Some ob), h2)"
  using region_get_item_hit [OF region_get_item_establishes [OF assms]] by blast

lemma new_region_succeeds:
  "stats_objs h self = Some st \<Longrightarrow>
     \<exists>h1. newDmStatsRegionObject h self rid q u = Some (next_addr h, h1)"
  by (simp add: newDmStatsRegionObject_def Py_INCREF_stats_def Let_def)

lemma new_weakref_region_succeeds:
  "region_objs h r = Some rg \<Longrightarrow> rg_weakreflist rg = [] \<Longrightarrow>
     \<exists>w h1. PyWeakref_NewRef h (RegionRef r) = Some (w, h1)"
  by (simp add: PyWeakref_NewRef_def Let_def)

lemma set_area_cache_succeeds:
  "region_objs h r = Some rg \<Longrightarrow> dms_of h (ob_stats rg) = Some dms \<Longrightarrow>
     \<exists>h1. DmStatsRegion_set_area_cache h r = Some h1"
  by (simp add: DmStatsRegion_set_area_cache_def Let_def)

lemma cache_new_succeeds:
  assumes st: "stats_objs h self = Some st" and dms: "dms_of h self = Some dms"
    and slots: "ob_regions st = Some slots" and ci: "c_index slots i = Some x"
  shows "\<exists>r h'. DmStats_cache_new h self i u = Some (Inr (Some (RegionRef r)), h')"
proof -
  obtain h1 where n: "newDmStatsRegionObject h self (nat i) (ob_sequence st) u = Some (next_addr h, h1)"
    using new_region_succeeds [OF st] by blast
  note p1 = new_region_post [OF n st]
  define rg where "rg = \<lparr>rg_refcnt = 1, ob_stats = self, rg_sequence = ob_sequence st,
       ob_region_id = nat i, rg_weakreflist = [], ob_areas = fst u, ob_areas_len = snd u\<rparr>"
  have rg1: "region_objs h1 (next_addr h) = Some rg"
    using p1 by (simp add: rg_def)
  have wl: "rg_weakreflist rg = []"
    by (simp add: rg_def)
  obtain w h2 where w: "PyWeakref_NewRef h1 (RegionRef (next_addr h)) = Some (w, h2)"
    using new_weakref_region_succeeds [OF rg1 wl] by blast
  note p2 = new_weakref_fresh_region [OF w rg1 wl]
  define st2 where "st2 = st\<lparr>st_refcnt := Suc (st_refcnt st)\<rparr>"
  have st2: "stats_objs h2 self = Some st2"
    using p1 p2 by (simp add: st2_def)
  have slots2: "ob_regions st2 = Some slots"
    using slots by (simp add: st2_def)
  define h3 where "h3 = h2\<lparr>stats_objs := (stats_objs h2)(self \<mapsto>
       st2\<lparr>ob_regions := Some (slots[nat i := Some w])\<rparr>)\<rparr>"
  have rg3: "region_objs h3 (next_addr h) = Some (rg\<lparr>rg_weakreflist := [w]\<rparr>)"
    using p2 by (simp add: h3_def)
  have d3: "dms_of h3 (ob_stats (rg\<lparr>rg_weakreflist := [w]\<rparr>)) = Some dms"
    using dms st p1 p2 by (simp add: dms_of_def h3_def rg_def st2_def)
  obtain h4 where sac: "DmStatsRegion_set_area_cache h3 (next_addr h) = Some h4"
    using set_area_cache_succeeds [OF rg3 d3] by blast
  have "DmStats_cache_new h self i u = Some (Inr (Some (RegionRef (next_addr h))), h4)"
    using st n w st2 slots2 ci sac
    by (simp add: DmStats_cache_new_def h3_def)
  then show ?thesis by blast
qed

lemma region_cache_new_succeeds:
  assumes "region_objs h self = Some rg" "dms_of h (ob_stats rg) = Some dms"
    "ob_areas rg = Some slots" "c_index slots j = Some x"
  shows "\<exists>a h'. DmStatsRegion_cache_new h self j = Some (Inr (Some (AreaRef a)), h')"
  using assms
  by (auto simp add: DmStatsRegion_cache_new_def newDmStatsAreaObject_def Py_INCREF_stats_def
      PyWeakref_NewRef_def dms_of_def Let_def bind_eq_Some_conv)

lemma decref_expired_succeeds:
  assumes "weakrefs h w = Some wr" "wr_refcnt wr \<noteq> 0" "wr_object wr = None"
  shows "\<exists>h1. Py_DECREF_weakref h w = Some h1"
  using assms by (simp add: Py_DECREF_weakref_def)

lemma get_item_returns_region:
  assumes acc: "region_accessible h self i"
  shows "\<exists>r h1. DmStats_get_item h self i u = Some (Inr (Some (RegionRef r)), h1)"
proof -
  from acc obtain st dms slots slot where
    st: "stats_objs h self = Some st" and rng: "0 \<le> i" "i < ob_regions_len st"
    and dms: "dms_of h self = Some dms" and pres: "dm_stats_region_present dms (nat i)"
    and slots: "ob_regions st = Some slots" and slot: "c_index slots i = Some slot"
    and ok: "region_slot_ok h slot"
    unfolding region_accessible_def by blast
  note unf = get_item_unfold [OF st rng dms pres slots slot, of u]
  show ?thesis
  proof (cases slot)
    case None
    then show ?thesis
      using cache_new_succeeds [OF st dms slots slot, of u] by (simp add: unf)
  next
    case sw: (Some w)
    from ok sw obtain wr where wr: "weakrefs h w = Some wr" "wr_refcnt wr \<noteq> 0"
      and ref: "case wr_object wr of None \<Rightarrow> True
                | Some (RegionRef r) \<Rightarrow> region_objs h r \<noteq> None | Some _ \<Rightarrow> False"
      by (auto simp add: region_slot_ok_def)
    have g: "PyWeakref_GetObject h w = Some (wr_object wr)"
      using wr by (simp add: PyWeakref_GetObject_def)
    show ?thesis
    proof (cases "wr_object wr")
      case None
      obtain h1 where d: "Py_DECREF_weakref h w = Some h1"
        using decref_expired_succeeds [OF wr None] by blast
      note fr = decref_weakref_expired [OF d wr(1) None]
      define h2 where "h2 = h1\<lparr>stats_objs := (stats_objs h1)(self \<mapsto>
           st\<lparr>ob_regions := Some (slots[nat i := None])\<rparr>)\<rparr>"
      have st2: "stats_objs h2 self = Some (st\<lparr>ob_regions := Some (slots[nat i := None])\<rparr>)"
        by (simp add: h2_def)
      have d2: "dms_of h2 self = Some dms"
        using dms st fr by (simp add: dms_of_def h2_def)
      have s2: "ob_regions (st\<lparr>ob_regions := Some (slots[nat i := None])\<rparr>) = Some (slots[nat i := None])"
        by simp
      obtain r h' where cn: "DmStats_cache_new h2 self i u = Some (Inr (Some (RegionRef r)), h')"
        using cache_new_succeeds [OF st2 d2 s2 c_index_update [OF slot]] by blast
      have st1: "stats_objs h1 self = Some st"
        using fr st by simp
      have "DmStats_get_item h self i u = Some (Inr (Some (RegionRef r)), h')"
        using cn d st1 slots by (simp add: unf sw g None h2_def)
      then show ?thesis by blast
    next
      case (Some ob)
      with ref obtain r where r: "ob = RegionRef r" "region_objs h r \<noteq> None"
        by (cases ob) auto
      then obtain h1 where "Py_INCREF h (RegionRef r) = Some h1"
        by (auto simp add: Py_INCREF_region_def)
      then have "DmStats_get_item h self i u = Some (Inr (Some (RegionRef r)), h1)"
        using Some r by (simp add: unf sw g)
      then show ?thesis by blast
    qed
  qed
qed

lemma region_get_item_returns_area:
  assumes acc: "area_accessible h self j"
  shows "\<exists>a h1. DmStatsRegion_get_item h self j = Some (Inr (Some (AreaRef a)), h1)"
proof -
  from acc obtain rg dms slots slot where
    rg: "region_objs h self = Some rg" and rng: "0 \<le> j" "j < ob_areas_len rg"
    and dms: "dms_of h (ob_stats rg) = Some dms"
    and pres: "dm_stats_region_present dms (ob_region_id rg)"
    and slots: "ob_areas rg = Some slots" and slot: "c_index slots j = Some slot"
    and ok: "area_slot_ok h slot"
    unfolding area_accessible_def by blast
  note unf = region_get_item_unfold [OF rg rng dms pres slots slot]
  show ?thesis
  proof (cases slot)
    case None
    then show ?thesis
      using region_cache_new_succeeds [OF rg dms slots slot] by (simp add: unf)
  next
    case sw: (Some w)
    from ok sw obtain wr where wr: "weakrefs h w = Some wr" "wr_refcnt wr \<noteq> 0"
      and ref: "case wr_object wr of None \<Rightarrow> True
                | Some (AreaRef a) \<Rightarrow> area_objs h a \<noteq> None | Some _ \<Rightarrow> False"
      by (auto simp add: area_slot_ok_def)
    have g: "PyWeakref_GetObject h w = Some (wr_object wr)"
      using wr by (simp add: PyWeakref_GetObject_def)
    show ?thesis
    proof (cases "wr_object wr")
      case None
      obtain h1 where d: "Py_DECREF_weakref h w = Some h1"
        using decref_expired_succeeds [OF wr None] by blast
      note fr = decref_weakref_expired [OF d wr(1) None]
      define h2 where "h2 = h1\<lparr>region_objs := (region_objs h1)(self \<mapsto>
           rg\<lparr>ob_areas := Some (slots[nat j := None])\<rparr>)\<rparr>"
      have rg2: "region_objs h2 self = Some (rg\<lparr>ob_areas := Some (slots[nat j := None])\<rparr>)"
        by (simp add: h2_def)
      have d2: "dms_of h2 (ob_stats (rg\<lparr>ob_areas := Some (slots[nat j := None])\<rparr>)) = Some dms"
        using dms fr by (simp add: dms_of_def h2_def)
      have s2: "ob_areas (rg\<lparr>ob_areas := Some (slots[nat j := None])\<rparr>) = Some (slots[nat j := None])"
        by simp
      obtain a h' where cn: "DmStatsRegion_cache_new h2 self j = Some (Inr (Some (AreaRef a)), h')"
        using region_cache_new_succeeds [OF rg2 d2 s2 c_index_update [OF slot]] by blast
      have rg1: "region_objs h1 self = Some rg"
        using fr rg by simp
      have "DmStatsRegion_get_item h self j = Some (Inr (Some (AreaRef a)), h')"
        using cn d rg1 slots by (simp add: unf sw g None h2_def)
      then show ?thesis by blast
    next
      case (Some ob)
      with ref obtain a where a: "ob = AreaRef a" "area_objs h a \<noteq> None"
        by (cases ob) auto
      then obtain h1 where "Py_INCREF h (AreaRef a) = Some h1"
        by (auto simp add: Py_INCREF_area_def)
      then have "DmStatsRegion_get_item h self j = Some (Inr (Some (AreaRef a)), h1)"
        using Some a by (simp add: unf sw g)
      then show ?thesis by blast
    qed
  qed
qed

text \<open>
  C1: on a \<open>DmStats\<close> object with a populated tree, for an identifier in the range of
  the region cache whose region is present (and a well-formed cache slot), indexed
  access returns a region view, and a second indexed access to the same identifier,
  with nothing in between, so that the view is still referenced and its weak reference
  alive, returns the same object. The same holds for indexed access to the areas of a
  region view.
\<close>

theorem cache_identity:
  "(region_accessible h self i \<longrightarrow>
      (\<exists>r h1 h2. DmStats_get_item h self i u = Some (Inr (Some (RegionRef r)), h1) \<and>
                 DmStats_get_item h1 self i u' = Some (Inr (Some (RegionRef r)), h2))) \<and>
   (area_accessible h region j \<longrightarrow>
      (\<exists>a h1 h2. DmStatsRegion_get_item h region j = Some (Inr (Some (AreaRef a)), h1) \<and>
                 DmStatsRegion_get_item h1 region j = Some (Inr (Some (AreaRef a)), h2)))"
proof (intro conjI impI)
  assume "region_accessible h self i"
  then obtain r h1 where 1: "DmStats_get_item h self i u = Some (Inr (Some (RegionRef r)), h1)"
    using get_item_returns_region by blast
  from get_item_twice [OF 1, of u'] 1
  show "\<exists>r h1 h2. DmStats_get_item h self i u = Some (Inr (Some (RegionRef r)), h1) \<and>
                 DmStats_get_item h1 self i u' = Some (Inr (Some (RegionRef r)), h2)"
    by blast
next
  assume "area_accessible h region j"
  then obtain a h1 where 1: "DmStatsRegion_get_item h region j = Some (Inr (Some (AreaRef a)), h1)"
    using region_get_item_returns_area by blast
  from region_get_item_twice [OF 1] 1
  show "\<exists>a h1 h2. DmStatsRegion_get_item h region j = Some (Inr (Some (AreaRef a)), h1) \<and>
                 DmStatsRegion_get_item h1 region j = Some (Inr (Some (AreaRef a)), h2)"
    by blast
qed

text \<open>
  The witness: region 1 of \<open>heap_listed\<close> twice, then area 0 of that region twice.
\<close>

theorem cache_identity_witness:
  "region_accessible heap_listed 0 1 \<and>
   DmStats_get_item heap_listed 0 1 (None, 0) = Some (Inr (Some (RegionRef 2)), heap_view) \<and>
   map_option fst (DmStats_get_item heap_view 0 1 (None, 0)) = Some (Inr (Some (RegionRef 2))) \<and>
   area_accessible heap_view 2 0 \<and>
   DmStatsRegion_get_item heap_view 2 0 = Some (Inr (Some (AreaRef 4)), heap_area) \<and>
   map_option fst (DmStatsRegion_get_item heap_area 2 0) = Some (Inr (Some (AreaRef 4)))"
proof -
  have ra: "region_accessible heap_listed 0 1"
    by (simp add: region_accessible_def region_slot_ok_def heap_listed_def example_tree_def
        dms_of_def dm_stats_region_present_def c_index_def)
  have aa: "area_accessible heap_view 2 0"
    by (simp add: area_accessible_def area_slot_ok_def heap_view_def example_tree_def
        dms_of_def dm_stats_region_present_def c_index_def)
  show ?thesis
    using ra aa heap_view_reached heap_area_reached
      cache_identity [where h = heap_listed and self = 0 and i = 1 and u = "(None, 0)"
        and u' = "(None, 0)"]
      cache_identity [where h = heap_view and region = 2 and j = 0]
    by auto
qed

text \<open>The lifetime of a parent and its views.\<close>

lemma cache_new_explicit:
  assumes st: "stats_objs h self = Some st" and d: "ob_dms st = Some d"
    and tree: "native h d = Some tree"
    and slots: "ob_regions st = Some slots" and ci: "c_index slots i = Some x"
  shows "DmStats_cache_new h self i u =
     Some (Inr (Some (RegionRef (next_addr h))),
       h\<lparr>region_objs := (region_objs h)(next_addr h \<mapsto>
            \<lparr>rg_refcnt = 1, ob_stats = self, rg_sequence = ob_sequence st,
             ob_region_id = nat i, rg_weakreflist = [Suc (next_addr h)],
             ob_areas = (if dm_stats_get_region_nr_areas tree (nat i) \<noteq> 0
                         then Some (replicate (dm_stats_get_region_nr_areas tree (nat i)) None)
                         else fst u),
             ob_areas_len = (if dm_stats_get_region_nr_areas tree (nat i) \<noteq> 0
                             then int (dm_stats_get_region_nr_areas tree (nat i))
                             else snd u)\<rparr>),
          stats_objs := (stats_objs h)(self \<mapsto>
            st\<lparr>st_refcnt := Suc (st_refcnt st),
               ob_regions := Some (slots[nat i := Some (Suc (next_addr h))])\<rparr>),
          weakrefs := (weakrefs h)(Suc (next_addr h) \<mapsto>
            \<lparr>wr_refcnt = 1, wr_object = Some (RegionRef (next_addr h))\<rparr>),
          next_addr := Suc (Suc (next_addr h))\<rparr>)"
proof (cases "dm_stats_get_region_nr_areas tree (nat i) = 0")
  case True
  with assms show ?thesis
    by (simp add: DmStats_cache_new_def newDmStatsRegionObject_def Py_INCREF_stats_def
        PyWeakref_NewRef_def DmStatsRegion_set_area_cache_def dms_of_def Let_def)
next
  case False
  with assms show ?thesis
    by (simp add: DmStats_cache_new_def newDmStatsRegionObject_def Py_INCREF_stats_def
        PyWeakref_NewRef_def DmStatsRegion_set_area_cache_def dms_of_def Let_def)
qed


lemma region_cache_new_explicit:
  assumes rg: "region_objs h self = Some rg" and st: "stats_objs h (ob_stats rg) = Some st"
    and slots: "ob_areas rg = Some slots" and ci: "c_index slots j = Some x"
  shows "DmStatsRegion_cache_new h self j =
     Some (Inr (Some (AreaRef (next_addr h))),
       h\<lparr>area_objs := (area_objs h)(next_addr h \<mapsto>
            \<lparr>ar_refcnt = 1, ar_stats = ob_stats rg, ar_weakreflist = [Suc (next_addr h)],
             ob_area_id = nat j\<rparr>),
          stats_objs := (stats_objs h)(ob_stats rg \<mapsto> st\<lparr>st_refcnt := Suc (st_refcnt st)\<rparr>),
          weakrefs := (weakrefs h)(Suc (next_addr h) \<mapsto>
            \<lparr>wr_refcnt = 1, wr_object = Some (AreaRef (next_addr h))\<rparr>),
          region_objs := (region_objs h)(self \<mapsto>
            rg\<lparr>ob_areas := Some (slots[nat j := Some (Suc (next_addr h))])\<rparr>),
          next_addr := Suc (Suc (next_addr h))\<rparr>)"
  using assms
  by (simp add: DmStatsRegion_cache_new_def newDmStatsAreaObject_def Py_INCREF_stats_def
      PyWeakref_NewRef_def Let_def)

lemma decref_stats_shared:
  assumes "stats_objs h s = Some st" "1 < st_refcnt st"
  shows "Py_DECREF_stats h s =
           Some (h\<lparr>stats_objs := (stats_objs h)(s \<mapsto> st\<lparr>st_refcnt := st_refcnt st - 1\<rparr>)\<rparr>)"
  using assms by (simp add: Py_DECREF_stats_def)

lemma decref_stats_last:
  assumes "stats_objs h s = Some st" "st_refcnt st = 1" "ob_dms st = Some d" "native h d = Some tree"
  shows "Py_DECREF_stats h s =
           Some (h\<lparr>native := (native h)(d := None), stats_objs := (stats_objs h)(s := None)\<rparr>)"
  using assms by (simp add: Py_DECREF_stats_def DmStats_dealloc_def dm_stats_destroy_def)

lemma decref_region_last:
  assumes "region_objs h r = Some rg" "rg_refcnt rg = 1" "rg_weakreflist rg = [w]"
    "weakrefs h w = Some wr"
  shows "Py_DECREF_region h r =
           do {
             h2 \<leftarrow> Py_DECREF_stats
                     (h\<lparr>region_objs := (region_objs h)(r \<mapsto> rg\<lparr>rg_refcnt := 0\<rparr>),
                        weakrefs := (weakrefs h)(w \<mapsto> wr\<lparr>wr_object := None\<rparr>)\<rparr>)
                     (ob_stats rg);
             Some (h2\<lparr>region_objs := (region_objs h2)(r := None)\<rparr>)
           }"
  using assms by (simp add: Py_DECREF_region_def DmStatsRegion_dealloc_def)

lemma decref_area_last:
  assumes "area_objs h a = Some ar" "ar_refcnt ar = 1" "ar_weakreflist ar = [w]"
    "weakrefs h w = Some wr"
  shows "Py_DECREF_area h a =
           do {
             h2 \<leftarrow> Py_DECREF_stats
                     (h\<lparr>area_objs := (area_objs h)(a \<mapsto> ar\<lparr>ar_refcnt := 0\<rparr>),
                        weakrefs := (weakrefs h)(w \<mapsto> wr\<lparr>wr_object := None\<rparr>)\<rparr>)
                     (ar_stats ar);
             Some (h2\<lparr>area_objs := (area_objs h2)(a := None)\<rparr>)
           }"
  using assms by (simp add: Py_DECREF_area_def DmStatsArea_dealloc_def)

lemma scenario_region:
  assumes st: "stats_objs h s = Some st" and rc: "st_refcnt st = 1"
    and d: "ob_dms st = Some d" and tree: "native h d = Some tree"
    and rng: "0 \<le> i" "i < ob_regions_len st"
    and pres: "dm_stats_region_present tree (nat i)"
    and slots: "ob_regions st = Some slots" and slot: "c_index slots i = Some None"
  shows "\<exists>r h1 h2 h3 st2.
           DmStats_get_item h s i u = Some (Inr (Some (RegionRef r)), h1) \<and>
           Py_DECREF_stats h1 s = Some h2 \<and>
           stats_objs h2 s = Some st2 \<and> st_refcnt st2 = 1 \<and> ob_dms st2 = Some d \<and>
           native h2 d = Some tree \<and>
           DmStatsRegion_nr_areas_getter h2 r =
             Some (Inr (dm_stats_get_region_nr_areas tree (nat i))) \<and>
           Py_DECREF_region h2 r = Some h3 \<and>
           stats_objs h3 s = None \<and> native h3 d = None \<and> region_objs h3 r = None"
proof -
  define r where "r = next_addr h"
  define w where "w = Suc (next_addr h)"
  define rg where "rg = \<lparr>rg_refcnt = 1, ob_stats = s, rg_sequence = ob_sequence st,
             ob_region_id = nat i, rg_weakreflist = [w],
             ob_areas = (if dm_stats_get_region_nr_areas tree (nat i) \<noteq> 0
                         then Some (replicate (dm_stats_get_region_nr_areas tree (nat i)) None)
                         else fst u),
             ob_areas_len = (if dm_stats_get_region_nr_areas tree (nat i) \<noteq> 0
                             then int (dm_stats_get_region_nr_areas tree (nat i))
                             else snd u)\<rparr>"
  define st1 where "st1 = st\<lparr>st_refcnt := Suc (st_refcnt st),
               ob_regions := Some (slots[nat i := Some w])\<rparr>"
  define wr where "wr = \<lparr>wr_refcnt = 1, wr_object = Some (RegionRef r)\<rparr>"
  define h1 where "h1 = h\<lparr>region_objs := (region_objs h)(r \<mapsto> rg),
          stats_objs := (stats_objs h)(s \<mapsto> st1),
          weakrefs := (weakrefs h)(w \<mapsto> wr),
          next_addr := Suc (Suc (next_addr h))\<rparr>"
  have dms: "dms_of h s = Some tree"
    using st d tree by (simp add: dms_of_def)
  have g: "DmStats_get_item h s i u = Some (Inr (Some (RegionRef r)), h1)"
    using st rng dms pres slots slot cache_new_explicit [OF st d tree slots slot, of u]
    by (simp add: DmStats_get_item_def h1_def r_def w_def rg_def st1_def wr_def)
  define st2 where "st2 = st1\<lparr>st_refcnt := 1\<rparr>"
  define h2 where "h2 = h1\<lparr>stats_objs := (stats_objs h1)(s \<mapsto> st2)\<rparr>"
  have s1: "stats_objs h1 s = Some st1" by (simp add: h1_def)
  have d1: "Py_DECREF_stats h1 s = Some h2"
    using decref_stats_shared [OF s1] rc by (simp add: st1_def h2_def st2_def)
  have s2: "stats_objs h2 s = Some st2" by (simp add: h2_def)
  have p2: "st_refcnt st2 = 1" "ob_dms st2 = Some d" "ob_sequence st2 = ob_sequence st"
    using d by (simp_all add: st2_def st1_def)
  have n2: "native h2 d = Some tree"
    using tree by (simp add: h2_def h1_def)
  have r2: "region_objs h2 r = Some rg" by (simp add: h2_def h1_def)
  have getter: "DmStatsRegion_nr_areas_getter h2 r =
             Some (Inr (dm_stats_get_region_nr_areas tree (nat i)))"
    using r2 s2 p2 n2
    by (simp add: DmStatsRegion_nr_areas_getter_def DmStatsRegion_sequence_check_def dms_of_def
        rg_def)
  have w2: "weakrefs h2 w = Some wr" by (simp add: h2_def h1_def)
  define h2' where "h2' = h2\<lparr>region_objs := (region_objs h2)(r \<mapsto> rg\<lparr>rg_refcnt := 0\<rparr>),
                        weakrefs := (weakrefs h2)(w \<mapsto> wr\<lparr>wr_object := None\<rparr>)\<rparr>"
  have s2': "stats_objs h2' s = Some st2" by (simp add: h2'_def s2)
  have n2': "native h2' d = Some tree" by (simp add: h2'_def n2)
  define h3 where "h3 = (h2'\<lparr>native := (native h2')(d := None),
      stats_objs := (stats_objs h2')(s := None)\<rparr>)\<lparr>region_objs := (region_objs h2')(r := None)\<rparr>"
  have d2: "Py_DECREF_region h2 r = Some h3"
    using decref_region_last [OF r2, of w wr] w2 decref_stats_last [OF s2' p2(1,2) n2']
    by (simp add: rg_def h2'_def h3_def)
  have f: "stats_objs h3 s = None" "native h3 d = None" "region_objs h3 r = None"
    by (simp_all add: h3_def)
  show ?thesis
    using g d1 s2 p2 n2 getter d2 f by blast
qed


lemma scenario_area:
  assumes st: "stats_objs h s = Some st" and rc: "st_refcnt st = 1"
    and d: "ob_dms st = Some d" and tree: "native h d = Some tree"
    and rng: "0 \<le> i" "i < ob_regions_len st"
    and pres: "dm_stats_region_present tree (nat i)"
    and slots: "ob_regions st = Some slots" and slot: "c_index slots i = Some None"
    and jrng: "0 \<le> j" "j < int (dm_stats_get_region_nr_areas tree (nat i))"
  shows "\<exists>r a h1 h2 h3 h4 h5 st4.
           DmStats_get_item h s i u = Some (Inr (Some (RegionRef r)), h1) \<and>
           DmStatsRegion_get_item h1 r j = Some (Inr (Some (AreaRef a)), h2) \<and>
           Py_DECREF_stats h2 s = Some h3 \<and>
           Py_DECREF_region h3 r = Some h4 \<and>
           region_objs h4 r = None \<and>
           stats_objs h4 s = Some st4 \<and> st_refcnt st4 = 1 \<and> ob_dms st4 = Some d \<and>
           native h4 d = Some tree \<and>
           map_option ar_stats (area_objs h4 a) = Some s \<and>
           Py_DECREF_area h4 a = Some h5 \<and>
           stats_objs h5 s = None \<and> native h5 d = None \<and> area_objs h5 a = None"
proof -
  define k where "k = dm_stats_get_region_nr_areas tree (nat i)"
  have k0: "k \<noteq> 0" using jrng by (auto simp add: k_def)
  define r where "r = next_addr h"
  define w where "w = Suc (next_addr h)"
  define rg where "rg = \<lparr>rg_refcnt = 1, ob_stats = s, rg_sequence = ob_sequence st,
             ob_region_id = nat i, rg_weakreflist = [w],
             ob_areas = Some (replicate k None), ob_areas_len = int k\<rparr>"
  define st1 where "st1 = st\<lparr>st_refcnt := Suc (Suc 0), ob_regions := Some (slots[nat i := Some w])\<rparr>"
  define wr where "wr = \<lparr>wr_refcnt = 1, wr_object = Some (RegionRef r)\<rparr>"
  define h1 where "h1 = h\<lparr>region_objs := (region_objs h)(r \<mapsto> rg),
          stats_objs := (stats_objs h)(s \<mapsto> st1),
          weakrefs := (weakrefs h)(w \<mapsto> wr),
          next_addr := Suc (Suc (next_addr h))\<rparr>"
  have dms: "dms_of h s = Some tree"
    using st d tree by (simp add: dms_of_def)
  have g: "DmStats_get_item h s i u = Some (Inr (Some (RegionRef r)), h1)"
    using st rng dms pres slots slot k0 rc cache_new_explicit [OF st d tree slots slot, of u]
    by (simp add: DmStats_get_item_def h1_def r_def w_def rg_def st1_def wr_def k_def)
  \<comment> \<open>the area view\<close>
  define a where "a = Suc (Suc (next_addr h))"
  define wa where "wa = Suc (Suc (Suc (next_addr h)))"
  define ar where "ar = \<lparr>ar_refcnt = 1, ar_stats = s, ar_weakreflist = [wa], ob_area_id = nat j\<rparr>"
  define war where "war = \<lparr>wr_refcnt = 1, wr_object = Some (AreaRef a)\<rparr>"
  define rg2 where "rg2 = rg\<lparr>ob_areas := Some ((replicate k None)[nat j := Some wa])\<rparr>"
  define st2 where "st2 = st1\<lparr>st_refcnt := Suc (Suc (Suc 0))\<rparr>"
  define h2 where "h2 = h1\<lparr>area_objs := (area_objs h1)(a \<mapsto> ar),
          stats_objs := (stats_objs h1)(s \<mapsto> st2),
          weakrefs := (weakrefs h1)(wa \<mapsto> war),
          region_objs := (region_objs h1)(r \<mapsto> rg2),
          next_addr := Suc (Suc (next_addr h1))\<rparr>"
  have r1: "region_objs h1 r = Some rg" by (simp add: h1_def)
  have s1: "stats_objs h1 (ob_stats rg) = Some st1" by (simp add: h1_def rg_def)
  have a1: "ob_areas rg = Some (replicate k None)" by (simp add: rg_def)
  have c1: "c_index (replicate k None) j = Some (None :: addr option)"
    using jrng by (simp add: c_index_def k_def)
  have dms1: "dms_of h1 (ob_stats rg) = Some tree"
    using d tree by (simp add: dms_of_def h1_def rg_def st1_def)
  have g2: "DmStatsRegion_get_item h1 r j = Some (Inr (Some (AreaRef a)), h2)"
    using r1 jrng dms1 pres a1 c1 region_cache_new_explicit [OF r1 s1 a1 c1]
    by (simp add: DmStatsRegion_get_item_def rg_def k_def h2_def a_def wa_def ar_def war_def
        rg2_def st2_def st1_def h1_def)
  \<comment> \<open>the caller drops the aggregate\<close>
  define st3 where "st3 = st2\<lparr>st_refcnt := Suc (Suc 0)\<rparr>"
  define h3 where "h3 = h2\<lparr>stats_objs := (stats_objs h2)(s \<mapsto> st3)\<rparr>"
  have s2: "stats_objs h2 s = Some st2" by (simp add: h2_def)
  have d3: "Py_DECREF_stats h2 s = Some h3"
    using decref_stats_shared [OF s2] by (simp add: st2_def h3_def st3_def)
  \<comment> \<open>the caller drops the region view\<close>
  have r3: "region_objs h3 r = Some rg2" by (simp add: h3_def h2_def)
  have w3: "weakrefs h3 w = Some wr" by (simp add: h3_def h2_def h1_def wa_def w_def)
  define h3' where "h3' = h3\<lparr>region_objs := (region_objs h3)(r \<mapsto> rg2\<lparr>rg_refcnt := 0\<rparr>),
                        weakrefs := (weakrefs h3)(w \<mapsto> wr\<lparr>wr_object := None\<rparr>)\<rparr>"
  have s3': "stats_objs h3' s = Some st3" by (simp add: h3'_def h3_def)
  define st4 where "st4 = st3\<lparr>st_refcnt := Suc 0\<rparr>"
  define h4 where "h4 = (h3'\<lparr>stats_objs := (stats_objs h3')(s \<mapsto> st4)\<rparr>)
                          \<lparr>region_objs := (region_objs h3')(r := None)\<rparr>"
  have d4: "Py_DECREF_region h3 r = Some h4"
    using decref_region_last [OF r3, of w wr] w3 decref_stats_shared [OF s3']
    by (simp add: rg2_def rg_def h3'_def h4_def st4_def st3_def)
  have p4: "region_objs h4 r = None" "stats_objs h4 s = Some st4" "st_refcnt st4 = 1"
      "ob_dms st4 = Some d"
    using d by (simp_all add: h4_def st4_def st3_def st2_def st1_def)
  have n4: "native h4 d = Some tree"
    using tree by (simp add: h4_def h3'_def h3_def h2_def h1_def)
  have a4: "area_objs h4 a = Some ar"
    by (simp add: h4_def h3'_def h3_def h2_def)
  have as4: "map_option ar_stats (area_objs h4 a) = Some s"
    by (simp add: a4 ar_def)
  \<comment> \<open>the caller drops the area view\<close>
  have w4: "weakrefs h4 wa = Some war"
    by (simp add: h4_def h3'_def h3_def h2_def wa_def w_def)
  define h4' where "h4' = h4\<lparr>area_objs := (area_objs h4)(a \<mapsto> ar\<lparr>ar_refcnt := 0\<rparr>),
                        weakrefs := (weakrefs h4)(wa \<mapsto> war\<lparr>wr_object := None\<rparr>)\<rparr>"
  have s4': "stats_objs h4' s = Some st4" by (simp add: h4'_def p4)
  have n4': "native h4' d = Some tree" by (simp add: h4'_def n4)
  define h5 where "h5 = (h4'\<lparr>native := (native h4')(d := None),
      stats_objs := (stats_objs h4')(s := None)\<rparr>)\<lparr>area_objs := (area_objs h4')(a := None)\<rparr>"
  have d5: "Py_DECREF_area h4 a = Some h5"
    using decref_area_last [OF a4, of wa war] w4 decref_stats_last [OF s4' p4(3,4) n4']
    by (simp add: ar_def h4'_def h5_def)
  have f: "stats_objs h5 s = None" "native h5 d = None" "area_objs h5 a = None"
    by (simp_all add: h5_def)
  show ?thesis
    using g g2 d3 d4 p4 n4 as4 d5 f by blast
qed

text \<open>
  C4: a \<open>DmStats\<close> object \<open>s\<close> whose only reference is the caller's, with a native
  handle \<open>d\<close> and a populated tree, and a present region \<open>i\<close> with an area \<open>j\<close>.
  \<^item> The constructor of a region view and the constructor of an area view each add one
    reference to the parent and store the parent in the view.
  \<^item> After \<open>s[i]\<close> gave the region view \<open>r\<close>, dropping the caller's reference to \<open>s\<close>
    deallocates neither \<open>s\<close> nor its native handle, and the getters of \<open>r\<close> still
    answer; dropping \<open>r\<close> then deallocates \<open>r\<close>, \<open>s\<close> and the native handle.
  \<^item> After \<open>s[i]\<close> gave \<open>r\<close> and \<open>r[j]\<close> gave the area view \<open>a\<close>, dropping the
    caller's references to \<open>s\<close> and then to \<open>r\<close> deallocates \<open>r\<close> but neither
    \<open>s\<close> nor the native handle, which \<open>a\<close> keeps alive; only dropping \<open>a\<close> as well
    deallocates \<open>s\<close> and destroys the native handle.
  \<^item> In any store, releasing a reference to \<open>s\<close> while its count is above 1 only
    lowers the count: the object, its fields and every native handle stay as they were.
\<close>

theorem parent_outlives_views:
  assumes st: "stats_objs h s = Some st" and rc: "st_refcnt st = 1"
    and d: "ob_dms st = Some d" and tree: "native h d = Some tree"
    and rng: "0 \<le> i" "i < ob_regions_len st"
    and pres: "dm_stats_region_present tree (nat i)"
    and slots: "ob_regions st = Some slots" and slot: "c_index slots i = Some None"
    and jrng: "0 \<le> j" "j < int (dm_stats_get_region_nr_areas tree (nat i))"
  shows
    "(\<exists>r h1. newDmStatsRegionObject h s (nat i) (ob_sequence st) u = Some (r, h1) \<and>
        map_option st_refcnt (stats_objs h1 s) = Some (Suc (st_refcnt st)) \<and>
        map_option ob_stats (region_objs h1 r) = Some s) \<and>
     (\<exists>a h1. newDmStatsAreaObject h s (nat j) = Some (a, h1) \<and>
        map_option st_refcnt (stats_objs h1 s) = Some (Suc (st_refcnt st)) \<and>
        map_option ar_stats (area_objs h1 a) = Some s) \<and>
     (\<exists>r h1 h2 h3 st2.
        DmStats_get_item h s i u = Some (Inr (Some (RegionRef r)), h1) \<and>
        Py_DECREF_stats h1 s = Some h2 \<and>
        stats_objs h2 s = Some st2 \<and> st_refcnt st2 = 1 \<and> ob_dms st2 = Some d \<and>
        native h2 d = Some tree \<and>
        DmStatsRegion_nr_areas_getter h2 r =
          Some (Inr (dm_stats_get_region_nr_areas tree (nat i))) \<and>
        Py_DECREF_region h2 r = Some h3 \<and>
        stats_objs h3 s = None \<and> native h3 d = None \<and> region_objs h3 r = None) \<and>
     (\<exists>r a h1 h2 h3 h4 h5 st4.
        DmStats_get_item h s i u = Some (Inr (Some (RegionRef r)), h1) \<and>
        DmStatsRegion_get_item h1 r j = Some (Inr (Some (AreaRef a)), h2) \<and>
        Py_DECREF_stats h2 s = Some h3 \<and>
        Py_DECREF_region h3 r = Some h4 \<and>
        region_objs h4 r = None \<and>
        stats_objs h4 s = Some st4 \<and> st_refcnt st4 = 1 \<and> ob_dms st4 = Some d \<and>
        native h4 d = Some tree \<and>
        map_option ar_stats (area_objs h4 a) = Some s \<and>
        Py_DECREF_area h4 a = Some h5 \<and>
        stats_objs h5 s = None \<and> native h5 d = None \<and> area_objs h5 a = None) \<and>
     (\<forall>(h' :: heap) st'. stats_objs h' s = Some st' \<and> 1 < st_refcnt st' \<longrightarrow>
        Py_DECREF_stats h' s =
          Some (h'\<lparr>stats_objs := (stats_objs h')(s \<mapsto> st'\<lparr>st_refcnt := st_refcnt st' - 1\<rparr>)\<rparr>))"
proof (intro conjI allI impI)
  fix h' :: heap and st'
  assume "stats_objs h' s = Some st' \<and> 1 < st_refcnt st'"
  then show "Py_DECREF_stats h' s =
          Some (h'\<lparr>stats_objs := (stats_objs h')(s \<mapsto> st'\<lparr>st_refcnt := st_refcnt st' - 1\<rparr>)\<rparr>)"
    by (simp add: decref_stats_shared)
next
  show "\<exists>r h1. newDmStatsRegionObject h s (nat i) (ob_sequence st) u = Some (r, h1) \<and>
        map_option st_refcnt (stats_objs h1 s) = Some (Suc (st_refcnt st)) \<and>
        map_option ob_stats (region_objs h1 r) = Some s"
    using st by (simp add: newDmStatsRegionObject_def Py_INCREF_stats_def Let_def)
  show "\<exists>a h1. newDmStatsAreaObject h s (nat j) = Some (a, h1) \<and>
        map_option st_refcnt (stats_objs h1 s) = Some (Suc (st_refcnt st)) \<and>
        map_option ar_stats (area_objs h1 a) = Some s"
    using st by (simp add: newDmStatsAreaObject_def Py_INCREF_stats_def Let_def)
  show "\<exists>r h1 h2 h3 st2.
        DmStats_get_item h s i u = Some (Inr (Some (RegionRef r)), h1) \<and>
        Py_DECREF_stats h1 s = Some h2 \<and>
        stats_objs h2 s = Some st2 \<and> st_refcnt st2 = 1 \<and> ob_dms st2 = Some d \<and>
        native h2 d = Some tree \<and>
        DmStatsRegion_nr_areas_getter h2 r =
          Some (Inr (dm_stats_get_region_nr_areas tree (nat i))) \<and>
        Py_DECREF_region h2 r = Some h3 \<and>
        stats_objs h3 s = None \<and> native h3 d = None \<and> region_objs h3 r = None"
    by (rule scenario_region [OF st rc d tree rng pres slots slot])
  show "\<exists>r a h1 h2 h3 h4 h5 st4.
        DmStats_get_item h s i u = Some (Inr (Some (RegionRef r)), h1) \<and>
        DmStatsRegion_get_item h1 r j = Some (Inr (Some (AreaRef a)), h2) \<and>
        Py_DECREF_stats h2 s = Some h3 \<and>
        Py_DECREF_region h3 r = Some h4 \<and>
        region_objs h4 r = None \<and>
        stats_objs h4 s = Some st4 \<and> st_refcnt st4 = 1 \<and> ob_dms st4 = Some d \<and>
        native h4 d = Some tree \<and>
        map_option ar_stats (area_objs h4 a) = Some s \<and>
        Py_DECREF_area h4 a = Some h5 \<and>
        stats_objs h5 s = None \<and> native h5 d = None \<and> area_objs h5 a = None"
    by (rule scenario_area [OF st rc d tree rng pres slots slot jrng])
qed

text \<open>
  The witness: the object of \<open>heap_listed\<close>, its region 1 and the area 0 of that
  region. Dropping the aggregate after \<open>stats[1]\<close> leaves it allocated, with one
  reference.
\<close>

theorem parent_outlives_views_witness:
  "stats_objs heap_listed 0 =
     Some \<lparr>st_refcnt = 1, ob_dms = Some 1, ob_sequence = 1,
           ob_regions = Some [None, None], ob_regions_len = 2\<rparr> \<and>
   native heap_listed 1 = Some example_tree \<and>
   dm_stats_region_present example_tree (nat 1) \<and>
   c_index [None, None :: addr option] 1 = Some None \<and>
   (0 :: int) < int (dm_stats_get_region_nr_areas example_tree (nat 1)) \<and>
   (\<exists>r h1 h2 h3 st2.
      DmStats_get_item heap_listed 0 1 (None, 0) = Some (Inr (Some (RegionRef r)), h1) \<and>
      Py_DECREF_stats h1 0 = Some h2 \<and>
      stats_objs h2 0 = Some st2 \<and> st_refcnt st2 = 1 \<and> ob_dms st2 = Some 1 \<and>
      native h2 1 = Some example_tree \<and>
      DmStatsRegion_nr_areas_getter h2 r =
        Some (Inr (dm_stats_get_region_nr_areas example_tree (nat 1))) \<and>
      Py_DECREF_region h2 r = Some h3 \<and>
      stats_objs h3 0 = None \<and> native h3 1 = None \<and> region_objs h3 r = None)"
proof -
  define st where "st = \<lparr>st_refcnt = 1, ob_dms = Some 1, ob_sequence = 1,
           ob_regions = Some [None, None], ob_regions_len = 2\<rparr>"
  have st: "stats_objs heap_listed 0 = Some st"
    by (simp add: heap_listed_def st_def)
  have rc: "st_refcnt st = 1" and d: "ob_dms st = Some 1"
    and hi: "1 < ob_regions_len st" and sl: "ob_regions st = Some [None, None]"
    by (simp_all add: st_def)
  have lo: "(0 :: int) \<le> 1" and j0: "(0 :: int) \<le> 0"
    by simp_all
  have n: "native heap_listed 1 = Some example_tree"
    by (simp add: heap_listed_def)
  have p: "dm_stats_region_present example_tree (nat 1)"
    by (simp add: dm_stats_region_present_def example_tree_def)
  have c: "c_index [None, None :: addr option] 1 = Some None"
    by (simp add: c_index_def)
  have k: "(0 :: int) < int (dm_stats_get_region_nr_areas example_tree (nat 1))"
    by (simp add: dm_stats_get_region_nr_areas_def example_tree_def)
  note t = parent_outlives_views [OF st rc d n lo hi p sl c j0 k, of "(None, 0)"]
  show ?thesis
    using st [unfolded st_def] n p c k t by blast
qed

end
